theory Spec2Isabelle
  imports Complex_Main "HOL-Library.Word"
begin

unbundle bit_operations_syntax

section \<open>Conventions of the embedding\<close>

text \<open>
  The development embeds \<^verbatim>\<open>source/blender/blenkernel/intern/subdiv_mesh.cc\<close> and the
  single-layer part of \<^verbatim>\<open>mesh_tangent.cc\<close>.

  \<^item> A C \<^verbatim>\<open>float\<close> is a \<open>real\<close>: rounding is not modelled, so every equation between
    positions below is an equation of exact arithmetic. A division by zero, infinite in
    float arithmetic, is 0 in HOL; the one division of the source (by the accumulation
    counter) is used below for a positive counter only.
  \<^item> An index or a count is a \<open>nat\<close>; the only index with a sentinel, the coarse edge
    index of the edge callback, is an \<open>int\<close> compared with \<open>ORIGINDEX_NONE\<close>.
  \<^item> A pointer that may be null is an \<open>option\<close>. A pointer into an array is the index of
    the element, so \<^verbatim>\<open>subdiv_vert - ctx->subdiv_verts\<close> is the index itself.
  \<^item> A read or write outside an array, or through a null pointer, is undefined behaviour in
    the source. Where only a call outside the driver's contract leads to it, the functions
    below are total: a write outside the array (\<open>xs[i := x]\<close>) or through \<open>None\<close> changes
    nothing, and theorems that depend on an access state that it is in range. The one write
    through a null pointer that a well-formed mesh leads to (the orco helper on a mesh with a
    cloth-orco layer and no orco layer) is a fault: it is recorded in the member \<open>faults\<close>
    of the context (a ghost member: the source crashes there, and what the model computes
    after a fault is not a state of the program).
  \<^item> The cached layer pointers of the context (\<^verbatim>\<open>subdiv_verts\<close>, \<^verbatim>\<open>vert_origindex\<close>,
    \<^verbatim>\<open>orco\<close>, ...) alias the layers of \<^verbatim>\<open>subdiv_mesh\<close>; the model reads and writes the
    layers of \<open>subdiv_mesh\<close> directly.
\<close>

section \<open>Vectors\<close>

type_synonym float2 = "real \<times> real"
type_synonym float3 = "real \<times> real \<times> real"
type_synonym float4 = "real \<times> real \<times> real \<times> real"

text \<open>
  Modelled from the spec: the helpers of \<^verbatim>\<open>BLI_math_vector\<close>, which are not under src/.
  They are the componentwise operations their names and the spec's formulas say (add into,
  subtract, scale, ``linear lerp by u'', ``blend the 4 control points''). A C function that
  writes its first argument returns it here.
\<close>

definition zero_v3 :: float3 where
  "zero_v3 = (0, 0, 0)"

fun add_v3_v3 :: "float3 \<Rightarrow> float3 \<Rightarrow> float3" where
  "add_v3_v3 (rx, ry, rz) (ax, ay, az) = (rx + ax, ry + ay, rz + az)"

fun sub_v3_v3v3 :: "float3 \<Rightarrow> float3 \<Rightarrow> float3" where
  "sub_v3_v3v3 (ax, ay, az) (bx, by, bz) = (ax - bx, ay - by, az - bz)"

fun mul_v3_fl :: "float3 \<Rightarrow> real \<Rightarrow> float3" where
  "mul_v3_fl (rx, ry, rz) f = (rx * f, ry * f, rz * f)"

definition interp_v3_v3v3 :: "float3 \<Rightarrow> float3 \<Rightarrow> real \<Rightarrow> float3" where
  "interp_v3_v3v3 a b t = add_v3_v3 (mul_v3_fl a (1 - t)) (mul_v3_fl b t)"

definition interp_v3_v3v3v3v3 ::
  "float3 \<Rightarrow> float3 \<Rightarrow> float3 \<Rightarrow> float3 \<Rightarrow> float4 \<Rightarrow> float3" where
  "interp_v3_v3v3v3v3 p0 p1 p2 p3 w =
     (case w of (w0, w1, w2, w3) \<Rightarrow>
        add_v3_v3 (add_v3_v3 (mul_v3_fl p0 w0) (mul_v3_fl p1 w1))
                  (add_v3_v3 (mul_v3_fl p2 w2) (mul_v3_fl p3 w3)))"

text \<open>The sum of a list of vectors, used to state what the accumulator holds.\<close>

fun sum_v3 :: "float3 list \<Rightarrow> float3" where
  "sum_v3 [] = zero_v3"
| "sum_v3 (d # ds) = add_v3_v3 d (sum_v3 ds)"

section \<open>Mesh data\<close>

text \<open>
  The element structs of \<^verbatim>\<open>DNA_meshdata_types.h\<close> (not under src/), with the members the
  two source files read or write. The members \<^verbatim>\<open>v\<close>, \<^verbatim>\<open>e\<close>, \<^verbatim>\<open>v1\<close>, \<^verbatim>\<open>v2\<close>
  and \<^verbatim>\<open>flag\<close> carry the struct's name, since a record field is a constant of the theory.
\<close>

record MVert =
  co :: float3

record MEdge =
  edge_v1 :: nat
  edge_v2 :: nat
  edge_flag :: "16 word"

record MLoop =
  loop_v :: nat
  loop_e :: nat

record MPoly =
  loopstart :: nat
  totloop :: nat

text \<open>
  The custom data of the four domains, one list per layer, a layer that may be absent being
  an \<open>option\<close>. The layers are those the two files look up by type: the element structs
  themselves (\<^verbatim>\<open>CD_MVERT\<close>, \<^verbatim>\<open>CD_MEDGE\<close>, \<^verbatim>\<open>CD_MLOOP\<close>, \<^verbatim>\<open>CD_MPOLY\<close>), the origin
  indices, the two orco layers, the named UV maps and the loop normals. Every other layer
  is known by the mask constant of its type only (the \<open>extra\<close> lists: the multires grids
  and the creases are among them); its elements are not modelled.
\<close>

record VData =
  cd_mvert :: "MVert list"
  cd_vert_origindex :: "int list option"
  cd_orco :: "float3 list option"
  cd_cloth_orco :: "float3 list option"
  cd_vert_extra :: "64 word list"

record EData =
  cd_medge :: "MEdge list"
  cd_edge_origindex :: "int list option"
  cd_edge_extra :: "64 word list"

record LData =
  cd_mloop :: "MLoop list"
  cd_loop_origindex :: "int list option"
  cd_mloopuv :: "(string \<times> float2 list) list"
  cd_normal :: "float3 list option"
  cd_loop_extra :: "64 word list"

record PData =
  cd_mpoly :: "MPoly list"
  cd_poly_origindex :: "int list option"
  cd_poly_extra :: "64 word list"

record Mesh =
  totvert :: nat
  totedge :: nat
  mesh_totloop :: nat
  totpoly :: nat
  vdata :: VData
  edata :: EData
  ldata :: LData
  pdata :: PData
  subsurf_face_dot_tags :: "bool list option"

definition ORIGINDEX_NONE :: int where
  "ORIGINDEX_NONE = - 1"

text \<open>
  The constants of headers that are not under src/ are parameters: every function that
  names one takes the record \<open>K\<close> of their values.
\<close>

record CustomData_MeshMasks =
  vmask :: "64 word"
  emask :: "64 word"
  fmask :: "64 word"
  pmask :: "64 word"
  lmask :: "64 word"

record Constants =
  CD_MASK_EVERYTHING :: CustomData_MeshMasks
  CD_MASK_MULTIRES_GRIDS :: "64 word"
  CD_MASK_CREASE :: "64 word"
  ME_EDGERENDER :: "16 word"

section \<open>The custom-data contract\<close>

text \<open>
  Modelled from the spec: the custom-data container (\<^verbatim>\<open>BKE_customdata\<close>, not under src/),
  section 6: \<^verbatim>\<open>copy_range(src, dst, src_index, dst_index, count)\<close>,
  \<^verbatim>\<open>interpolate(src, dst, src_indices[], weights[], count, dst_index)\<close> and
  \<^verbatim>\<open>free_range\<close>, each working layer by layer. A layer present on one side only is skipped.
  Interpolation blends the numeric layers by the weights and leaves an origin index as it
  is (the source sets it itself where it wants one).
\<close>

definition copy_layer ::
  "'a list option \<Rightarrow> 'a list option \<Rightarrow> nat \<Rightarrow> nat \<Rightarrow> 'a list option" where
  "copy_layer src dst si di =
     (case dst of None \<Rightarrow> None
      | Some d \<Rightarrow> (case src of None \<Rightarrow> Some d | Some s \<Rightarrow> Some (d[di := s ! si])))"

fun interp_v3 :: "float3 list \<Rightarrow> nat list \<Rightarrow> real list \<Rightarrow> float3" where
  "interp_v3 s (i # is) (w # ws) = add_v3_v3 (mul_v3_fl (s ! i) w) (interp_v3 s is ws)"
| "interp_v3 s _ _ = zero_v3"

definition interp_layer_v3 ::
  "float3 list option \<Rightarrow> float3 list option \<Rightarrow> nat list \<Rightarrow> real list \<Rightarrow> nat
     \<Rightarrow> float3 list option" where
  "interp_layer_v3 src dst is ws di =
     (case dst of None \<Rightarrow> None
      | Some d \<Rightarrow> (case src of None \<Rightarrow> Some d | Some s \<Rightarrow> Some (d[di := interp_v3 s is ws])))"

definition CustomData_copy_data_vert :: "VData \<Rightarrow> VData \<Rightarrow> nat \<Rightarrow> nat \<Rightarrow> VData" where
  "CustomData_copy_data_vert src dst si di =
     dst\<lparr>cd_mvert := (cd_mvert dst)[di := cd_mvert src ! si],
         cd_vert_origindex := copy_layer (cd_vert_origindex src) (cd_vert_origindex dst) si di,
         cd_orco := copy_layer (cd_orco src) (cd_orco dst) si di,
         cd_cloth_orco := copy_layer (cd_cloth_orco src) (cd_cloth_orco dst) si di\<rparr>"

definition CustomData_interp_vert ::
  "VData \<Rightarrow> VData \<Rightarrow> nat list \<Rightarrow> real list \<Rightarrow> nat \<Rightarrow> VData" where
  "CustomData_interp_vert src dst is ws di =
     dst\<lparr>cd_mvert := (cd_mvert dst)[di := \<lparr>co = interp_v3 (map co (cd_mvert src)) is ws\<rparr>],
         cd_orco := interp_layer_v3 (cd_orco src) (cd_orco dst) is ws di,
         cd_cloth_orco := interp_layer_v3 (cd_cloth_orco src) (cd_cloth_orco dst) is ws di\<rparr>"

text \<open>
  Modelled from the spec: the allocation and release of a custom-data container.
  \<^verbatim>\<open>CustomData_copy(src, dst, mask, CD_SET_DEFAULT, n)\<close>: \<open>dst\<close> gets the layers of
  \<open>src\<close> that the mask keeps, with \<open>n\<close> default (zero) elements each. The layers the
  model names are kept by every mask the source passes (they are neither multires grids
  nor creases); an extra layer is kept when the mask has its bit.
  \<^verbatim>\<open>CustomData_free\<close> leaves no layer.
\<close>

definition mask_layers :: "64 word \<Rightarrow> 64 word list \<Rightarrow> 64 word list" where
  "mask_layers cd_mask extra = filter (\<lambda>t. t AND cd_mask \<noteq> 0) extra"

definition CustomData_copy_vert :: "VData \<Rightarrow> 64 word \<Rightarrow> nat \<Rightarrow> VData" where
  "CustomData_copy_vert src cd_mask n =
     \<lparr>cd_mvert = replicate n \<lparr>co = zero_v3\<rparr>,
      cd_vert_origindex = map_option (\<lambda>_. replicate n 0) (cd_vert_origindex src),
      cd_orco = map_option (\<lambda>_. replicate n zero_v3) (cd_orco src),
      cd_cloth_orco = map_option (\<lambda>_. replicate n zero_v3) (cd_cloth_orco src),
      cd_vert_extra = mask_layers cd_mask (cd_vert_extra src)\<rparr>"

definition CustomData_free_vert :: VData where
  "CustomData_free_vert =
     \<lparr>cd_mvert = [], cd_vert_origindex = None, cd_orco = None, cd_cloth_orco = None,
      cd_vert_extra = []\<rparr>"

definition CustomData_copy_edge :: "EData \<Rightarrow> 64 word \<Rightarrow> nat \<Rightarrow> EData" where
  "CustomData_copy_edge src cd_mask n =
     \<lparr>cd_medge = replicate n \<lparr>edge_v1 = 0, edge_v2 = 0, edge_flag = 0\<rparr>,
      cd_edge_origindex = map_option (\<lambda>_. replicate n 0) (cd_edge_origindex src),
      cd_edge_extra = mask_layers cd_mask (cd_edge_extra src)\<rparr>"

definition CustomData_copy_poly :: "PData \<Rightarrow> 64 word \<Rightarrow> nat \<Rightarrow> PData" where
  "CustomData_copy_poly src cd_mask n =
     \<lparr>cd_mpoly = replicate n \<lparr>loopstart = 0, totloop = 0\<rparr>,
      cd_poly_origindex = map_option (\<lambda>_. replicate n 0) (cd_poly_origindex src),
      cd_poly_extra = mask_layers cd_mask (cd_poly_extra src)\<rparr>"

definition CustomData_copy_data_edge :: "EData \<Rightarrow> EData \<Rightarrow> nat \<Rightarrow> nat \<Rightarrow> EData" where
  "CustomData_copy_data_edge src dst si di =
     dst\<lparr>cd_medge := (cd_medge dst)[di := cd_medge src ! si],
         cd_edge_origindex := copy_layer (cd_edge_origindex src) (cd_edge_origindex dst) si di\<rparr>"

definition CustomData_copy_data_poly :: "PData \<Rightarrow> PData \<Rightarrow> nat \<Rightarrow> nat \<Rightarrow> PData" where
  "CustomData_copy_data_poly src dst si di =
     dst\<lparr>cd_mpoly := (cd_mpoly dst)[di := cd_mpoly src ! si],
         cd_poly_origindex := copy_layer (cd_poly_origindex src) (cd_poly_origindex dst) si di\<rparr>"

text \<open>
  Modelled from the spec: the same contract on the loop domain. The UV maps are blended
  like any numeric layer; the loop struct (two indices), the origin index and the normals
  are left to the caller.
\<close>

fun interp_v2 :: "float2 list \<Rightarrow> nat list \<Rightarrow> real list \<Rightarrow> float2" where
  "interp_v2 s (i # is) (w # ws) =
     (case (s ! i, interp_v2 s is ws) of ((a, b), (c, d)) \<Rightarrow> (a * w + c, b * w + d))"
| "interp_v2 s _ _ = (0, 0)"

fun interp_uv_layers ::
  "(string \<times> float2 list) list \<Rightarrow> (string \<times> float2 list) list \<Rightarrow> nat list \<Rightarrow> real list \<Rightarrow> nat
     \<Rightarrow> (string \<times> float2 list) list" where
  "interp_uv_layers ((sn, s) # ss) ((dn, d) # ds) is ws di =
     (dn, d[di := interp_v2 s is ws]) # interp_uv_layers ss ds is ws di"
| "interp_uv_layers _ ds _ _ _ = ds"

fun copy_uv_layers ::
  "(string \<times> float2 list) list \<Rightarrow> (string \<times> float2 list) list \<Rightarrow> nat \<Rightarrow> nat
     \<Rightarrow> (string \<times> float2 list) list" where
  "copy_uv_layers ((sn, s) # ss) ((dn, d) # ds) si di =
     (dn, d[di := s ! si]) # copy_uv_layers ss ds si di"
| "copy_uv_layers _ ds _ _ = ds"

definition CustomData_copy_data_loop :: "LData \<Rightarrow> LData \<Rightarrow> nat \<Rightarrow> nat \<Rightarrow> LData" where
  "CustomData_copy_data_loop src dst si di =
     dst\<lparr>cd_mloop := (cd_mloop dst)[di := cd_mloop src ! si],
         cd_loop_origindex := copy_layer (cd_loop_origindex src) (cd_loop_origindex dst) si di,
         cd_mloopuv := copy_uv_layers (cd_mloopuv src) (cd_mloopuv dst) si di,
         cd_normal := copy_layer (cd_normal src) (cd_normal dst) si di\<rparr>"

definition CustomData_interp_loop ::
  "LData \<Rightarrow> LData \<Rightarrow> nat list \<Rightarrow> real list \<Rightarrow> nat \<Rightarrow> LData" where
  "CustomData_interp_loop src dst is ws di =
     dst\<lparr>cd_mloopuv := interp_uv_layers (cd_mloopuv src) (cd_mloopuv dst) is ws di\<rparr>"

definition CustomData_copy_loop :: "LData \<Rightarrow> 64 word \<Rightarrow> nat \<Rightarrow> LData" where
  "CustomData_copy_loop src cd_mask n =
     \<lparr>cd_mloop = replicate n \<lparr>loop_v = 0, loop_e = 0\<rparr>,
      cd_loop_origindex = map_option (\<lambda>_. replicate n 0) (cd_loop_origindex src),
      cd_mloopuv = map (\<lambda>(name, _). (name, replicate n (0, 0))) (cd_mloopuv src),
      cd_normal = map_option (\<lambda>_. replicate n zero_v3) (cd_normal src),
      cd_loop_extra = mask_layers cd_mask (cd_loop_extra src)\<rparr>"

definition CustomData_free_loop :: LData where
  "CustomData_free_loop =
     \<lparr>cd_mloop = [], cd_loop_origindex = None, cd_mloopuv = [], cd_normal = None,
      cd_loop_extra = []\<rparr>"

text \<open>
  The calls a function makes on a scratch custom-data buffer, in order. The buffers of the
  interpolation caches carry this list (a ghost member: the source has none), so that an
  allocation, an interpolation or a release shows in the state.
\<close>

datatype cd_call =
    CD_copy nat
  | CD_copy_data nat
  | CD_free_elem nat
  | CD_interp nat
  | CD_free nat

section \<open>The evaluator\<close>

text \<open>
  Modelled from the spec: the limit evaluator (\<^verbatim>\<open>BKE_subdiv_eval\<close>, not under src/) is an
  oracle with the query contract of section 6; each query \<^verbatim>\<open>BKE_subdiv_eval_*\<close> is the
  member \<open>eval_*\<close> of the record. \<open>eval_vertex_data\<close> returns the two packed vectors (\<^verbatim>\<open>vertex_data\<close> and
  \<^verbatim>\<open>vertex_data + 3\<close> of the six floats). \<open>displacement_evaluator\<close> is the pointer
  the entry point tests; the displacement query returns its value.
\<close>

record Subdiv =
  is_simple :: bool
  displacement_evaluator :: "(nat \<Rightarrow> real \<Rightarrow> real \<Rightarrow> float3 \<Rightarrow> float3 \<Rightarrow> float3) option"
  eval_limit_point :: "nat \<Rightarrow> real \<Rightarrow> real \<Rightarrow> float3"
  eval_limit_point_and_derivatives :: "nat \<Rightarrow> real \<Rightarrow> real \<Rightarrow> float3 \<times> float3 \<times> float3"
  eval_final_point :: "nat \<Rightarrow> real \<Rightarrow> real \<Rightarrow> float3"
  eval_vertex_data :: "nat \<Rightarrow> real \<Rightarrow> real \<Rightarrow> float3 \<times> float3"
  eval_face_varying :: "nat \<Rightarrow> nat \<Rightarrow> real \<Rightarrow> real \<Rightarrow> float2"

definition BKE_subdiv_eval_displacement ::
  "Subdiv \<Rightarrow> nat \<Rightarrow> real \<Rightarrow> real \<Rightarrow> float3 \<Rightarrow> float3 \<Rightarrow> float3" where
  "BKE_subdiv_eval_displacement sd ptex_face_index u v dPdu dPdv =
     (case displacement_evaluator sd of
        None \<Rightarrow> zero_v3
      | Some f \<Rightarrow> f ptex_face_index u v dPdu dPdv)"

section \<open>Subdivision context\<close>

record SubdivToMeshSettings =
  resolution :: nat
  use_optimal_display :: bool

text \<open>A write through the null orco pointer, at the vertex index given.\<close>

datatype fault = Null_orco_write nat

record SubdivMeshContext =
  settings :: SubdivToMeshSettings
  coarse_mesh :: Mesh
  subdiv :: Subdiv
  subdiv_mesh :: "Mesh option"
  accumulated_counters :: "nat list option"
  have_displacement :: bool
  vert_to_edge_map :: "nat list list option"
  faults :: "fault list"

definition coarse_verts :: "SubdivMeshContext \<Rightarrow> MVert list" where
  "coarse_verts ctx = cd_mvert (vdata (coarse_mesh ctx))"

definition coarse_edges :: "SubdivMeshContext \<Rightarrow> MEdge list" where
  "coarse_edges ctx = cd_medge (edata (coarse_mesh ctx))"

definition coarse_polys :: "SubdivMeshContext \<Rightarrow> MPoly list" where
  "coarse_polys ctx = cd_mpoly (pdata (coarse_mesh ctx))"

definition coarse_loops :: "SubdivMeshContext \<Rightarrow> MLoop list" where
  "coarse_loops ctx = cd_mloop (ldata (coarse_mesh ctx))"

text \<open>Reading and writing the output mesh through the context.\<close>

definition map_subdiv_mesh :: "(Mesh \<Rightarrow> Mesh) \<Rightarrow> SubdivMeshContext \<Rightarrow> SubdivMeshContext" where
  "map_subdiv_mesh f ctx = ctx\<lparr>subdiv_mesh := map_option f (subdiv_mesh ctx)\<rparr>"

definition map_vdata :: "(VData \<Rightarrow> VData) \<Rightarrow> Mesh \<Rightarrow> Mesh" where
  "map_vdata f m = m\<lparr>vdata := f (vdata m)\<rparr>"

definition map_edata :: "(EData \<Rightarrow> EData) \<Rightarrow> Mesh \<Rightarrow> Mesh" where
  "map_edata f m = m\<lparr>edata := f (edata m)\<rparr>"

definition map_ldata :: "(LData \<Rightarrow> LData) \<Rightarrow> Mesh \<Rightarrow> Mesh" where
  "map_ldata f m = m\<lparr>ldata := f (ldata m)\<rparr>"

definition map_pdata :: "(PData \<Rightarrow> PData) \<Rightarrow> Mesh \<Rightarrow> Mesh" where
  "map_pdata f m = m\<lparr>pdata := f (pdata m)\<rparr>"

definition subdiv_verts :: "SubdivMeshContext \<Rightarrow> MVert list" where
  "subdiv_verts ctx = (case subdiv_mesh ctx of None \<Rightarrow> [] | Some m \<Rightarrow> cd_mvert (vdata m))"

definition subdiv_edges :: "SubdivMeshContext \<Rightarrow> MEdge list" where
  "subdiv_edges ctx = (case subdiv_mesh ctx of None \<Rightarrow> [] | Some m \<Rightarrow> cd_medge (edata m))"

definition ctx_orco :: "SubdivMeshContext \<Rightarrow> float3 list option" where
  "ctx_orco ctx = (case subdiv_mesh ctx of None \<Rightarrow> None | Some m \<Rightarrow> cd_orco (vdata m))"

definition ctx_cloth_orco :: "SubdivMeshContext \<Rightarrow> float3 list option" where
  "ctx_cloth_orco ctx =
     (case subdiv_mesh ctx of None \<Rightarrow> None | Some m \<Rightarrow> cd_cloth_orco (vdata m))"

definition ctx_vert_origindex :: "SubdivMeshContext \<Rightarrow> int list option" where
  "ctx_vert_origindex ctx =
     (case subdiv_mesh ctx of None \<Rightarrow> None | Some m \<Rightarrow> cd_vert_origindex (vdata m))"

definition ctx_edge_origindex :: "SubdivMeshContext \<Rightarrow> int list option" where
  "ctx_edge_origindex ctx =
     (case subdiv_mesh ctx of None \<Rightarrow> None | Some m \<Rightarrow> cd_edge_origindex (edata m))"

definition set_vert_co :: "nat \<Rightarrow> float3 \<Rightarrow> SubdivMeshContext \<Rightarrow> SubdivMeshContext" where
  "set_vert_co i p =
     map_subdiv_mesh (map_vdata (\<lambda>vd. vd\<lparr>cd_mvert := (cd_mvert vd)[i := (cd_mvert vd ! i)\<lparr>co := p\<rparr>]\<rparr>))"

definition set_orco_layer :: "float3 list option \<Rightarrow> SubdivMeshContext \<Rightarrow> SubdivMeshContext" where
  "set_orco_layer layer = map_subdiv_mesh (map_vdata (\<lambda>vd. vd\<lparr>cd_orco := layer\<rparr>))"

text \<open>
  \<^verbatim>\<open>copy_v3_v3(ctx->orco[i], p)\<close>: the write of a vector into the orco array at \<open>i\<close>.
  Through the null pointer it writes nothing and is a fault.
\<close>

definition write_orco :: "nat \<Rightarrow> float3 \<Rightarrow> SubdivMeshContext \<Rightarrow> SubdivMeshContext" where
  "write_orco i p ctx =
     (case ctx_orco ctx of
        None \<Rightarrow> ctx\<lparr>faults := faults ctx @ [Null_orco_write i]\<rparr>
      | Some orco \<Rightarrow> set_orco_layer (Some (orco[i := p])) ctx)"

definition set_vert_origindex :: "nat \<Rightarrow> int \<Rightarrow> SubdivMeshContext \<Rightarrow> SubdivMeshContext" where
  "set_vert_origindex i x =
     map_subdiv_mesh (map_vdata (\<lambda>vd.
       vd\<lparr>cd_vert_origindex := map_option (\<lambda>xs. xs[i := x]) (cd_vert_origindex vd)\<rparr>))"

definition set_face_dot_tag :: "nat \<Rightarrow> bool \<Rightarrow> SubdivMeshContext \<Rightarrow> SubdivMeshContext" where
  "set_face_dot_tag i b =
     map_subdiv_mesh (\<lambda>m.
       m\<lparr>subsurf_face_dot_tags := map_option (\<lambda>xs. xs[i := b]) (subsurf_face_dot_tags m)\<rparr>)"

definition subdiv_mesh_prepare_accumulator :: "SubdivMeshContext \<Rightarrow> nat \<Rightarrow> SubdivMeshContext" where
  "subdiv_mesh_prepare_accumulator ctx num_vertices =
     (if \<not> have_displacement ctx then ctx
      else ctx\<lparr>accumulated_counters := Some (replicate num_vertices 0)\<rparr>)"

definition subdiv_mesh_context_free :: "SubdivMeshContext \<Rightarrow> SubdivMeshContext" where
  "subdiv_mesh_context_free ctx = ctx\<lparr>accumulated_counters := None, vert_to_edge_map := None\<rparr>"

section \<open>Loop custom data copy helpers\<close>

text \<open>The loops of a ptex face, as indices into the coarse loop array.\<close>

record LoopsOfPtex =
  first_loop :: nat
  last_loop :: nat
  second_loop :: "nat option"
  third_loop :: "nat option"

definition loops_of_ptex_get :: "MPoly \<Rightarrow> nat \<Rightarrow> LoopsOfPtex" where
  "loops_of_ptex_get coarse_poly ptex_of_poly_index =
     (let first_ptex_loop_index = loopstart coarse_poly + ptex_of_poly_index;
          last_ptex_loop_index =
            loopstart coarse_poly
              + (ptex_of_poly_index + totloop coarse_poly - 1) mod totloop coarse_poly
      in \<lparr>first_loop = first_ptex_loop_index,
          last_loop = last_ptex_loop_index,
          second_loop = (if totloop coarse_poly = 4 then Some (first_ptex_loop_index + 1) else None),
          third_loop = (if totloop coarse_poly = 4 then Some (first_ptex_loop_index + 2) else None)\<rparr>)"

section \<open>Vertex custom data interpolation helpers\<close>

text \<open>
  \<^verbatim>\<open>vertex_data\<close> points either at the custom data of the coarse mesh or at the scratch
  storage of the cache itself; it is null in the zeroed thread-local state.
\<close>

datatype data_ref = Null_data | Coarse_data | Storage_data

record VerticesForInterpolation =
  vertex_data :: data_ref
  vertex_data_storage :: VData
  vertex_data_storage_allocated :: bool
  vertex_indices :: "nat list"
  vertex_cd_calls :: "cd_call list"

definition vertex_interpolation_init ::
  "Constants \<Rightarrow> SubdivMeshContext \<Rightarrow> VerticesForInterpolation \<Rightarrow> MPoly
     \<Rightarrow> VerticesForInterpolation" where
  "vertex_interpolation_init K ctx vertex_interpolation coarse_poly =
     (let coarse_mloop = coarse_loops ctx in
      if totloop coarse_poly = 4 then
        vertex_interpolation
          \<lparr>vertex_data := Coarse_data,
           vertex_indices :=
             [loop_v (coarse_mloop ! (loopstart coarse_poly + 0)),
              loop_v (coarse_mloop ! (loopstart coarse_poly + 1)),
              loop_v (coarse_mloop ! (loopstart coarse_poly + 2)),
              loop_v (coarse_mloop ! (loopstart coarse_poly + 3))],
           vertex_data_storage_allocated := False\<rparr>
      else
        (let storage = CustomData_copy_vert (vdata (coarse_mesh ctx))
                         (vmask (CD_MASK_EVERYTHING K)) 4;
             weight = 1 / real (totloop coarse_poly);
             weights = replicate (totloop coarse_poly) weight;
             indices = map (\<lambda>i. loop_v (coarse_mloop ! (loopstart coarse_poly + i)))
                         [0 ..< totloop coarse_poly]
         in vertex_interpolation
              \<lparr>vertex_data := Storage_data,
               vertex_data_storage :=
                 CustomData_interp_vert (vdata (coarse_mesh ctx)) storage indices weights 2,
               vertex_indices := [0, 1, 2, 3],
               vertex_data_storage_allocated := True,
               vertex_cd_calls := vertex_cd_calls vertex_interpolation @ [CD_copy 4, CD_interp 2]\<rparr>))"

definition vertex_interpolation_from_corner ::
  "SubdivMeshContext \<Rightarrow> VerticesForInterpolation \<Rightarrow> MPoly \<Rightarrow> nat \<Rightarrow> VerticesForInterpolation" where
  "vertex_interpolation_from_corner ctx vertex_interpolation coarse_poly corner =
     (if totloop coarse_poly = 4 then vertex_interpolation
      else
        (let vertex_data = vdata (coarse_mesh ctx);
             coarse_mloop = coarse_loops ctx;
             loops_of_ptex = loops_of_ptex_get coarse_poly corner;
             storage0 = CustomData_copy_data_vert vertex_data
                          (vertex_data_storage vertex_interpolation)
                          (loop_v (coarse_mloop ! (loopstart coarse_poly + corner))) 0;
             weights = [1 / 2, 1 / 2];
             first_loop_index = first_loop loops_of_ptex;
             last_loop_index = last_loop loops_of_ptex;
             first_indices =
               [loop_v (coarse_mloop ! first_loop_index),
                loop_v (coarse_mloop ! (loopstart coarse_poly
                   + (first_loop_index - loopstart coarse_poly + 1) mod totloop coarse_poly))];
             last_indices =
               [loop_v (coarse_mloop ! first_loop_index), loop_v (coarse_mloop ! last_loop_index)];
             storage1 = CustomData_interp_vert vertex_data storage0 first_indices weights 1;
             storage3 = CustomData_interp_vert vertex_data storage1 last_indices weights 3
         in vertex_interpolation
              \<lparr>vertex_data_storage := storage3,
               vertex_cd_calls := vertex_cd_calls vertex_interpolation
                                    @ [CD_copy_data 0, CD_interp 1, CD_interp 3]\<rparr>))"

definition vertex_interpolation_end :: "VerticesForInterpolation \<Rightarrow> VerticesForInterpolation" where
  "vertex_interpolation_end vertex_interpolation =
     (if vertex_data_storage_allocated vertex_interpolation then
        vertex_interpolation
          \<lparr>vertex_data_storage := CustomData_free_vert,
           vertex_cd_calls := vertex_cd_calls vertex_interpolation @ [CD_free 4]\<rparr>
      else vertex_interpolation)"

section \<open>Loop custom data interpolation helpers\<close>

record LoopsForInterpolation =
  loop_data :: data_ref
  loop_data_storage :: LData
  loop_data_storage_allocated :: bool
  loop_indices :: "nat list"
  loop_cd_calls :: "cd_call list"

definition loop_interpolation_init ::
  "Constants \<Rightarrow> SubdivMeshContext \<Rightarrow> LoopsForInterpolation \<Rightarrow> MPoly \<Rightarrow> LoopsForInterpolation" where
  "loop_interpolation_init K ctx loop_interpolation coarse_poly =
     (if totloop coarse_poly = 4 then
        loop_interpolation
          \<lparr>loop_data := Coarse_data,
           loop_indices :=
             [loopstart coarse_poly + 0, loopstart coarse_poly + 1,
              loopstart coarse_poly + 2, loopstart coarse_poly + 3],
           loop_data_storage_allocated := False\<rparr>
      else
        (let storage = CustomData_copy_loop (ldata (coarse_mesh ctx))
                         (lmask (CD_MASK_EVERYTHING K)) 4;
             weight = 1 / real (totloop coarse_poly);
             weights = replicate (totloop coarse_poly) weight;
             indices = map (\<lambda>i. loopstart coarse_poly + i) [0 ..< totloop coarse_poly]
         in loop_interpolation
              \<lparr>loop_data := Storage_data,
               loop_data_storage :=
                 CustomData_interp_loop (ldata (coarse_mesh ctx)) storage indices weights 2,
               loop_indices := [0, 1, 2, 3],
               loop_data_storage_allocated := True,
               loop_cd_calls := loop_cd_calls loop_interpolation @ [CD_copy 4, CD_interp 2]\<rparr>))"

definition loop_interpolation_from_corner ::
  "SubdivMeshContext \<Rightarrow> LoopsForInterpolation \<Rightarrow> MPoly \<Rightarrow> nat \<Rightarrow> LoopsForInterpolation" where
  "loop_interpolation_from_corner ctx loop_interpolation coarse_poly corner =
     (if totloop coarse_poly = 4 then loop_interpolation
      else
        (let loop_data = ldata (coarse_mesh ctx);
             loops_of_ptex = loops_of_ptex_get coarse_poly corner;
             storage0 = CustomData_copy_data_loop loop_data
                          (loop_data_storage loop_interpolation)
                          (loopstart coarse_poly + corner) 0;
             weights = [1 / 2, 1 / 2];
             base_loop_index = loopstart coarse_poly;
             first_loop_index = first_loop loops_of_ptex;
             second_loop_index =
               base_loop_index + (first_loop_index - base_loop_index + 1) mod totloop coarse_poly;
             first_indices = [first_loop_index, second_loop_index];
             last_indices = [last_loop loops_of_ptex, first_loop loops_of_ptex];
             storage1 = CustomData_interp_loop loop_data storage0 first_indices weights 1;
             storage3 = CustomData_interp_loop loop_data storage1 last_indices weights 3
         in loop_interpolation
              \<lparr>loop_data_storage := storage3,
               loop_cd_calls := loop_cd_calls loop_interpolation
                                  @ [CD_free_elem 0, CD_copy_data 0, CD_interp 1, CD_interp 3]\<rparr>))"

definition loop_interpolation_end :: "LoopsForInterpolation \<Rightarrow> LoopsForInterpolation" where
  "loop_interpolation_end loop_interpolation =
     (if loop_data_storage_allocated loop_interpolation then
        loop_interpolation
          \<lparr>loop_data_storage := CustomData_free_loop,
           loop_cd_calls := loop_cd_calls loop_interpolation @ [CD_free 4]\<rparr>
      else loop_interpolation)"

section \<open>Thread-local state\<close>

text \<open>
  \<^verbatim>\<open>vertex_interpolation_coarse_poly\<close> is a pointer into the coarse polygon array: here
  the index of the polygon, \<open>None\<close> being the null pointer of the zeroed state.
\<close>

record SubdivMeshTLS =
  vertex_interpolation_initialized :: bool
  vertex_interpolation :: VerticesForInterpolation
  vertex_interpolation_coarse_poly :: "nat option"
  vertex_interpolation_coarse_corner :: nat
  loop_interpolation_initialized :: bool
  loop_interpolation :: LoopsForInterpolation
  loop_interpolation_coarse_poly :: "nat option"
  loop_interpolation_coarse_corner :: nat

text \<open>The state \<^verbatim>\<open>SubdivMeshTLS tls = {0}\<close> of the entry point.\<close>

definition tls_zero :: SubdivMeshTLS where
  "tls_zero =
     \<lparr>vertex_interpolation_initialized = False,
      vertex_interpolation =
        \<lparr>vertex_data = Null_data, vertex_data_storage = CustomData_free_vert,
         vertex_data_storage_allocated = False, vertex_indices = [0, 0, 0, 0],
         vertex_cd_calls = []\<rparr>,
      vertex_interpolation_coarse_poly = None,
      vertex_interpolation_coarse_corner = 0,
      loop_interpolation_initialized = False,
      loop_interpolation =
        \<lparr>loop_data = Null_data, loop_data_storage = CustomData_free_loop,
         loop_data_storage_allocated = False, loop_indices = [0, 0, 0, 0],
         loop_cd_calls = []\<rparr>,
      loop_interpolation_coarse_poly = None,
      loop_interpolation_coarse_corner = 0\<rparr>"

definition subdiv_mesh_tls_free :: "SubdivMeshTLS \<Rightarrow> SubdivMeshTLS" where
  "subdiv_mesh_tls_free tls =
     (let tls1 = (if vertex_interpolation_initialized tls
                  then tls\<lparr>vertex_interpolation := vertex_interpolation_end (vertex_interpolation tls)\<rparr>
                  else tls)
      in if loop_interpolation_initialized tls1
         then tls1\<lparr>loop_interpolation := loop_interpolation_end (loop_interpolation tls1)\<rparr>
         else tls1)"

section \<open>Evaluation helper functions\<close>

definition subdiv_vertex_orco_evaluate ::
  "SubdivMeshContext \<Rightarrow> nat \<Rightarrow> real \<Rightarrow> real \<Rightarrow> nat \<Rightarrow> SubdivMeshContext" where
  "subdiv_vertex_orco_evaluate ctx ptex_face_index u v subdiv_vertex_index =
     (if ctx_orco ctx \<noteq> None \<or> ctx_cloth_orco ctx \<noteq> None then
        (case eval_vertex_data (subdiv ctx) ptex_face_index u v of
           (vertex_data_0, vertex_data_3) \<Rightarrow>
             if ctx_orco ctx \<noteq> None then
               (let ctx1 = write_orco subdiv_vertex_index vertex_data_0 ctx
                in if ctx_cloth_orco ctx \<noteq> None
                   then write_orco subdiv_vertex_index vertex_data_3 ctx1
                   else ctx1)
             else if ctx_cloth_orco ctx \<noteq> None then
               write_orco subdiv_vertex_index vertex_data_0 ctx
             else ctx)
      else ctx)"

section \<open>Accumulation helpers\<close>

definition subdiv_accumulate_vertex_displacement ::
  "SubdivMeshContext \<Rightarrow> nat \<Rightarrow> real \<Rightarrow> real \<Rightarrow> nat \<Rightarrow> SubdivMeshContext" where
  "subdiv_accumulate_vertex_displacement ctx ptex_face_index u v subdiv_vertex_index =
     (case eval_limit_point_and_derivatives (subdiv ctx) ptex_face_index u v of
        (dummy_P, dPdu, dPdv) \<Rightarrow>
          (let D = BKE_subdiv_eval_displacement (subdiv ctx) ptex_face_index u v dPdu dPdv;
               ctx1 = set_vert_co subdiv_vertex_index
                        (add_v3_v3 (co (subdiv_verts ctx ! subdiv_vertex_index)) D) ctx
           in case accumulated_counters ctx1 of
                None \<Rightarrow> ctx1
              | Some counters \<Rightarrow>
                  ctx1\<lparr>accumulated_counters :=
                         Some (counters[subdiv_vertex_index :=
                                          counters ! subdiv_vertex_index + 1])\<rparr>))"

section \<open>Callbacks\<close>

text \<open>
  Modelled from the spec: \<^verbatim>\<open>BKE_mesh_new_nomain_from_template_ex\<close> (not under src/)
  ``allocates the output mesh with given vertex/edge/loop/polygon counts and a custom-data
  mask'': the layers of the template that the mask keeps, zeroed (the source relies on the
  vertices being ``kept at zero locations as a default calloc()''), and no face-dot bitmap.
\<close>

definition BKE_mesh_new_nomain_from_template_ex ::
  "Mesh \<Rightarrow> nat \<Rightarrow> nat \<Rightarrow> nat \<Rightarrow> nat \<Rightarrow> nat \<Rightarrow> CustomData_MeshMasks \<Rightarrow> Mesh" where
  "BKE_mesh_new_nomain_from_template_ex me_src verts_len edges_len tessface_len loops_len
       polys_len cd_mask =
     \<lparr>totvert = verts_len, totedge = edges_len, mesh_totloop = loops_len, totpoly = polys_len,
      vdata = CustomData_copy_vert (vdata me_src) (vmask cd_mask) verts_len,
      edata = CustomData_copy_edge (edata me_src) (emask cd_mask) edges_len,
      ldata = CustomData_copy_loop (ldata me_src) (lmask cd_mask) loops_len,
      pdata = CustomData_copy_poly (pdata me_src) (pmask cd_mask) polys_len,
      subsurf_face_dot_tags = None\<rparr>"

definition subdiv_mesh_topology_mask :: "Constants \<Rightarrow> CustomData_MeshMasks" where
  "subdiv_mesh_topology_mask K =
     (let cd_mask = CD_MASK_EVERYTHING K;
          cd_mask = cd_mask\<lparr>lmask := lmask cd_mask AND NOT (CD_MASK_MULTIRES_GRIDS K)\<rparr>;
          cd_mask = cd_mask\<lparr>vmask := vmask cd_mask AND NOT (CD_MASK_CREASE K)\<rparr>;
          cd_mask = cd_mask\<lparr>emask := emask cd_mask AND NOT (CD_MASK_CREASE K)\<rparr>
      in cd_mask)"

definition subdiv_mesh_topology_info ::
  "Constants \<Rightarrow> SubdivMeshContext \<Rightarrow> nat \<Rightarrow> nat \<Rightarrow> nat \<Rightarrow> nat \<Rightarrow> bool \<times> SubdivMeshContext" where
  "subdiv_mesh_topology_info K subdiv_context num_vertices num_edges num_loops num_polygons =
     (let cd_mask = subdiv_mesh_topology_mask K;
          ctx1 = subdiv_context
                   \<lparr>subdiv_mesh :=
                      Some (BKE_mesh_new_nomain_from_template_ex (coarse_mesh subdiv_context)
                              num_vertices num_edges 0 num_loops num_polygons cd_mask)\<rparr>;
          ctx2 = subdiv_mesh_prepare_accumulator ctx1 num_vertices;
          ctx3 = map_subdiv_mesh
                   (\<lambda>m. m\<lparr>subsurf_face_dot_tags := Some (replicate num_vertices False)\<rparr>) ctx2
      in (True, ctx3))"

section \<open>Vertex subdivision process\<close>

definition subdiv_vertex_data_copy :: "SubdivMeshContext \<Rightarrow> nat \<Rightarrow> nat \<Rightarrow> SubdivMeshContext" where
  "subdiv_vertex_data_copy ctx coarse_vertex_index subdiv_vertex_index =
     map_subdiv_mesh
       (map_vdata (\<lambda>vd. CustomData_copy_data_vert (vdata (coarse_mesh ctx)) vd
                          coarse_vertex_index subdiv_vertex_index)) ctx"

text \<open>The custom data \<^verbatim>\<open>vertex_interpolation->vertex_data\<close> points at.\<close>

definition vertex_interpolation_source ::
  "SubdivMeshContext \<Rightarrow> VerticesForInterpolation \<Rightarrow> VData" where
  "vertex_interpolation_source ctx interpolation =
     (case vertex_data interpolation of
        Coarse_data \<Rightarrow> vdata (coarse_mesh ctx)
      | Storage_data \<Rightarrow> vertex_data_storage interpolation
      | Null_data \<Rightarrow> CustomData_free_vert)"

definition subdiv_vertex_data_interpolate ::
  "SubdivMeshContext \<Rightarrow> nat \<Rightarrow> VerticesForInterpolation \<Rightarrow> real \<Rightarrow> real \<Rightarrow> SubdivMeshContext" where
  "subdiv_vertex_data_interpolate ctx subdiv_vertex_index interpolation u v =
     (let weights = [(1 - u) * (1 - v), u * (1 - v), u * v, (1 - u) * v];
          ctx1 = map_subdiv_mesh
                   (map_vdata (\<lambda>vd. CustomData_interp_vert
                                      (vertex_interpolation_source ctx interpolation) vd
                                      (vertex_indices interpolation) weights
                                      subdiv_vertex_index)) ctx
      in if ctx_vert_origindex ctx1 \<noteq> None
         then set_vert_origindex subdiv_vertex_index ORIGINDEX_NONE ctx1
         else ctx1)"

text \<open>
  \<^verbatim>\<open>ctx->accumulated_counters[subdiv_vertex_index]\<close>; the array is there whenever
  \<open>have_displacement\<close> holds, since the topology callback allocated it.
\<close>

definition accumulated_counter :: "SubdivMeshContext \<Rightarrow> nat \<Rightarrow> nat" where
  "accumulated_counter ctx i =
     (case accumulated_counters ctx of None \<Rightarrow> 0 | Some counters \<Rightarrow> counters ! i)"

definition evaluate_vertex_and_apply_displacement_copy ::
  "SubdivMeshContext \<Rightarrow> nat \<Rightarrow> real \<Rightarrow> real \<Rightarrow> nat \<Rightarrow> nat \<Rightarrow> SubdivMeshContext" where
  "evaluate_vertex_and_apply_displacement_copy ctx ptex_face_index u v coarse_vertex_index
       subdiv_vertex_index =
     (let D = (if have_displacement ctx then
                 (let inv_num_accumulated = 1 / real (accumulated_counter ctx subdiv_vertex_index)
                  in mul_v3_fl (co (subdiv_verts ctx ! subdiv_vertex_index)) inv_num_accumulated)
               else zero_v3);
          ctx1 = subdiv_vertex_data_copy ctx coarse_vertex_index subdiv_vertex_index;
          ctx2 = set_vert_co subdiv_vertex_index
                   (eval_limit_point (subdiv ctx) ptex_face_index u v) ctx1;
          ctx3 = set_vert_co subdiv_vertex_index
                   (add_v3_v3 (co (subdiv_verts ctx2 ! subdiv_vertex_index)) D) ctx2;
          ctx4 = subdiv_vertex_orco_evaluate ctx3 ptex_face_index u v subdiv_vertex_index
      in set_face_dot_tag subdiv_vertex_index False ctx4)"

definition evaluate_vertex_and_apply_displacement_interpolate ::
  "SubdivMeshContext \<Rightarrow> nat \<Rightarrow> real \<Rightarrow> real \<Rightarrow> VerticesForInterpolation \<Rightarrow> nat
     \<Rightarrow> SubdivMeshContext" where
  "evaluate_vertex_and_apply_displacement_interpolate ctx ptex_face_index u v
       interpolation subdiv_vertex_index =
     (let D = (if have_displacement ctx then
                 (let inv_num_accumulated = 1 / real (accumulated_counter ctx subdiv_vertex_index)
                  in mul_v3_fl (co (subdiv_verts ctx ! subdiv_vertex_index)) inv_num_accumulated)
               else zero_v3);
          ctx1 = subdiv_vertex_data_interpolate ctx subdiv_vertex_index interpolation u v;
          ctx2 = set_vert_co subdiv_vertex_index
                   (eval_limit_point (subdiv ctx) ptex_face_index u v) ctx1;
          ctx3 = set_vert_co subdiv_vertex_index
                   (add_v3_v3 (co (subdiv_verts ctx2 ! subdiv_vertex_index)) D) ctx2
      in subdiv_vertex_orco_evaluate ctx3 ptex_face_index u v subdiv_vertex_index)"

text \<open>
  The callbacks take the context and the thread-local state and return both. The
  arguments a callback does not use are kept, in the order of the source.
\<close>

type_synonym foreach_state = "SubdivMeshContext \<times> SubdivMeshTLS"

definition subdiv_mesh_vertex_displacement_every_corner_or_edge ::
  "foreach_state \<Rightarrow> nat \<Rightarrow> real \<Rightarrow> real \<Rightarrow> nat \<Rightarrow> foreach_state" where
  "subdiv_mesh_vertex_displacement_every_corner_or_edge st ptex_face_index u v
       subdiv_vertex_index =
     (subdiv_accumulate_vertex_displacement (fst st) ptex_face_index u v subdiv_vertex_index,
      snd st)"

definition subdiv_mesh_vertex_displacement_every_corner ::
  "foreach_state \<Rightarrow> nat \<Rightarrow> real \<Rightarrow> real \<Rightarrow> nat \<Rightarrow> nat \<Rightarrow> nat \<Rightarrow> nat \<Rightarrow> foreach_state" where
  "subdiv_mesh_vertex_displacement_every_corner st ptex_face_index u v coarse_vertex_index
       coarse_poly_index coarse_corner subdiv_vertex_index =
     subdiv_mesh_vertex_displacement_every_corner_or_edge st ptex_face_index u v
       subdiv_vertex_index"

definition subdiv_mesh_vertex_displacement_every_edge ::
  "foreach_state \<Rightarrow> nat \<Rightarrow> real \<Rightarrow> real \<Rightarrow> nat \<Rightarrow> nat \<Rightarrow> nat \<Rightarrow> nat \<Rightarrow> foreach_state" where
  "subdiv_mesh_vertex_displacement_every_edge st ptex_face_index u v coarse_edge_index
       coarse_poly_index coarse_corner subdiv_vertex_index =
     subdiv_mesh_vertex_displacement_every_corner_or_edge st ptex_face_index u v
       subdiv_vertex_index"

definition subdiv_mesh_vertex_corner ::
  "foreach_state \<Rightarrow> nat \<Rightarrow> real \<Rightarrow> real \<Rightarrow> nat \<Rightarrow> nat \<Rightarrow> nat \<Rightarrow> nat \<Rightarrow> foreach_state" where
  "subdiv_mesh_vertex_corner st ptex_face_index u v coarse_vertex_index coarse_poly_index
       coarse_corner subdiv_vertex_index =
     (evaluate_vertex_and_apply_displacement_copy (fst st) ptex_face_index u v
        coarse_vertex_index subdiv_vertex_index,
      snd st)"

definition subdiv_mesh_ensure_vertex_interpolation ::
  "Constants \<Rightarrow> SubdivMeshContext \<Rightarrow> SubdivMeshTLS \<Rightarrow> nat \<Rightarrow> nat \<Rightarrow> SubdivMeshTLS" where
  "subdiv_mesh_ensure_vertex_interpolation K ctx tls coarse_poly coarse_corner =
     (let tls1 =
            (if vertex_interpolation_initialized tls
                \<and> (vertex_interpolation_coarse_poly tls \<noteq> Some coarse_poly
                    \<or> vertex_interpolation_coarse_corner tls \<noteq> coarse_corner)
             then tls\<lparr>vertex_interpolation := vertex_interpolation_end (vertex_interpolation tls),
                      vertex_interpolation_initialized := False\<rparr>
             else tls);
          tls2 =
            (if \<not> vertex_interpolation_initialized tls1
             then tls1\<lparr>vertex_interpolation :=
                         vertex_interpolation_init K ctx (vertex_interpolation tls1)
                           (coarse_polys ctx ! coarse_poly)\<rparr>
             else tls1);
          tls3 =
            (if \<not> vertex_interpolation_initialized tls2
                \<or> vertex_interpolation_coarse_corner tls2 \<noteq> coarse_corner
             then tls2\<lparr>vertex_interpolation :=
                         vertex_interpolation_from_corner ctx (vertex_interpolation tls2)
                           (coarse_polys ctx ! coarse_poly) coarse_corner\<rparr>
             else tls2)
      in tls3\<lparr>vertex_interpolation_initialized := True,
              vertex_interpolation_coarse_poly := Some coarse_poly,
              vertex_interpolation_coarse_corner := coarse_corner\<rparr>)"

definition subdiv_mesh_vertex_edge ::
  "Constants \<Rightarrow> foreach_state \<Rightarrow> nat \<Rightarrow> real \<Rightarrow> real \<Rightarrow> nat \<Rightarrow> nat \<Rightarrow> nat \<Rightarrow> nat \<Rightarrow> foreach_state" where
  "subdiv_mesh_vertex_edge K st ptex_face_index u v coarse_edge_index coarse_poly_index
       coarse_corner subdiv_vertex_index =
     (let ctx = fst st;
          tls = subdiv_mesh_ensure_vertex_interpolation K ctx (snd st) coarse_poly_index
                  coarse_corner
      in (evaluate_vertex_and_apply_displacement_interpolate ctx ptex_face_index u v
            (vertex_interpolation tls) subdiv_vertex_index,
          tls))"

definition subdiv_mesh_is_center_vertex :: "MPoly \<Rightarrow> real \<Rightarrow> real \<Rightarrow> bool" where
  "subdiv_mesh_is_center_vertex coarse_poly u v =
     (if totloop coarse_poly = 4 then (if u = 1 / 2 \<and> v = 1 / 2 then True else False)
      else (if u = 1 \<and> v = 1 then True else False))"

definition subdiv_mesh_tag_center_vertex ::
  "MPoly \<Rightarrow> nat \<Rightarrow> real \<Rightarrow> real \<Rightarrow> SubdivMeshContext \<Rightarrow> SubdivMeshContext" where
  "subdiv_mesh_tag_center_vertex coarse_poly subdiv_vertex_index u v ctx =
     (if subdiv_mesh_is_center_vertex coarse_poly u v
      then set_face_dot_tag subdiv_vertex_index True ctx
      else ctx)"

definition subdiv_mesh_vertex_inner ::
  "Constants \<Rightarrow> foreach_state \<Rightarrow> nat \<Rightarrow> real \<Rightarrow> real \<Rightarrow> nat \<Rightarrow> nat \<Rightarrow> nat \<Rightarrow> foreach_state" where
  "subdiv_mesh_vertex_inner K st ptex_face_index u v coarse_poly_index coarse_corner
       subdiv_vertex_index =
     (let ctx = fst st;
          coarse_poly = coarse_polys ctx ! coarse_poly_index;
          tls = subdiv_mesh_ensure_vertex_interpolation K ctx (snd st) coarse_poly_index
                  coarse_corner;
          ctx1 = subdiv_vertex_data_interpolate ctx subdiv_vertex_index
                   (vertex_interpolation tls) u v;
          ctx2 = set_vert_co subdiv_vertex_index
                   (eval_final_point (subdiv ctx) ptex_face_index u v) ctx1;
          ctx3 = subdiv_mesh_tag_center_vertex coarse_poly subdiv_vertex_index u v ctx2
      in (subdiv_vertex_orco_evaluate ctx3 ptex_face_index u v subdiv_vertex_index, tls))"

section \<open>Edge subdivision process\<close>

definition set_edge_flag :: "nat \<Rightarrow> 16 word \<Rightarrow> SubdivMeshContext \<Rightarrow> SubdivMeshContext" where
  "set_edge_flag i f =
     map_subdiv_mesh (map_edata (\<lambda>ed.
       ed\<lparr>cd_medge := (cd_medge ed)[i := (cd_medge ed ! i)\<lparr>edge_flag := f\<rparr>]\<rparr>))"

definition set_edge_verts :: "nat \<Rightarrow> nat \<Rightarrow> nat \<Rightarrow> SubdivMeshContext \<Rightarrow> SubdivMeshContext" where
  "set_edge_verts i a b =
     map_subdiv_mesh (map_edata (\<lambda>ed.
       ed\<lparr>cd_medge := (cd_medge ed)[i := (cd_medge ed ! i)\<lparr>edge_v1 := a, edge_v2 := b\<rparr>]\<rparr>))"

definition set_edge_origindex :: "nat \<Rightarrow> int \<Rightarrow> SubdivMeshContext \<Rightarrow> SubdivMeshContext" where
  "set_edge_origindex i x =
     map_subdiv_mesh (map_edata (\<lambda>ed.
       ed\<lparr>cd_edge_origindex := map_option (\<lambda>xs. xs[i := x]) (cd_edge_origindex ed)\<rparr>))"

text \<open>\<open>coarse_edge\<close> is the pointer to the coarse edge: its index, or \<open>None\<close> for null.\<close>

definition subdiv_copy_edge_data ::
  "Constants \<Rightarrow> SubdivMeshContext \<Rightarrow> nat \<Rightarrow> nat option \<Rightarrow> SubdivMeshContext" where
  "subdiv_copy_edge_data K ctx subdiv_edge_index coarse_edge =
     (case coarse_edge of
        None \<Rightarrow>
          (let ctx1 = set_edge_flag subdiv_edge_index 0 ctx;
               ctx2 = (if \<not> use_optimal_display (settings ctx1)
                       then set_edge_flag subdiv_edge_index
                              (edge_flag (subdiv_edges ctx1 ! subdiv_edge_index)
                                 OR ME_EDGERENDER K) ctx1
                       else ctx1)
           in if ctx_edge_origindex ctx2 \<noteq> None
              then set_edge_origindex subdiv_edge_index ORIGINDEX_NONE ctx2
              else ctx2)
      | Some coarse_edge_index \<Rightarrow>
          (let ctx1 = map_subdiv_mesh
                        (map_edata (\<lambda>ed. CustomData_copy_data_edge (edata (coarse_mesh ctx)) ed
                                           coarse_edge_index subdiv_edge_index)) ctx
           in set_edge_flag subdiv_edge_index
                (edge_flag (subdiv_edges ctx1 ! subdiv_edge_index) OR ME_EDGERENDER K) ctx1))"

definition subdiv_mesh_edge ::
  "Constants \<Rightarrow> foreach_state \<Rightarrow> int \<Rightarrow> nat \<Rightarrow> bool \<Rightarrow> nat \<Rightarrow> nat \<Rightarrow> foreach_state" where
  "subdiv_mesh_edge K st coarse_edge_index subdiv_edge_index is_loose subdiv_v1 subdiv_v2 =
     (let ctx = fst st;
          coarse_edge = (if coarse_edge_index \<noteq> ORIGINDEX_NONE
                         then Some (nat coarse_edge_index) else None);
          ctx1 = subdiv_copy_edge_data K ctx subdiv_edge_index coarse_edge
      in (set_edge_verts subdiv_edge_index subdiv_v1 subdiv_v2 ctx1, snd st))"

section \<open>Loops creation and interpolation\<close>

definition loop_interpolation_source :: "SubdivMeshContext \<Rightarrow> LoopsForInterpolation \<Rightarrow> LData" where
  "loop_interpolation_source ctx interpolation =
     (case loop_data interpolation of
        Coarse_data \<Rightarrow> ldata (coarse_mesh ctx)
      | Storage_data \<Rightarrow> loop_data_storage interpolation
      | Null_data \<Rightarrow> CustomData_free_loop)"

definition subdiv_interpolate_loop_data ::
  "SubdivMeshContext \<Rightarrow> nat \<Rightarrow> LoopsForInterpolation \<Rightarrow> real \<Rightarrow> real \<Rightarrow> SubdivMeshContext" where
  "subdiv_interpolate_loop_data ctx subdiv_loop_index interpolation u v =
     (let weights = [(1 - u) * (1 - v), u * (1 - v), u * v, (1 - u) * v]
      in map_subdiv_mesh
           (map_ldata (\<lambda>ld. CustomData_interp_loop (loop_interpolation_source ctx interpolation)
                              ld (loop_indices interpolation) weights subdiv_loop_index)) ctx)"

text \<open>
  The loop over \<^verbatim>\<open>layer_index\<close>: layer \<open>k\<close> of the output gets the face-varying sample
  of layer \<open>k\<close> at the loop.
\<close>

fun eval_uv_layers ::
  "Subdiv \<Rightarrow> nat \<Rightarrow> nat \<Rightarrow> real \<Rightarrow> real \<Rightarrow> nat \<Rightarrow> (string \<times> float2 list) list
     \<Rightarrow> (string \<times> float2 list) list" where
  "eval_uv_layers sd layer_index ptex_face_index u v mloop_index [] = []"
| "eval_uv_layers sd layer_index ptex_face_index u v mloop_index ((name, uvs) # layers) =
     (name, uvs[mloop_index := eval_face_varying sd layer_index ptex_face_index u v])
       # eval_uv_layers sd (layer_index + 1) ptex_face_index u v mloop_index layers"

definition subdiv_eval_uv_layer ::
  "SubdivMeshContext \<Rightarrow> nat \<Rightarrow> nat \<Rightarrow> real \<Rightarrow> real \<Rightarrow> SubdivMeshContext" where
  "subdiv_eval_uv_layer ctx subdiv_loop_index ptex_face_index u v =
     map_subdiv_mesh
       (map_ldata (\<lambda>ld.
          if length (cd_mloopuv ld) = 0 then ld
          else ld\<lparr>cd_mloopuv := eval_uv_layers (subdiv ctx) 0 ptex_face_index u v
                                  subdiv_loop_index (cd_mloopuv ld)\<rparr>)) ctx"

definition subdiv_mesh_ensure_loop_interpolation ::
  "Constants \<Rightarrow> SubdivMeshContext \<Rightarrow> SubdivMeshTLS \<Rightarrow> nat \<Rightarrow> nat \<Rightarrow> SubdivMeshTLS" where
  "subdiv_mesh_ensure_loop_interpolation K ctx tls coarse_poly coarse_corner =
     (let tls1 =
            (if loop_interpolation_initialized tls
                \<and> (loop_interpolation_coarse_poly tls \<noteq> Some coarse_poly
                    \<or> loop_interpolation_coarse_corner tls \<noteq> coarse_corner)
             then tls\<lparr>loop_interpolation := loop_interpolation_end (loop_interpolation tls),
                      loop_interpolation_initialized := False\<rparr>
             else tls);
          tls2 =
            (if \<not> loop_interpolation_initialized tls1
             then tls1\<lparr>loop_interpolation :=
                         loop_interpolation_init K ctx (loop_interpolation tls1)
                           (coarse_polys ctx ! coarse_poly)\<rparr>
             else tls1);
          tls3 =
            (if \<not> loop_interpolation_initialized tls2
                \<or> loop_interpolation_coarse_corner tls2 \<noteq> coarse_corner
             then tls2\<lparr>loop_interpolation :=
                         loop_interpolation_from_corner ctx (loop_interpolation tls2)
                           (coarse_polys ctx ! coarse_poly) coarse_corner\<rparr>
             else tls2)
      in tls3\<lparr>loop_interpolation_initialized := True,
              loop_interpolation_coarse_poly := Some coarse_poly,
              loop_interpolation_coarse_corner := coarse_corner\<rparr>)"

definition set_loop_indices :: "nat \<Rightarrow> nat \<Rightarrow> nat \<Rightarrow> SubdivMeshContext \<Rightarrow> SubdivMeshContext" where
  "set_loop_indices i a b =
     map_subdiv_mesh (map_ldata (\<lambda>ld.
       ld\<lparr>cd_mloop := (cd_mloop ld)[i := (cd_mloop ld ! i)\<lparr>loop_v := a, loop_e := b\<rparr>]\<rparr>))"

definition subdiv_mesh_loop ::
  "Constants \<Rightarrow> foreach_state \<Rightarrow> nat \<Rightarrow> real \<Rightarrow> real \<Rightarrow> nat \<Rightarrow> nat \<Rightarrow> nat \<Rightarrow> nat \<Rightarrow> nat \<Rightarrow> nat
     \<Rightarrow> foreach_state" where
  "subdiv_mesh_loop K st ptex_face_index u v coarse_loop_index coarse_poly_index coarse_corner
       subdiv_loop_index subdiv_vertex_index subdiv_edge_index =
     (let ctx = fst st;
          tls = subdiv_mesh_ensure_loop_interpolation K ctx (snd st) coarse_poly_index
                  coarse_corner;
          ctx1 = subdiv_interpolate_loop_data ctx subdiv_loop_index (loop_interpolation tls) u v;
          ctx2 = subdiv_eval_uv_layer ctx1 subdiv_loop_index ptex_face_index u v
      in (set_loop_indices subdiv_loop_index subdiv_vertex_index subdiv_edge_index ctx2, tls))"

section \<open>Polygons subdivision process\<close>

definition subdiv_copy_poly_data :: "SubdivMeshContext \<Rightarrow> nat \<Rightarrow> nat \<Rightarrow> SubdivMeshContext" where
  "subdiv_copy_poly_data ctx subdiv_poly_index coarse_poly_index =
     map_subdiv_mesh
       (map_pdata (\<lambda>pd. CustomData_copy_data_poly (pdata (coarse_mesh ctx)) pd
                          coarse_poly_index subdiv_poly_index)) ctx"

definition subdiv_mesh_poly :: "foreach_state \<Rightarrow> nat \<Rightarrow> nat \<Rightarrow> nat \<Rightarrow> nat \<Rightarrow> foreach_state" where
  "subdiv_mesh_poly st coarse_poly_index subdiv_poly_index start_loop_index num_loops =
     (let ctx1 = subdiv_copy_poly_data (fst st) subdiv_poly_index coarse_poly_index
      in (map_subdiv_mesh (map_pdata (\<lambda>pd.
            pd\<lparr>cd_mpoly := (cd_mpoly pd)[subdiv_poly_index :=
                 (cd_mpoly pd ! subdiv_poly_index)
                   \<lparr>loopstart := start_loop_index, totloop := num_loops\<rparr>]\<rparr>)) ctx1,
          snd st))"

section \<open>Loose elements subdivision process\<close>

definition subdiv_mesh_vertex_loose :: "foreach_state \<Rightarrow> nat \<Rightarrow> nat \<Rightarrow> foreach_state" where
  "subdiv_mesh_vertex_loose st coarse_vertex_index subdiv_vertex_index =
     (subdiv_vertex_data_copy (fst st) coarse_vertex_index subdiv_vertex_index, snd st)"

text \<open>
  One pass of a loop of \<^verbatim>\<open>find_edge_neighbors\<close> over the edges mapped to a vertex
  \<open>vert\<close>: the state is the neighbour found last (a pointer to a coarse edge, so its index)
  and the counter.
\<close>

definition find_edge_neighbors_step ::
  "MEdge list \<Rightarrow> nat \<Rightarrow> nat \<Rightarrow> nat \<Rightarrow> nat option \<times> nat \<Rightarrow> nat option \<times> nat" where
  "find_edge_neighbors_step coarse_es edge_index vert i acc =
     (if i = edge_index then acc
      else if vert = edge_v1 (coarse_es ! i) \<or> vert = edge_v2 (coarse_es ! i)
           then (Some i, snd acc + 1)
           else acc)"

definition find_edge_neighbors ::
  "MEdge list \<Rightarrow> nat list list \<Rightarrow> nat \<Rightarrow> nat option \<times> nat option" where
  "find_edge_neighbors coarse_es vert_to_edge edge_index =
     (let e = coarse_es ! edge_index;
          r0 = fold (find_edge_neighbors_step coarse_es edge_index (edge_v1 e))
                 (vert_to_edge ! edge_v1 e) (None, 0);
          r1 = fold (find_edge_neighbors_step coarse_es edge_index (edge_v2 e))
                 (vert_to_edge ! edge_v2 e) (None, 0)
      in (if snd r0 > 1 then None else fst r0, if snd r1 > 1 then None else fst r1))"

definition points_for_loose_edges_interpolation_get ::
  "MVert list \<Rightarrow> MEdge list \<Rightarrow> MEdge \<Rightarrow> nat option \<times> nat option
     \<Rightarrow> float3 \<times> float3 \<times> float3 \<times> float3" where
  "points_for_loose_edges_interpolation_get coarse_mvert coarse_es coarse_edge neighbors =
     (let points_1 = co (coarse_mvert ! edge_v1 coarse_edge);
          points_2 = co (coarse_mvert ! edge_v2 coarse_edge);
          points_0 =
            (case fst neighbors of
               Some n \<Rightarrow>
                 (if edge_v1 (coarse_es ! n) = edge_v1 coarse_edge
                  then co (coarse_mvert ! edge_v2 (coarse_es ! n))
                  else co (coarse_mvert ! edge_v1 (coarse_es ! n)))
             | None \<Rightarrow> add_v3_v3 (sub_v3_v3v3 points_1 points_2) points_1);
          points_3 =
            (case snd neighbors of
               Some n \<Rightarrow>
                 (if edge_v1 (coarse_es ! n) = edge_v2 coarse_edge
                  then co (coarse_mvert ! edge_v2 (coarse_es ! n))
                  else co (coarse_mvert ! edge_v1 (coarse_es ! n)))
             | None \<Rightarrow> add_v3_v3 (sub_v3_v3v3 points_2 points_1) points_2)
      in (points_0, points_1, points_2, points_3))"

text \<open>
  Modelled from the spec: \<^verbatim>\<open>key_curve_position_weights(u, weights, KEY_BSPLINE)\<close> of
  \<^verbatim>\<open>BKE_key\<close> (not under src/) ``evaluates the B-spline basis at parameter u'': the four
  basis functions of the uniform cubic B-spline.
\<close>

definition key_curve_position_weights_bspline :: "real \<Rightarrow> float4" where
  "key_curve_position_weights_bspline t =
     (let t2 = t * t; t3 = t2 * t
      in (- (1 / 6) * t3 + (1 / 2) * t2 - (1 / 2) * t + 1 / 6,
          (1 / 2) * t3 - t2 + 2 / 3,
          - (1 / 2) * t3 + (1 / 2) * t2 + (1 / 2) * t + 1 / 6,
          (1 / 6) * t3))"

definition BKE_subdiv_mesh_interpolate_position_on_edge ::
  "MVert list \<Rightarrow> MEdge list \<Rightarrow> nat list list \<Rightarrow> nat \<Rightarrow> bool \<Rightarrow> real \<Rightarrow> float3" where
  "BKE_subdiv_mesh_interpolate_position_on_edge coarse_vs coarse_es vert_to_edge
       coarse_edge_index simple u =
     (let coarse_edge = coarse_es ! coarse_edge_index in
      if simple then
        interp_v3_v3v3 (co (coarse_vs ! edge_v1 coarse_edge))
                       (co (coarse_vs ! edge_v2 coarse_edge)) u
      else
        (let neighbors = find_edge_neighbors coarse_es vert_to_edge coarse_edge_index
         in case points_for_loose_edges_interpolation_get coarse_vs coarse_es coarse_edge
                   neighbors of
              (points_0, points_1, points_2, points_3) \<Rightarrow>
                interp_v3_v3v3v3v3 points_0 points_1 points_2 points_3
                  (key_curve_position_weights_bspline u)))"

definition subdiv_mesh_vertex_of_loose_edge_interpolate ::
  "SubdivMeshContext \<Rightarrow> MEdge \<Rightarrow> real \<Rightarrow> nat \<Rightarrow> SubdivMeshContext" where
  "subdiv_mesh_vertex_of_loose_edge_interpolate ctx coarse_edge u subdiv_vertex_index =
     (let interpolation_weights = [1 - u, u];
          coarse_vertex_indices = [edge_v1 coarse_edge, edge_v2 coarse_edge];
          ctx1 = map_subdiv_mesh
                   (map_vdata (\<lambda>vd. CustomData_interp_vert (vdata (coarse_mesh ctx)) vd
                                      coarse_vertex_indices interpolation_weights
                                      subdiv_vertex_index)) ctx
      in if ctx_vert_origindex ctx1 \<noteq> None
         then set_vert_origindex subdiv_vertex_index ORIGINDEX_NONE ctx1
         else ctx1)"

text \<open>
  Modelled from the spec: \<^verbatim>\<open>BKE_mesh_vert_edge_map_create\<close> (\<^verbatim>\<open>BKE_mesh_mapping\<close>, not
  under src/) ``maps each coarse vertex to the set of coarse edge indices touching it''.
\<close>

definition BKE_mesh_vert_edge_map_create :: "MEdge list \<Rightarrow> nat \<Rightarrow> nat \<Rightarrow> nat list list" where
  "BKE_mesh_vert_edge_map_create medge num_verts num_edges =
     map (\<lambda>vert. filter (\<lambda>i. edge_v1 (medge ! i) = vert \<or> edge_v2 (medge ! i) = vert)
                   [0 ..< num_edges])
         [0 ..< num_verts]"

text \<open>
  The map is built on the first call. The lock and the second test of the source make the
  build happen once under concurrent callers; a callback runs to its end here, so one test
  is left.
\<close>

definition subdiv_mesh_vertex_of_loose_edge ::
  "foreach_state \<Rightarrow> nat \<Rightarrow> real \<Rightarrow> nat \<Rightarrow> foreach_state" where
  "subdiv_mesh_vertex_of_loose_edge st coarse_edge_index u subdiv_vertex_index =
     (let ctx = fst st;
          coarse_edge = coarse_edges ctx ! coarse_edge_index;
          simple = is_simple (subdiv ctx);
          ctx1 = (if vert_to_edge_map ctx = None
                  then ctx\<lparr>vert_to_edge_map :=
                             Some (BKE_mesh_vert_edge_map_create (coarse_edges ctx)
                                     (totvert (coarse_mesh ctx)) (totedge (coarse_mesh ctx)))\<rparr>
                  else ctx);
          ctx2 = (if \<not> (u = 0 \<or> u = 1)
                  then subdiv_mesh_vertex_of_loose_edge_interpolate ctx1 coarse_edge u
                         subdiv_vertex_index
                  else ctx1);
          vert_to_edge = (case vert_to_edge_map ctx2 of None \<Rightarrow> [] | Some m \<Rightarrow> m)
      in (set_vert_co subdiv_vertex_index
            (BKE_subdiv_mesh_interpolate_position_on_edge (coarse_verts ctx2) (coarse_edges ctx2)
               vert_to_edge coarse_edge_index simple u) ctx2,
          snd st))"

section \<open>Initialization\<close>

text \<open>
  The callback table. A member is \<open>None\<close> where \<^verbatim>\<open>memset\<close> left the null pointer.
\<close>

record SubdivForeachContext =
  topology_info ::
    "(SubdivMeshContext \<Rightarrow> nat \<Rightarrow> nat \<Rightarrow> nat \<Rightarrow> nat \<Rightarrow> bool \<times> SubdivMeshContext) option"
  vertex_every_corner ::
    "(foreach_state \<Rightarrow> nat \<Rightarrow> real \<Rightarrow> real \<Rightarrow> nat \<Rightarrow> nat \<Rightarrow> nat \<Rightarrow> nat \<Rightarrow> foreach_state) option"
  vertex_every_edge ::
    "(foreach_state \<Rightarrow> nat \<Rightarrow> real \<Rightarrow> real \<Rightarrow> nat \<Rightarrow> nat \<Rightarrow> nat \<Rightarrow> nat \<Rightarrow> foreach_state) option"
  vertex_corner ::
    "(foreach_state \<Rightarrow> nat \<Rightarrow> real \<Rightarrow> real \<Rightarrow> nat \<Rightarrow> nat \<Rightarrow> nat \<Rightarrow> nat \<Rightarrow> foreach_state) option"
  vertex_edge ::
    "(foreach_state \<Rightarrow> nat \<Rightarrow> real \<Rightarrow> real \<Rightarrow> nat \<Rightarrow> nat \<Rightarrow> nat \<Rightarrow> nat \<Rightarrow> foreach_state) option"
  vertex_inner ::
    "(foreach_state \<Rightarrow> nat \<Rightarrow> real \<Rightarrow> real \<Rightarrow> nat \<Rightarrow> nat \<Rightarrow> nat \<Rightarrow> foreach_state) option"
  edge_cb :: "(foreach_state \<Rightarrow> int \<Rightarrow> nat \<Rightarrow> bool \<Rightarrow> nat \<Rightarrow> nat \<Rightarrow> foreach_state) option"
  loop_cb ::
    "(foreach_state \<Rightarrow> nat \<Rightarrow> real \<Rightarrow> real \<Rightarrow> nat \<Rightarrow> nat \<Rightarrow> nat \<Rightarrow> nat \<Rightarrow> nat \<Rightarrow> nat
        \<Rightarrow> foreach_state) option"
  poly_cb :: "(foreach_state \<Rightarrow> nat \<Rightarrow> nat \<Rightarrow> nat \<Rightarrow> nat \<Rightarrow> foreach_state) option"
  vertex_loose :: "(foreach_state \<Rightarrow> nat \<Rightarrow> nat \<Rightarrow> foreach_state) option"
  vertex_of_loose_edge :: "(foreach_state \<Rightarrow> nat \<Rightarrow> real \<Rightarrow> nat \<Rightarrow> foreach_state) option"
  user_data_tls_free :: "(SubdivMeshTLS \<Rightarrow> SubdivMeshTLS) option"

definition setup_foreach_callbacks :: "Constants \<Rightarrow> SubdivMeshContext \<Rightarrow> SubdivForeachContext" where
  "setup_foreach_callbacks K subdiv_context =
     \<lparr>topology_info = Some (subdiv_mesh_topology_info K),
      vertex_every_corner =
        (if have_displacement subdiv_context
         then Some subdiv_mesh_vertex_displacement_every_corner else None),
      vertex_every_edge =
        (if have_displacement subdiv_context
         then Some subdiv_mesh_vertex_displacement_every_edge else None),
      vertex_corner = Some subdiv_mesh_vertex_corner,
      vertex_edge = Some (subdiv_mesh_vertex_edge K),
      vertex_inner = Some (subdiv_mesh_vertex_inner K),
      edge_cb = Some (subdiv_mesh_edge K),
      loop_cb = Some (subdiv_mesh_loop K),
      poly_cb = Some subdiv_mesh_poly,
      vertex_loose = Some subdiv_mesh_vertex_loose,
      vertex_of_loose_edge = Some subdiv_mesh_vertex_of_loose_edge,
      user_data_tls_free = Some subdiv_mesh_tls_free\<rparr>"

section \<open>The traversal driver\<close>

text \<open>
  Modelled from the spec: \<^verbatim>\<open>BKE_subdiv_foreach_subdiv_geometry\<close> (not under src/) ``walks
  the coarse mesh's logical subdivision topology and invokes typed callbacks once per
  generated output element''; ``topology callback fires first (establishes output mesh
  sizes), element callbacks fire after''. What the walk yields for a coarse mesh (the four
  counts and the element callbacks in the order they are made) is the parameter
  \<open>foreach_traversal\<close>. A callback that is null is not called; the per-thread teardown
  hook runs at the end. The calls are made one after the other on one thread-local state.
\<close>

datatype foreach_event =
    Vertex_every_corner nat real real nat nat nat nat
  | Vertex_every_edge nat real real nat nat nat nat
  | Vertex_corner nat real real nat nat nat nat
  | Vertex_edge nat real real nat nat nat nat
  | Vertex_inner nat real real nat nat nat
  | Edge int nat bool nat nat
  | Loop nat real real nat nat nat nat nat nat
  | Poly nat nat nat nat
  | Vertex_loose nat nat
  | Vertex_of_loose_edge nat real nat

record foreach_traversal =
  num_vertices :: nat
  num_edges :: nat
  num_loops :: nat
  num_polygons :: nat
  events :: "foreach_event list"

fun foreach_dispatch :: "SubdivForeachContext \<Rightarrow> foreach_event \<Rightarrow> foreach_state \<Rightarrow> foreach_state" where
  "foreach_dispatch fc (Vertex_every_corner p u v a b c d) st =
     (case vertex_every_corner fc of None \<Rightarrow> st | Some f \<Rightarrow> f st p u v a b c d)"
| "foreach_dispatch fc (Vertex_every_edge p u v a b c d) st =
     (case vertex_every_edge fc of None \<Rightarrow> st | Some f \<Rightarrow> f st p u v a b c d)"
| "foreach_dispatch fc (Vertex_corner p u v a b c d) st =
     (case vertex_corner fc of None \<Rightarrow> st | Some f \<Rightarrow> f st p u v a b c d)"
| "foreach_dispatch fc (Vertex_edge p u v a b c d) st =
     (case vertex_edge fc of None \<Rightarrow> st | Some f \<Rightarrow> f st p u v a b c d)"
| "foreach_dispatch fc (Vertex_inner p u v a b c) st =
     (case vertex_inner fc of None \<Rightarrow> st | Some f \<Rightarrow> f st p u v a b c)"
| "foreach_dispatch fc (Edge ce se is_loose a b) st =
     (case edge_cb fc of None \<Rightarrow> st | Some f \<Rightarrow> f st ce se is_loose a b)"
| "foreach_dispatch fc (Loop p u v a b c d e g) st =
     (case loop_cb fc of None \<Rightarrow> st | Some f \<Rightarrow> f st p u v a b c d e g)"
| "foreach_dispatch fc (Poly a b c d) st =
     (case poly_cb fc of None \<Rightarrow> st | Some f \<Rightarrow> f st a b c d)"
| "foreach_dispatch fc (Vertex_loose a b) st =
     (case vertex_loose fc of None \<Rightarrow> st | Some f \<Rightarrow> f st a b)"
| "foreach_dispatch fc (Vertex_of_loose_edge a u b) st =
     (case vertex_of_loose_edge fc of None \<Rightarrow> st | Some f \<Rightarrow> f st a u b)"

definition foreach_elements ::
  "SubdivForeachContext \<Rightarrow> foreach_event list \<Rightarrow> foreach_state \<Rightarrow> foreach_state" where
  "foreach_elements fc evs st =
     (let st1 = fold (foreach_dispatch fc) evs st
      in (fst st1, case user_data_tls_free fc of None \<Rightarrow> snd st1 | Some f \<Rightarrow> f (snd st1)))"

definition BKE_subdiv_foreach_subdiv_geometry ::
  "SubdivForeachContext \<Rightarrow> foreach_traversal \<Rightarrow> foreach_state \<Rightarrow> bool \<times> foreach_state" where
  "BKE_subdiv_foreach_subdiv_geometry fc trav st =
     (case topology_info fc of
        None \<Rightarrow> (True, foreach_elements fc (events trav) st)
      | Some f \<Rightarrow>
          (case f (fst st) (num_vertices trav) (num_edges trav) (num_loops trav)
                  (num_polygons trav) of
             (ok, ctx1) \<Rightarrow>
               if ok then (True, foreach_elements fc (events trav) (ctx1, snd st))
               else (False, (ctx1, snd st))))"

section \<open>Public entry point\<close>

text \<open>
  \<open>eval_begin_ok\<close> is what \<^verbatim>\<open>BKE_subdiv_eval_begin_from_mesh\<close> (the evaluator setup, not
  under src/) returned; the statistics calls are left out. The result is the pointer the
  source returns: \<open>None\<close> is the null pointer.
\<close>

definition BKE_subdiv_to_mesh ::
  "Constants \<Rightarrow> bool \<Rightarrow> foreach_traversal \<Rightarrow> Subdiv \<Rightarrow> SubdivToMeshSettings \<Rightarrow> Mesh
     \<Rightarrow> Mesh option" where
  "BKE_subdiv_to_mesh K eval_begin_ok trav sd stg coarse =
     (if \<not> eval_begin_ok \<and> totpoly coarse \<noteq> 0 then None
      else
        (let subdiv_context =
               \<lparr>settings = stg, coarse_mesh = coarse, subdiv = sd, subdiv_mesh = None,
                accumulated_counters = None,
                have_displacement = (displacement_evaluator sd \<noteq> None),
                vert_to_edge_map = None, faults = []\<rparr>;
             foreach_context = setup_foreach_callbacks K subdiv_context;
             st = snd (BKE_subdiv_foreach_subdiv_geometry foreach_context trav
                         (subdiv_context, tls_zero));
             result = subdiv_mesh (fst st);
             freed = subdiv_mesh_context_free (fst st)
         in result))"

section \<open>Mesh tangent calculations (single layer)\<close>

record BKEMeshToTangent =
  mpolys :: "MPoly list"
  mloops :: "MLoop list"
  mverts :: "MVert list"
  luvs :: "float2 list"
  lnors :: "float3 list"
  tangents :: "float4 list"
  num_polys :: nat

datatype report_type = RPT_ERROR

text \<open>A report: its type, the format string and the arguments of the format.\<close>

type_synonym report = "report_type \<times> string \<times> string option list"

text \<open>
  The tangent solver (\<^verbatim>\<open>mikk::Mikktspace::genTangSpace\<close>, an external library) is the
  parameter \<open>genTangSpace\<close>: from the mesh view it returns the tangent array it leaves
  behind. The loop that looks for a polygon of more than four corners returns at the first
  one it finds, so it reports once.
\<close>

definition BKE_mesh_calc_loop_tangent_single_ex ::
  "(BKEMeshToTangent \<Rightarrow> float4 list) \<Rightarrow> MVert list \<Rightarrow> nat \<Rightarrow> MLoop list \<Rightarrow> float4 list
     \<Rightarrow> float3 list \<Rightarrow> float2 list \<Rightarrow> nat \<Rightarrow> MPoly list \<Rightarrow> nat \<Rightarrow> report list
     \<Rightarrow> float4 list \<times> report list" where
  "BKE_mesh_calc_loop_tangent_single_ex genTangSpace mvs numVerts mls r_looptangent loopnors
       loopuvs numLoops mps numPolys reports =
     (let mesh_to_tangent =
            \<lparr>mpolys = mps, mloops = mls, mverts = mvs, luvs = loopuvs, lnors = loopnors,
             tangents = r_looptangent, num_polys = numPolys\<rparr>
      in if list_ex (\<lambda>i. totloop (mps ! i) > 4) [0 ..< numPolys] then
           (r_looptangent,
            reports @ [(RPT_ERROR,
                        ''Tangent space can only be computed for tris/quads, aborting'', [])])
         else (genTangSpace mesh_to_tangent, reports))"

text \<open>
  Modelled from the spec: \<^verbatim>\<open>CustomData_get_layer_named\<close> finds the UV map of the name,
  \<^verbatim>\<open>CustomData_get_layer\<close> the UV map the mesh has, if it has one (here the first).
\<close>

definition CustomData_get_layer_named_uv :: "LData \<Rightarrow> string \<Rightarrow> float2 list option" where
  "CustomData_get_layer_named_uv ld name = map_of (cd_mloopuv ld) name"

definition CustomData_get_layer_uv :: "LData \<Rightarrow> float2 list option" where
  "CustomData_get_layer_uv ld = (case cd_mloopuv ld of [] \<Rightarrow> None | (name, uvs) # _ \<Rightarrow> Some uvs)"

definition BKE_mesh_calc_loop_tangent_single ::
  "(BKEMeshToTangent \<Rightarrow> float4 list) \<Rightarrow> Mesh \<Rightarrow> string option \<Rightarrow> float4 list \<Rightarrow> report list
     \<Rightarrow> float4 list \<times> report list" where
  "BKE_mesh_calc_loop_tangent_single genTangSpace mesh uvmap r_looptangents reports =
     (let loopuvs = (case uvmap of
                       Some name \<Rightarrow> CustomData_get_layer_named_uv (ldata mesh) name
                     | None \<Rightarrow> CustomData_get_layer_uv (ldata mesh))
      in case loopuvs of
           None \<Rightarrow>
             (r_looptangents,
              reports @ [(RPT_ERROR,
                ''Tangent space computation needs a UV Map, \"%s\" not found, aborting'',
                [uvmap])])
         | Some uvs \<Rightarrow>
             (case cd_normal (ldata mesh) of
                None \<Rightarrow>
                  (r_looptangents,
                   reports @ [(RPT_ERROR,
                     ''Tangent space computation needs loop normals, none found, aborting'',
                     [])])
              | Some loopnors \<Rightarrow>
                  BKE_mesh_calc_loop_tangent_single_ex genTangSpace
                    (cd_mvert (vdata mesh)) (totvert mesh) (cd_mloop (ldata mesh))
                    r_looptangents loopnors uvs (mesh_totloop mesh)
                    (cd_mpoly (pdata mesh)) (totpoly mesh) reports))"

section \<open>Notions used to state the properties\<close>

text \<open>
  The displacement pre-pass is a sequence of calls of the accumulation helper, one for each
  visit \<open>(ptex_face_index, u, v, subdiv_vertex_index)\<close> of a boundary sample, whichever of
  the two pre-pass callbacks made it. \<open>displacement_sample\<close> is the vector the helper
  adds at a visit, \<open>visits_of i\<close> the visits of the vertex \<open>i\<close>.
\<close>

definition displacement_sample :: "Subdiv \<Rightarrow> nat \<times> real \<times> real \<times> nat \<Rightarrow> float3" where
  "displacement_sample sd x =
     (case x of (ptex_face_index, u, v, subdiv_vertex_index) \<Rightarrow>
        (case eval_limit_point_and_derivatives sd ptex_face_index u v of
           (dummy_P, dPdu, dPdv) \<Rightarrow>
             BKE_subdiv_eval_displacement sd ptex_face_index u v dPdu dPdv))"

definition displacement_prepass ::
  "(nat \<times> real \<times> real \<times> nat) list \<Rightarrow> SubdivMeshContext \<Rightarrow> SubdivMeshContext" where
  "displacement_prepass visits ctx =
     fold (\<lambda>x c. case x of (ptex_face_index, u, v, subdiv_vertex_index) \<Rightarrow>
               subdiv_accumulate_vertex_displacement c ptex_face_index u v subdiv_vertex_index)
          visits ctx"

definition visits_of :: "nat \<Rightarrow> (nat \<times> real \<times> real \<times> nat) list \<Rightarrow> (nat \<times> real \<times> real \<times> nat) list" where
  "visits_of i visits = filter (\<lambda>x. snd (snd (snd x)) = i) visits"

section \<open>Example inputs\<close>

text \<open>
  A coarse mesh of one quad on the unit square, an evaluator whose displacement at a ptex
  face \<open>p\<close> is \<open>(p, 2, 0)\<close>, and values for the header constants.
\<close>

definition example_subdiv :: Subdiv where
  "example_subdiv =
     \<lparr>is_simple = False,
      displacement_evaluator = Some (\<lambda>ptex u v dPdu dPdv. (real ptex, 2, 0)),
      eval_limit_point = (\<lambda>ptex u v. (u, v, 5)),
      eval_limit_point_and_derivatives = (\<lambda>ptex u v. ((u, v, 5), (1, 0, 0), (0, 1, 0))),
      eval_final_point = (\<lambda>ptex u v. (u, v, 5)),
      eval_vertex_data = (\<lambda>ptex u v. ((u, v, 0), (u, v, 1))),
      eval_face_varying = (\<lambda>layer ptex u v. (u, v))\<rparr>"

definition example_vdata :: VData where
  "example_vdata =
     \<lparr>cd_mvert = [\<lparr>co = (0, 0, 0)\<rparr>, \<lparr>co = (1, 0, 0)\<rparr>, \<lparr>co = (1, 1, 0)\<rparr>, \<lparr>co = (0, 1, 0)\<rparr>],
      cd_vert_origindex = Some [0, 1, 2, 3],
      cd_orco = None, cd_cloth_orco = None, cd_vert_extra = []\<rparr>"

definition example_mesh :: Mesh where
  "example_mesh =
     \<lparr>totvert = 4, totedge = 4, mesh_totloop = 4, totpoly = 1,
      vdata = example_vdata,
      edata = \<lparr>cd_medge = [\<lparr>edge_v1 = 0, edge_v2 = 1, edge_flag = 0\<rparr>,
                           \<lparr>edge_v1 = 1, edge_v2 = 2, edge_flag = 0\<rparr>,
                           \<lparr>edge_v1 = 2, edge_v2 = 3, edge_flag = 0\<rparr>,
                           \<lparr>edge_v1 = 3, edge_v2 = 0, edge_flag = 0\<rparr>],
               cd_edge_origindex = Some [0, 1, 2, 3], cd_edge_extra = []\<rparr>,
      ldata = \<lparr>cd_mloop = [\<lparr>loop_v = 0, loop_e = 0\<rparr>, \<lparr>loop_v = 1, loop_e = 1\<rparr>,
                           \<lparr>loop_v = 2, loop_e = 2\<rparr>, \<lparr>loop_v = 3, loop_e = 3\<rparr>],
               cd_loop_origindex = None, cd_mloopuv = [], cd_normal = None, cd_loop_extra = []\<rparr>,
      pdata = \<lparr>cd_mpoly = [\<lparr>loopstart = 0, totloop = 4\<rparr>],
               cd_poly_origindex = None, cd_poly_extra = []\<rparr>,
      subsurf_face_dot_tags = None\<rparr>"

definition example_context :: SubdivMeshContext where
  "example_context =
     \<lparr>settings = \<lparr>resolution = 3, use_optimal_display = False\<rparr>,
      coarse_mesh = example_mesh, subdiv = example_subdiv, subdiv_mesh = None,
      accumulated_counters = None, have_displacement = True, vert_to_edge_map = None,
      faults = []\<rparr>"

definition example_constants :: Constants where
  "example_constants =
     \<lparr>CD_MASK_EVERYTHING = \<lparr>vmask = - 1, emask = - 1, fmask = - 1, pmask = - 1, lmask = - 1\<rparr>,
      CD_MASK_MULTIRES_GRIDS = 6, CD_MASK_CREASE = 8, ME_EDGERENDER = 32\<rparr>"

definition example_tri_mesh :: Mesh where
  "example_tri_mesh =
     \<lparr>totvert = 3, totedge = 3, mesh_totloop = 3, totpoly = 1,
      vdata = \<lparr>cd_mvert = [\<lparr>co = (0, 0, 0)\<rparr>, \<lparr>co = (6, 0, 0)\<rparr>, \<lparr>co = (0, 6, 0)\<rparr>],
               cd_vert_origindex = None, cd_orco = None, cd_cloth_orco = None,
               cd_vert_extra = []\<rparr>,
      edata = \<lparr>cd_medge = [\<lparr>edge_v1 = 0, edge_v2 = 1, edge_flag = 0\<rparr>,
                           \<lparr>edge_v1 = 1, edge_v2 = 2, edge_flag = 0\<rparr>,
                           \<lparr>edge_v1 = 2, edge_v2 = 0, edge_flag = 0\<rparr>],
               cd_edge_origindex = None, cd_edge_extra = []\<rparr>,
      ldata = \<lparr>cd_mloop = [\<lparr>loop_v = 0, loop_e = 0\<rparr>, \<lparr>loop_v = 1, loop_e = 1\<rparr>,
                           \<lparr>loop_v = 2, loop_e = 2\<rparr>],
               cd_loop_origindex = None, cd_mloopuv = [], cd_normal = None, cd_loop_extra = []\<rparr>,
      pdata = \<lparr>cd_mpoly = [\<lparr>loopstart = 0, totloop = 3\<rparr>],
               cd_poly_origindex = None, cd_poly_extra = []\<rparr>,
      subsurf_face_dot_tags = None\<rparr>"

definition example_tri_context :: SubdivMeshContext where
  "example_tri_context = example_context\<lparr>coarse_mesh := example_tri_mesh\<rparr>"

definition example_tls_corner0 :: SubdivMeshTLS where
  "example_tls_corner0 =
     subdiv_mesh_ensure_loop_interpolation example_constants example_tri_context
       (subdiv_mesh_ensure_vertex_interpolation example_constants example_tri_context
          tls_zero 0 0) 0 0"

definition reinit_calls :: "bool \<Rightarrow> bool \<Rightarrow> cd_call list \<Rightarrow> cd_call list" where
  "reinit_calls was_allocated quad corner_calls =
     (if was_allocated then [CD_free 4] else [])
       @ (if quad then [] else [CD_copy 4, CD_interp 2] @ corner_calls)"

definition example_state :: foreach_state where
  "example_state =
     (snd (subdiv_mesh_topology_info example_constants example_context 9 12 16 4), tls_zero)"

definition example_orco_context :: SubdivMeshContext where
  "example_orco_context =
     snd (subdiv_mesh_topology_info example_constants
            (example_context
               \<lparr>coarse_mesh := example_mesh
                  \<lparr>vdata := example_vdata
                     \<lparr>cd_orco := Some [(0, 0, 0), (1, 0, 0), (1, 1, 0), (0, 1, 0)],
                      cd_cloth_orco := Some [(0, 0, 0), (2, 0, 0), (2, 2, 0), (0, 2, 0)]\<rparr>\<rparr>\<rparr>)
            9 12 16 4)"

definition example_cloth_context :: SubdivMeshContext where
  "example_cloth_context =
     snd (subdiv_mesh_topology_info example_constants
            (example_context
               \<lparr>coarse_mesh := example_mesh
                  \<lparr>vdata := example_vdata
                     \<lparr>cd_cloth_orco := Some [(0, 0, 0), (2, 0, 0), (2, 2, 0), (0, 2, 0)]\<rparr>\<rparr>\<rparr>)
            9 12 16 4)"

text \<open>
  The claim about the loose-edge control points, in its own words: the other edges that
  touch a vertex in the vertex-to-edge map, and the outer control point at an end of the
  edge, which comes from the other edge if there is exactly one and is the extrapolation
  otherwise.
\<close>

definition other_edges_at :: "MEdge list \<Rightarrow> nat list list \<Rightarrow> nat \<Rightarrow> nat \<Rightarrow> nat list" where
  "other_edges_at coarse_es vert_to_edge edge_index vert =
     filter (\<lambda>i. i \<noteq> edge_index
                 \<and> (vert = edge_v1 (coarse_es ! i) \<or> vert = edge_v2 (coarse_es ! i)))
       (vert_to_edge ! vert)"

definition outer_control_point ::
  "MVert list \<Rightarrow> MEdge list \<Rightarrow> nat list \<Rightarrow> nat \<Rightarrow> float3 \<Rightarrow> float3 \<Rightarrow> float3" where
  "outer_control_point coarse_vs coarse_es others vert p_near p_far =
     (case others of
        [n] \<Rightarrow> (if edge_v1 (coarse_es ! n) = vert
                then co (coarse_vs ! edge_v2 (coarse_es ! n))
                else co (coarse_vs ! edge_v1 (coarse_es ! n)))
      | _ \<Rightarrow> add_v3_v3 (sub_v3_v3v3 p_near p_far) p_near)"

text \<open>A chain of two loose edges: 0 -- 1 -- 2.\<close>

definition chain_verts :: "MVert list" where
  "chain_verts = [\<lparr>co = (0, 0, 0)\<rparr>, \<lparr>co = (6, 0, 0)\<rparr>, \<lparr>co = (12, 6, 0)\<rparr>]"

definition chain_edges :: "MEdge list" where
  "chain_edges = [\<lparr>edge_v1 = 0, edge_v2 = 1, edge_flag = 0\<rparr>,
                  \<lparr>edge_v1 = 1, edge_v2 = 2, edge_flag = 0\<rparr>]"

text \<open>A mesh of one polygon of five corners, with a UV map and loop normals.\<close>

definition example_ngon_mesh :: Mesh where
  "example_ngon_mesh =
     \<lparr>totvert = 5, totedge = 5, mesh_totloop = 5, totpoly = 1,
      vdata = \<lparr>cd_mvert = [\<lparr>co = (0, 0, 0)\<rparr>, \<lparr>co = (2, 0, 0)\<rparr>, \<lparr>co = (3, 2, 0)\<rparr>,
                           \<lparr>co = (1, 3, 0)\<rparr>, \<lparr>co = (- 1, 2, 0)\<rparr>],
               cd_vert_origindex = None, cd_orco = None, cd_cloth_orco = None,
               cd_vert_extra = []\<rparr>,
      edata = \<lparr>cd_medge = [\<lparr>edge_v1 = 0, edge_v2 = 1, edge_flag = 0\<rparr>,
                           \<lparr>edge_v1 = 1, edge_v2 = 2, edge_flag = 0\<rparr>,
                           \<lparr>edge_v1 = 2, edge_v2 = 3, edge_flag = 0\<rparr>,
                           \<lparr>edge_v1 = 3, edge_v2 = 4, edge_flag = 0\<rparr>,
                           \<lparr>edge_v1 = 4, edge_v2 = 0, edge_flag = 0\<rparr>],
               cd_edge_origindex = None, cd_edge_extra = []\<rparr>,
      ldata = \<lparr>cd_mloop = [\<lparr>loop_v = 0, loop_e = 0\<rparr>, \<lparr>loop_v = 1, loop_e = 1\<rparr>,
                           \<lparr>loop_v = 2, loop_e = 2\<rparr>, \<lparr>loop_v = 3, loop_e = 3\<rparr>,
                           \<lparr>loop_v = 4, loop_e = 4\<rparr>],
               cd_loop_origindex = None,
               cd_mloopuv = [(''UVMap'', [(0, 0), (1, 0), (1, 1), (1 / 2, 1), (0, 1)])],
               cd_normal = Some [(0, 0, 1), (0, 0, 1), (0, 0, 1), (0, 0, 1), (0, 0, 1)],
               cd_loop_extra = []\<rparr>,
      pdata = \<lparr>cd_mpoly = [\<lparr>loopstart = 0, totloop = 5\<rparr>],
               cd_poly_origindex = None, cd_poly_extra = []\<rparr>,
      subsurf_face_dot_tags = None\<rparr>"

text \<open>The four element counts of a mesh, and those of the output mesh of a context.\<close>

definition mesh_counts :: "Mesh \<Rightarrow> nat \<times> nat \<times> nat \<times> nat" where
  "mesh_counts m = (totvert m, totedge m, mesh_totloop m, totpoly m)"

definition output_counts :: "SubdivMeshContext \<Rightarrow> (nat \<times> nat \<times> nat \<times> nat) option" where
  "output_counts ctx = map_option mesh_counts (subdiv_mesh ctx)"

definition example_traversal :: foreach_traversal where
  "example_traversal =
     \<lparr>num_vertices = 9, num_edges = 12, num_loops = 16, num_polygons = 4,
      events = [Vertex_every_corner 0 0 0 0 0 0 0, Vertex_corner 0 0 0 0 0 0 0,
                Vertex_edge 0 (1 / 2) 0 0 0 0 4, Vertex_inner 0 (1 / 2) (1 / 2) 0 0 8,
                Edge 0 0 False 0 4, Edge (- 1) 8 False 4 8,
                Loop 0 0 0 0 0 0 0 0 0, Poly 0 0 0 4]\<rparr>"

text \<open>The coarse mesh without polygons: two loose vertices joined by an edge.\<close>

definition example_wire_mesh :: Mesh where
  "example_wire_mesh =
     \<lparr>totvert = 2, totedge = 1, mesh_totloop = 0, totpoly = 0,
      vdata = \<lparr>cd_mvert = [\<lparr>co = (0, 0, 0)\<rparr>, \<lparr>co = (6, 0, 0)\<rparr>],
               cd_vert_origindex = None, cd_orco = None, cd_cloth_orco = None,
               cd_vert_extra = []\<rparr>,
      edata = \<lparr>cd_medge = [\<lparr>edge_v1 = 0, edge_v2 = 1, edge_flag = 0\<rparr>],
               cd_edge_origindex = None, cd_edge_extra = []\<rparr>,
      ldata = \<lparr>cd_mloop = [], cd_loop_origindex = None, cd_mloopuv = [], cd_normal = None,
               cd_loop_extra = []\<rparr>,
      pdata = \<lparr>cd_mpoly = [], cd_poly_origindex = None, cd_poly_extra = []\<rparr>,
      subsurf_face_dot_tags = None\<rparr>"

definition example_wire_traversal :: foreach_traversal where
  "example_wire_traversal =
     \<lparr>num_vertices = 3, num_edges = 2, num_loops = 0, num_polygons = 0,
      events = [Vertex_loose 0 0, Vertex_loose 1 1, Vertex_of_loose_edge 0 0 0,
                Vertex_of_loose_edge 0 1 1, Vertex_of_loose_edge 0 (1 / 2) 2,
                Edge 0 0 True 0 2, Edge 0 1 True 2 1]\<rparr>"

section \<open>Properties\<close>

subsection \<open>Vectors and the output mesh\<close>

lemma add_v3_v3_assoc: "add_v3_v3 (add_v3_v3 a b) c = add_v3_v3 a (add_v3_v3 b c)"
  by (cases a; cases b; cases c) simp

lemma add_v3_v3_commute: "add_v3_v3 a b = add_v3_v3 b a"
  by (cases a; cases b) simp

lemma add_v3_v3_zero [simp]: "add_v3_v3 a zero_v3 = a" "add_v3_v3 zero_v3 a = a"
  by (cases a; simp add: zero_v3_def)+

lemma subdiv_mesh_map_subdiv_mesh [simp]:
  "subdiv_mesh (map_subdiv_mesh f ctx) = map_option f (subdiv_mesh ctx)"
  by (simp add: map_subdiv_mesh_def)

lemma map_subdiv_mesh_fields [simp]:
  "subdiv (map_subdiv_mesh f ctx) = subdiv ctx"
  "settings (map_subdiv_mesh f ctx) = settings ctx"
  "coarse_mesh (map_subdiv_mesh f ctx) = coarse_mesh ctx"
  "accumulated_counters (map_subdiv_mesh f ctx) = accumulated_counters ctx"
  "have_displacement (map_subdiv_mesh f ctx) = have_displacement ctx"
  "vert_to_edge_map (map_subdiv_mesh f ctx) = vert_to_edge_map ctx"
  "faults (map_subdiv_mesh f ctx) = faults ctx"
  by (simp_all add: map_subdiv_mesh_def)

lemma faults_update_reads [simp]:
  "subdiv_verts (ctx\<lparr>faults := fs\<rparr>) = subdiv_verts ctx"
  "ctx_orco (ctx\<lparr>faults := fs\<rparr>) = ctx_orco ctx"
  "ctx_cloth_orco (ctx\<lparr>faults := fs\<rparr>) = ctx_cloth_orco ctx"
  by (simp_all add: subdiv_verts_def ctx_orco_def ctx_cloth_orco_def)

lemma subdiv_verts_map_vdata:
  "subdiv_verts (map_subdiv_mesh (map_vdata f) ctx)
     = (case subdiv_mesh ctx of None \<Rightarrow> [] | Some m \<Rightarrow> cd_mvert (f (vdata m)))"
  by (simp add: subdiv_verts_def map_vdata_def split: option.splits)

lemma subdiv_verts_set_vert_co [simp]:
  "subdiv_verts (set_vert_co i p ctx) = (subdiv_verts ctx)[i := (subdiv_verts ctx ! i)\<lparr>co := p\<rparr>]"
  by (simp add: set_vert_co_def subdiv_verts_map_vdata) (simp add: subdiv_verts_def split: option.splits)

lemma set_vert_co_fields [simp]:
  "subdiv (set_vert_co i p ctx) = subdiv ctx"
  "accumulated_counters (set_vert_co i p ctx) = accumulated_counters ctx"
  "have_displacement (set_vert_co i p ctx) = have_displacement ctx"
  by (simp_all add: set_vert_co_def)

lemma subdiv_verts_set_orco_layer [simp]:
  "subdiv_verts (set_orco_layer l ctx) = subdiv_verts ctx"
  by (simp add: set_orco_layer_def subdiv_verts_map_vdata) (simp add: subdiv_verts_def split: option.splits)

lemma subdiv_verts_write_orco [simp]:
  "subdiv_verts (write_orco i p ctx) = subdiv_verts ctx"
  by (simp add: write_orco_def split: option.splits)

lemma subdiv_verts_orco_evaluate [simp]:
  "subdiv_verts (subdiv_vertex_orco_evaluate ctx p u v i) = subdiv_verts ctx"
  by (simp add: subdiv_vertex_orco_evaluate_def Let_def split: prod.splits)

lemma subdiv_verts_set_face_dot_tag [simp]:
  "subdiv_verts (set_face_dot_tag i b ctx) = subdiv_verts ctx"
  by (simp add: set_face_dot_tag_def subdiv_verts_def split: option.splits)

lemma subdiv_verts_set_vert_origindex [simp]:
  "subdiv_verts (set_vert_origindex i x ctx) = subdiv_verts ctx"
  by (simp add: set_vert_origindex_def subdiv_verts_map_vdata) (simp add: subdiv_verts_def split: option.splits)

lemma length_subdiv_verts_copy [simp]:
  "length (subdiv_verts (subdiv_vertex_data_copy ctx ci si)) = length (subdiv_verts ctx)"
  by (simp add: subdiv_vertex_data_copy_def subdiv_verts_map_vdata CustomData_copy_data_vert_def)
     (simp add: subdiv_verts_def split: option.splits)

lemma length_subdiv_verts_interpolate [simp]:
  "length (subdiv_verts (subdiv_vertex_data_interpolate ctx si vi u v)) = length (subdiv_verts ctx)"
  by (simp add: subdiv_vertex_data_interpolate_def Let_def subdiv_verts_map_vdata CustomData_interp_vert_def)
     (simp add: subdiv_verts_def split: option.splits)

lemma accumulate_subdiv [simp]:
  "subdiv (subdiv_accumulate_vertex_displacement ctx p u v j) = subdiv ctx"
  "have_displacement (subdiv_accumulate_vertex_displacement ctx p u v j) = have_displacement ctx"
  by (simp_all add: subdiv_accumulate_vertex_displacement_def Let_def split: prod.splits option.splits)

lemma subdiv_verts_counters_update [simp]:
  "subdiv_verts (ctx\<lparr>accumulated_counters := x\<rparr>) = subdiv_verts ctx"
  by (simp add: subdiv_verts_def)

lemma accumulate_verts:
  "subdiv_verts (subdiv_accumulate_vertex_displacement ctx p u v j)
     = (subdiv_verts ctx)[j := (subdiv_verts ctx ! j)
          \<lparr>co := add_v3_v3 (co (subdiv_verts ctx ! j)) (displacement_sample (subdiv ctx) (p, u, v, j))\<rparr>]"
  by (simp add: subdiv_accumulate_vertex_displacement_def displacement_sample_def Let_def
           split: prod.splits option.splits)

lemma accumulate_counters:
  "accumulated_counters (subdiv_accumulate_vertex_displacement ctx p u v j)
     = map_option (\<lambda>cs. cs[j := cs ! j + 1]) (accumulated_counters ctx)"
  by (simp add: subdiv_accumulate_vertex_displacement_def Let_def
           split: prod.splits option.splits)

lemma prepass_Nil [simp]: "displacement_prepass [] ctx = ctx"
  by (simp add: displacement_prepass_def)

lemma prepass_Cons [simp]:
  "displacement_prepass ((p, u, v, j) # visits) ctx
     = displacement_prepass visits (subdiv_accumulate_vertex_displacement ctx p u v j)"
  by (simp add: displacement_prepass_def)

lemma prepass_subdiv [simp]:
  "subdiv (displacement_prepass visits ctx) = subdiv ctx"
  "have_displacement (displacement_prepass visits ctx) = have_displacement ctx"
  by (induction visits arbitrary: ctx; force)+

lemma prepass_length:
  "length (subdiv_verts (displacement_prepass visits ctx)) = length (subdiv_verts ctx)"
  by (induction visits arbitrary: ctx) (auto simp: accumulate_verts)

lemma prepass_counters_length:
  "accumulated_counters ctx = Some cs \<Longrightarrow>
   \<exists>cs'. accumulated_counters (displacement_prepass visits ctx) = Some cs' \<and> length cs' = length cs"
proof (induction visits arbitrary: ctx cs)
  case Nil
  then show ?case by simp
next
  case (Cons x visits)
  obtain p u v j where x: "x = (p, u, v, j)" by (cases x) auto
  let ?c = "subdiv_accumulate_vertex_displacement ctx p u v j"
  have cs': "accumulated_counters ?c = Some (cs[j := cs ! j + 1])"
    using Cons.prems by (simp add: accumulate_counters)
  show ?case using Cons.IH [OF cs'] by (simp add: x)
qed

lemma prepass_co:
  "i < length (subdiv_verts ctx) \<Longrightarrow>
   co (subdiv_verts (displacement_prepass visits ctx) ! i)
     = add_v3_v3 (co (subdiv_verts ctx ! i))
         (sum_v3 (map (displacement_sample (subdiv ctx)) (visits_of i visits)))"
proof (induction visits arbitrary: ctx)
  case Nil
  then show ?case by (simp add: visits_of_def)
next
  case (Cons x visits)
  obtain p u v j where x: "x = (p, u, v, j)" by (cases x) auto
  let ?c = "subdiv_accumulate_vertex_displacement ctx p u v j"
  have len: "i < length (subdiv_verts ?c)" using Cons.prems by (simp add: accumulate_verts)
  show ?case
    using Cons.IH [OF len] Cons.prems
    by (simp add: x visits_of_def accumulate_verts nth_list_update add_v3_v3_assoc)
qed

lemma prepass_counter:
  "accumulated_counters ctx = Some cs \<Longrightarrow> i < length cs \<Longrightarrow>
   accumulated_counter (displacement_prepass visits ctx) i
     = accumulated_counter ctx i + length (visits_of i visits)"
proof (induction visits arbitrary: ctx cs)
  case Nil
  then show ?case by (simp add: visits_of_def)
next
  case (Cons x visits)
  obtain p u v j where x: "x = (p, u, v, j)" by (cases x) auto
  let ?c = "subdiv_accumulate_vertex_displacement ctx p u v j"
  have cs': "accumulated_counters ?c = Some (cs[j := cs ! j + 1])"
    using Cons.prems by (simp add: accumulate_counters)
  show ?case
    using Cons.IH [OF cs'] Cons.prems
    by (simp add: x visits_of_def accumulated_counter_def cs' nth_list_update)
qed

lemma vertex_data_copy_fields [simp]:
  "subdiv (subdiv_vertex_data_copy ctx ci si) = subdiv ctx"
  "have_displacement (subdiv_vertex_data_copy ctx ci si) = have_displacement ctx"
  by (simp_all add: subdiv_vertex_data_copy_def)

lemma set_vert_origindex_fields [simp]:
  "subdiv (set_vert_origindex i x ctx) = subdiv ctx"
  "have_displacement (set_vert_origindex i x ctx) = have_displacement ctx"
  by (simp_all add: set_vert_origindex_def)

lemma vertex_data_interpolate_fields [simp]:
  "subdiv (subdiv_vertex_data_interpolate ctx si vi u v) = subdiv ctx"
  "have_displacement (subdiv_vertex_data_interpolate ctx si vi u v) = have_displacement ctx"
  by (simp_all add: subdiv_vertex_data_interpolate_def Let_def)

lemma evaluate_copy_co:
  "i < length (subdiv_verts ctx) \<Longrightarrow>
   co (subdiv_verts (evaluate_vertex_and_apply_displacement_copy ctx p u v cv i) ! i)
     = add_v3_v3 (eval_limit_point (subdiv ctx) p u v)
         (if have_displacement ctx
          then mul_v3_fl (co (subdiv_verts ctx ! i)) (1 / real (accumulated_counter ctx i))
          else zero_v3)"
  by (simp add: evaluate_vertex_and_apply_displacement_copy_def Let_def)

lemma evaluate_interpolate_co:
  "i < length (subdiv_verts ctx) \<Longrightarrow>
   co (subdiv_verts (evaluate_vertex_and_apply_displacement_interpolate ctx p u v vi i) ! i)
     = add_v3_v3 (eval_limit_point (subdiv ctx) p u v)
         (if have_displacement ctx
          then mul_v3_fl (co (subdiv_verts ctx ! i)) (1 / real (accumulated_counter ctx i))
          else zero_v3)"
  by (simp add: evaluate_vertex_and_apply_displacement_interpolate_def Let_def)

lemma topology_info_fields [simp]:
  "subdiv (snd (subdiv_mesh_topology_info K ctx nv ne nl np)) = subdiv ctx"
  "have_displacement (snd (subdiv_mesh_topology_info K ctx nv ne nl np)) = have_displacement ctx"
  "coarse_mesh (snd (subdiv_mesh_topology_info K ctx nv ne nl np)) = coarse_mesh ctx"
  "settings (snd (subdiv_mesh_topology_info K ctx nv ne nl np)) = settings ctx"
  by (simp_all add: subdiv_mesh_topology_info_def Let_def subdiv_mesh_prepare_accumulator_def)

lemma topology_info_verts:
  "subdiv_verts (snd (subdiv_mesh_topology_info K ctx nv ne nl np)) = replicate nv \<lparr>co = zero_v3\<rparr>"
  by (simp add: subdiv_mesh_topology_info_def Let_def subdiv_mesh_prepare_accumulator_def
        subdiv_verts_def BKE_mesh_new_nomain_from_template_ex_def CustomData_copy_vert_def)

lemma topology_info_counters:
  "accumulated_counters (snd (subdiv_mesh_topology_info K ctx nv ne nl np))
     = (if have_displacement ctx then Some (replicate nv 0) else accumulated_counters ctx)"
  by (simp add: subdiv_mesh_topology_info_def Let_def subdiv_mesh_prepare_accumulator_def)

subsection \<open>Displacement is averaged\<close>

text \<open>
  C1. With a displacement function attached, let the topology callback allocate the output
  mesh and let the pre-pass make any sequence of visits. Each visit of a vertex adds one
  displacement sample into the position of the vertex and increments its counter, so after
  the pre-pass the position holds the sum of the samples of the vertex and the counter
  their number \<open>N\<close>. The final pass of a corner vertex (copy) or of an edge vertex
  (interpolate) then sets the position to the limit position plus that sum divided by
  \<open>N\<close>: the samples are averaged. \<open>N\<close> is at least 1.
\<close>

theorem displacement_accumulated_then_averaged:
  assumes "have_displacement ctx" and "i < nv" and "visits_of i visits \<noteq> []"
  shows "let ctx0 = snd (subdiv_mesh_topology_info K ctx nv ne nl np);
             ctxN = displacement_prepass visits ctx0;
             samples = map (displacement_sample (subdiv ctx)) (visits_of i visits);
             average = mul_v3_fl (sum_v3 samples) (1 / real (length samples));
             limit = eval_limit_point (subdiv ctx) p u v;
             ctxN1 = subdiv_accumulate_vertex_displacement ctxN p' u' v' i
         in co (subdiv_verts ctxN ! i) = sum_v3 samples
          \<and> accumulated_counter ctxN i = length samples
          \<and> co (subdiv_verts ctxN1 ! i)
              = add_v3_v3 (co (subdiv_verts ctxN ! i))
                  (displacement_sample (subdiv ctx) (p', u', v', i))
          \<and> accumulated_counter ctxN1 i = accumulated_counter ctxN i + 1
          \<and> co (subdiv_verts
                  (evaluate_vertex_and_apply_displacement_copy ctxN p u v cv i) ! i)
              = add_v3_v3 limit average
          \<and> co (subdiv_verts
                  (evaluate_vertex_and_apply_displacement_interpolate ctxN p u v interpolation i)
                    ! i)
              = add_v3_v3 limit average"
proof -
  define ctx0 where "ctx0 = snd (subdiv_mesh_topology_info K ctx nv ne nl np)"
  define ctxN where "ctxN = displacement_prepass visits ctx0"
  define samples where "samples = map (displacement_sample (subdiv ctx)) (visits_of i visits)"
  have len0: "i < length (subdiv_verts ctx0)"
    using assms(2) by (simp add: ctx0_def topology_info_verts)
  have cs0: "accumulated_counters ctx0 = Some (replicate nv 0)"
    using assms(1) by (simp add: ctx0_def topology_info_counters)
  have lenN: "i < length (subdiv_verts ctxN)"
    using len0 by (simp add: ctxN_def prepass_length)
  have hdN: "have_displacement ctxN" "subdiv ctxN = subdiv ctx"
    using assms(1) by (simp_all add: ctxN_def ctx0_def)
  have coN: "co (subdiv_verts ctxN ! i) = sum_v3 samples"
    using prepass_co [OF len0, of visits] assms(2)
    by (simp add: ctxN_def samples_def ctx0_def topology_info_verts)
  have cntN: "accumulated_counter ctxN i = length samples"
    using prepass_counter [OF cs0, of i visits] assms(2)
    by (simp add: ctxN_def samples_def accumulated_counter_def cs0)
  obtain csN where csN: "accumulated_counters ctxN = Some csN" "length csN = nv"
    using prepass_counters_length [OF cs0, of visits] by (auto simp: ctxN_def)
  have step_co: "co (subdiv_verts (subdiv_accumulate_vertex_displacement ctxN p' u' v' i) ! i)
          = add_v3_v3 (co (subdiv_verts ctxN ! i)) (displacement_sample (subdiv ctx) (p', u', v', i))"
    using lenN by (simp add: accumulate_verts hdN)
  have step_cnt: "accumulated_counter (subdiv_accumulate_vertex_displacement ctxN p' u' v' i) i
          = accumulated_counter ctxN i + 1"
    using csN assms(2) by (simp add: accumulated_counter_def accumulate_counters)
  have fin1: "co (subdiv_verts (evaluate_vertex_and_apply_displacement_copy ctxN p u v cv i) ! i)
          = add_v3_v3 (eval_limit_point (subdiv ctx) p u v)
              (mul_v3_fl (sum_v3 samples) (1 / real (length samples)))"
    using evaluate_copy_co [OF lenN, of p u v cv] by (simp add: hdN coN cntN)
  have fin2: "co (subdiv_verts
                 (evaluate_vertex_and_apply_displacement_interpolate ctxN p u v interpolation i) ! i)
          = add_v3_v3 (eval_limit_point (subdiv ctx) p u v)
              (mul_v3_fl (sum_v3 samples) (1 / real (length samples)))"
    using evaluate_interpolate_co [OF lenN, of p u v interpolation] by (simp add: hdN coN cntN)
  show ?thesis
    unfolding Let_def
    using coN cntN step_co step_cnt fin1 fin2
    by (simp only: ctxN_def ctx0_def samples_def simp_thms)
qed

theorem displacement_accumulated_then_averaged_witness:
  "have_displacement example_context \<and> (0::nat) < 1
   \<and> visits_of 0 [(0, 0, 0, 0), (4, 1, 0, 0), (7, 0, 0, 1)] \<noteq> []
   \<and> co (subdiv_verts
          (evaluate_vertex_and_apply_displacement_copy
             (displacement_prepass [(0, 0, 0, 0), (4, 1, 0, 0), (7, 0, 0, 1)]
                (snd (subdiv_mesh_topology_info example_constants example_context 1 0 0 0)))
             0 0 0 0 0) ! 0)
       = (2, 2, 5)"
proof -
  have h1: "have_displacement example_context" by (simp add: example_context_def)
  have h2: "(0::nat) < 1" by simp
  have h3: "visits_of 0 [(0, 0, 0, 0), (4, 1, 0, 0), (7, 0, 0, 1::nat)] \<noteq> []"
    by (simp add: visits_of_def)
  show ?thesis
    using h1 h3 displacement_accumulated_then_averaged [OF h1 h2 h3,
        of example_constants 0 0 0 0 0 0 0 0 0 0 "vertex_interpolation tls_zero"]
    by (simp add: Let_def visits_of_def displacement_sample_def BKE_subdiv_eval_displacement_def
          example_context_def example_subdiv_def)
qed

subsection \<open>The interpolation caches\<close>

text \<open>
  C6. For a coarse polygon of four loops, initializing the vertex cache or the loop cache
  calls nothing on the scratch custom data (no allocation: the call list and the storage
  are as before, and the storage is marked not allocated), makes the cache point at the
  custom data of the coarse mesh, and sets the four indices to the polygon's loops
  \<open>loopstart + 0..3\<close> in order (for the vertex cache, to the vertices of these loops). The
  per-corner update then changes nothing.
\<close>

theorem quad_interpolation_init_no_copy:
  assumes "totloop coarse_poly = 4"
  shows "let vi = vertex_interpolation_init K ctx vertex_interp coarse_poly;
             li = loop_interpolation_init K ctx loop_interp coarse_poly
         in vertex_cd_calls vi = vertex_cd_calls vertex_interp
          \<and> vertex_data_storage vi = vertex_data_storage vertex_interp
          \<and> \<not> vertex_data_storage_allocated vi
          \<and> vertex_data vi = Coarse_data
          \<and> vertex_interpolation_source ctx vi = vdata (coarse_mesh ctx)
          \<and> vertex_indices vi
              = map (\<lambda>k. loop_v (coarse_loops ctx ! (loopstart coarse_poly + k))) [0, 1, 2, 3]
          \<and> vertex_interpolation_from_corner ctx vi coarse_poly corner = vi
          \<and> loop_cd_calls li = loop_cd_calls loop_interp
          \<and> loop_data_storage li = loop_data_storage loop_interp
          \<and> \<not> loop_data_storage_allocated li
          \<and> loop_data li = Coarse_data
          \<and> loop_interpolation_source ctx li = ldata (coarse_mesh ctx)
          \<and> loop_indices li = map (\<lambda>k. loopstart coarse_poly + k) [0, 1, 2, 3]
          \<and> loop_interpolation_from_corner ctx li coarse_poly corner = li"
  using assms
  by (simp add: Let_def vertex_interpolation_init_def loop_interpolation_init_def
        vertex_interpolation_source_def loop_interpolation_source_def
        vertex_interpolation_from_corner_def loop_interpolation_from_corner_def)

theorem quad_interpolation_init_no_copy_witness:
  "totloop (coarse_polys example_context ! 0) = 4
   \<and> vertex_indices (vertex_interpolation_init example_constants example_context
         (vertex_interpolation tls_zero) (coarse_polys example_context ! 0)) = [0, 1, 2, 3]
   \<and> vertex_cd_calls (vertex_interpolation_init example_constants example_context
         (vertex_interpolation tls_zero) (coarse_polys example_context ! 0)) = []
   \<and> loop_indices (loop_interpolation_init example_constants example_context
         (loop_interpolation tls_zero) (coarse_polys example_context ! 0)) = [0, 1, 2, 3]"
proof -
  have h: "totloop (coarse_polys example_context ! 0) = 4"
    by (simp add: coarse_polys_def example_context_def example_mesh_def)
  show ?thesis
    using h quad_interpolation_init_no_copy [OF h, of example_constants example_context
        "vertex_interpolation tls_zero" "loop_interpolation tls_zero" 0]
    by (simp add: Let_def coarse_polys_def coarse_loops_def example_context_def example_mesh_def
          tls_zero_def)
qed

lemma ensure_vertex_interpolation_cases:
  "subdiv_mesh_ensure_vertex_interpolation K ctx tls coarse_poly coarse_corner =
     (if vertex_interpolation_initialized tls
         \<and> vertex_interpolation_coarse_poly tls = Some coarse_poly
         \<and> vertex_interpolation_coarse_corner tls = coarse_corner
      then tls
      else tls\<lparr>vertex_interpolation :=
                 vertex_interpolation_from_corner ctx
                   (vertex_interpolation_init K ctx
                      (if vertex_interpolation_initialized tls
                       then vertex_interpolation_end (vertex_interpolation tls)
                       else vertex_interpolation tls)
                      (coarse_polys ctx ! coarse_poly))
                   (coarse_polys ctx ! coarse_poly) coarse_corner,
               vertex_interpolation_initialized := True,
               vertex_interpolation_coarse_poly := Some coarse_poly,
               vertex_interpolation_coarse_corner := coarse_corner\<rparr>)"
  by (simp add: subdiv_mesh_ensure_vertex_interpolation_def Let_def)

lemma ensure_loop_interpolation_cases:
  "subdiv_mesh_ensure_loop_interpolation K ctx tls coarse_poly coarse_corner =
     (if loop_interpolation_initialized tls
         \<and> loop_interpolation_coarse_poly tls = Some coarse_poly
         \<and> loop_interpolation_coarse_corner tls = coarse_corner
      then tls
      else tls\<lparr>loop_interpolation :=
                 loop_interpolation_from_corner ctx
                   (loop_interpolation_init K ctx
                      (if loop_interpolation_initialized tls
                       then loop_interpolation_end (loop_interpolation tls)
                       else loop_interpolation tls)
                      (coarse_polys ctx ! coarse_poly))
                   (coarse_polys ctx ! coarse_poly) coarse_corner,
               loop_interpolation_initialized := True,
               loop_interpolation_coarse_poly := Some coarse_poly,
               loop_interpolation_coarse_corner := coarse_corner\<rparr>)"
  by (simp add: subdiv_mesh_ensure_loop_interpolation_def Let_def)

lemma vertex_cd_calls_init:
  "vertex_cd_calls (vertex_interpolation_init K ctx vi p)
     = vertex_cd_calls vi @ (if totloop p = 4 then [] else [CD_copy 4, CD_interp 2])"
  by (simp add: vertex_interpolation_init_def Let_def)

lemma vertex_cd_calls_from_corner:
  "vertex_cd_calls (vertex_interpolation_from_corner ctx vi p c)
     = vertex_cd_calls vi @ (if totloop p = 4 then [] else [CD_copy_data 0, CD_interp 1, CD_interp 3])"
  by (simp add: vertex_interpolation_from_corner_def Let_def)

lemma vertex_cd_calls_end:
  "vertex_cd_calls (vertex_interpolation_end vi)
     = vertex_cd_calls vi @ (if vertex_data_storage_allocated vi then [CD_free 4] else [])"
  by (simp add: vertex_interpolation_end_def)

lemma vertex_allocated_init:
  "vertex_data_storage_allocated (vertex_interpolation_init K ctx vi p) = (totloop p \<noteq> 4)"
  by (simp add: vertex_interpolation_init_def Let_def)

lemma vertex_allocated_from_corner:
  "vertex_data_storage_allocated (vertex_interpolation_from_corner ctx vi p c)
     = vertex_data_storage_allocated vi"
  by (simp add: vertex_interpolation_from_corner_def Let_def)

lemma loop_cd_calls_init:
  "loop_cd_calls (loop_interpolation_init K ctx li p)
     = loop_cd_calls li @ (if totloop p = 4 then [] else [CD_copy 4, CD_interp 2])"
  by (simp add: loop_interpolation_init_def Let_def)

lemma loop_cd_calls_from_corner:
  "loop_cd_calls (loop_interpolation_from_corner ctx li p c)
     = loop_cd_calls li
         @ (if totloop p = 4 then [] else [CD_free_elem 0, CD_copy_data 0, CD_interp 1, CD_interp 3])"
  by (simp add: loop_interpolation_from_corner_def Let_def)

lemma loop_cd_calls_end:
  "loop_cd_calls (loop_interpolation_end li)
     = loop_cd_calls li @ (if loop_data_storage_allocated li then [CD_free 4] else [])"
  by (simp add: loop_interpolation_end_def)

lemma loop_allocated_init:
  "loop_data_storage_allocated (loop_interpolation_init K ctx li p) = (totloop p \<noteq> 4)"
  by (simp add: loop_interpolation_init_def Let_def)

lemma loop_allocated_from_corner:
  "loop_data_storage_allocated (loop_interpolation_from_corner ctx li p c)
     = loop_data_storage_allocated li"
  by (simp add: loop_interpolation_from_corner_def Let_def)

text \<open>
  C3, as the code has it. For the vertex cache and for the loop cache alike: a call with
  the polygon and the corner the cache was built for returns the thread-local state as it
  is. Every other call (no cache yet, another polygon, or another corner of the same
  polygon) releases the cache if it was initialized, initializes it in full for the
  polygon, and then applies the per-corner update; the calls it makes on the scratch
  custom data are the release (if the storage was allocated) and, for a polygon that is not
  a quad, the allocation, the interpolation of the centre (index 2), and the update of
  indices 0, 1 and 3.
\<close>

theorem ensure_interpolation_reinit_on_any_change:
  "(let same = (vertex_interpolation_initialized tls
                 \<and> vertex_interpolation_coarse_poly tls = Some coarse_poly
                 \<and> vertex_interpolation_coarse_corner tls = coarse_corner);
        p = coarse_polys ctx ! coarse_poly;
        old = vertex_interpolation tls;
        tls' = subdiv_mesh_ensure_vertex_interpolation K ctx tls coarse_poly coarse_corner
    in (same \<longrightarrow> tls' = tls)
     \<and> (\<not> same \<longrightarrow>
           tls' = tls\<lparr>vertex_interpolation :=
                        vertex_interpolation_from_corner ctx
                          (vertex_interpolation_init K ctx
                             (if vertex_interpolation_initialized tls
                              then vertex_interpolation_end old else old) p)
                          p coarse_corner,
                      vertex_interpolation_initialized := True,
                      vertex_interpolation_coarse_poly := Some coarse_poly,
                      vertex_interpolation_coarse_corner := coarse_corner\<rparr>
         \<and> vertex_cd_calls (vertex_interpolation tls')
             = vertex_cd_calls old
                 @ reinit_calls (vertex_interpolation_initialized tls
                                  \<and> vertex_data_storage_allocated old)
                     (totloop p = 4) [CD_copy_data 0, CD_interp 1, CD_interp 3]))
  \<and> (let same = (loop_interpolation_initialized tls
                 \<and> loop_interpolation_coarse_poly tls = Some coarse_poly
                 \<and> loop_interpolation_coarse_corner tls = coarse_corner);
        p = coarse_polys ctx ! coarse_poly;
        old = loop_interpolation tls;
        tls' = subdiv_mesh_ensure_loop_interpolation K ctx tls coarse_poly coarse_corner
    in (same \<longrightarrow> tls' = tls)
     \<and> (\<not> same \<longrightarrow>
           tls' = tls\<lparr>loop_interpolation :=
                        loop_interpolation_from_corner ctx
                          (loop_interpolation_init K ctx
                             (if loop_interpolation_initialized tls
                              then loop_interpolation_end old else old) p)
                          p coarse_corner,
                      loop_interpolation_initialized := True,
                      loop_interpolation_coarse_poly := Some coarse_poly,
                      loop_interpolation_coarse_corner := coarse_corner\<rparr>
         \<and> loop_cd_calls (loop_interpolation tls')
             = loop_cd_calls old
                 @ reinit_calls (loop_interpolation_initialized tls
                                  \<and> loop_data_storage_allocated old)
                     (totloop p = 4)
                     [CD_free_elem 0, CD_copy_data 0, CD_interp 1, CD_interp 3]))"
proof -
  let ?vsame = "vertex_interpolation_initialized tls
                 \<and> vertex_interpolation_coarse_poly tls = Some coarse_poly
                 \<and> vertex_interpolation_coarse_corner tls = coarse_corner"
  let ?lsame = "loop_interpolation_initialized tls
                 \<and> loop_interpolation_coarse_poly tls = Some coarse_poly
                 \<and> loop_interpolation_coarse_corner tls = coarse_corner"
  have calls:
    "\<not> ?vsame \<Longrightarrow>
       vertex_cd_calls (vertex_interpolation
          (subdiv_mesh_ensure_vertex_interpolation K ctx tls coarse_poly coarse_corner))
         = vertex_cd_calls (vertex_interpolation tls)
             @ reinit_calls (vertex_interpolation_initialized tls
                              \<and> vertex_data_storage_allocated (vertex_interpolation tls))
                 (totloop (coarse_polys ctx ! coarse_poly) = 4)
                 [CD_copy_data 0, CD_interp 1, CD_interp 3]"
    "\<not> ?lsame \<Longrightarrow>
       loop_cd_calls (loop_interpolation
          (subdiv_mesh_ensure_loop_interpolation K ctx tls coarse_poly coarse_corner))
         = loop_cd_calls (loop_interpolation tls)
             @ reinit_calls (loop_interpolation_initialized tls
                              \<and> loop_data_storage_allocated (loop_interpolation tls))
                 (totloop (coarse_polys ctx ! coarse_poly) = 4)
                 [CD_free_elem 0, CD_copy_data 0, CD_interp 1, CD_interp 3]"
    unfolding ensure_vertex_interpolation_cases ensure_loop_interpolation_cases
    by (simp_all only: if_not_P)
       (simp_all add: vertex_cd_calls_init vertex_cd_calls_from_corner vertex_cd_calls_end
          loop_cd_calls_init loop_cd_calls_from_corner loop_cd_calls_end reinit_calls_def)
  show ?thesis
    unfolding Let_def
    using calls
    by (cases ?vsame; cases ?lsame)
       (simp_all only: ensure_vertex_interpolation_cases ensure_loop_interpolation_cases
          if_P if_not_P simp_thms)
qed

lemma ensure_vertex_keeps_loop [simp]:
  "loop_interpolation (subdiv_mesh_ensure_vertex_interpolation K ctx tls p c) = loop_interpolation tls"
  "loop_interpolation_initialized (subdiv_mesh_ensure_vertex_interpolation K ctx tls p c)
     = loop_interpolation_initialized tls"
  "loop_interpolation_coarse_poly (subdiv_mesh_ensure_vertex_interpolation K ctx tls p c)
     = loop_interpolation_coarse_poly tls"
  "loop_interpolation_coarse_corner (subdiv_mesh_ensure_vertex_interpolation K ctx tls p c)
     = loop_interpolation_coarse_corner tls"
  by (simp_all add: ensure_vertex_interpolation_cases)

lemma ensure_loop_keeps_vertex [simp]:
  "vertex_interpolation (subdiv_mesh_ensure_loop_interpolation K ctx tls p c) = vertex_interpolation tls"
  "vertex_interpolation_initialized (subdiv_mesh_ensure_loop_interpolation K ctx tls p c)
     = vertex_interpolation_initialized tls"
  "vertex_interpolation_coarse_poly (subdiv_mesh_ensure_loop_interpolation K ctx tls p c)
     = vertex_interpolation_coarse_poly tls"
  "vertex_interpolation_coarse_corner (subdiv_mesh_ensure_loop_interpolation K ctx tls p c)
     = vertex_interpolation_coarse_corner tls"
  by (simp_all add: ensure_loop_interpolation_cases)

lemma ensure_vertex_keys [simp]:
  "vertex_interpolation_initialized (subdiv_mesh_ensure_vertex_interpolation K ctx tls p c)"
  "vertex_interpolation_coarse_poly (subdiv_mesh_ensure_vertex_interpolation K ctx tls p c) = Some p"
  "vertex_interpolation_coarse_corner (subdiv_mesh_ensure_vertex_interpolation K ctx tls p c) = c"
  by (simp_all add: ensure_vertex_interpolation_cases)

lemma ensure_loop_keys [simp]:
  "loop_interpolation_initialized (subdiv_mesh_ensure_loop_interpolation K ctx tls p c)"
  "loop_interpolation_coarse_poly (subdiv_mesh_ensure_loop_interpolation K ctx tls p c) = Some p"
  "loop_interpolation_coarse_corner (subdiv_mesh_ensure_loop_interpolation K ctx tls p c) = c"
  by (simp_all add: ensure_loop_interpolation_cases)

lemma example_tri_poly [simp]:
  "totloop (coarse_polys example_tri_context ! 0) = 3"
  by (simp add: coarse_polys_def example_tri_context_def example_tri_mesh_def)

lemma example_tls_corner0_vertex:
  "vertex_interpolation_initialized example_tls_corner0"
  "vertex_interpolation_coarse_poly example_tls_corner0 = Some 0"
  "vertex_interpolation_coarse_corner example_tls_corner0 = 0"
  "vertex_data_storage_allocated (vertex_interpolation example_tls_corner0)"
  "vertex_cd_calls (vertex_interpolation example_tls_corner0)
     = [CD_copy 4, CD_interp 2, CD_copy_data 0, CD_interp 1, CD_interp 3]"
  by (simp_all add: example_tls_corner0_def)
     (simp_all add: ensure_vertex_interpolation_cases tls_zero_def vertex_allocated_from_corner
        vertex_allocated_init vertex_cd_calls_from_corner vertex_cd_calls_init)

lemma example_tls_corner0_loop:
  "loop_interpolation_initialized example_tls_corner0"
  "loop_interpolation_coarse_poly example_tls_corner0 = Some 0"
  "loop_interpolation_coarse_corner example_tls_corner0 = 0"
  "loop_data_storage_allocated (loop_interpolation example_tls_corner0)"
  "loop_cd_calls (loop_interpolation example_tls_corner0)
     = [CD_copy 4, CD_interp 2, CD_free_elem 0, CD_copy_data 0, CD_interp 1, CD_interp 3]"
  by (simp_all add: example_tls_corner0_def)
     (simp_all add: ensure_loop_interpolation_cases tls_zero_def loop_allocated_from_corner
        loop_allocated_init loop_cd_calls_from_corner loop_cd_calls_init)

theorem ensure_interpolation_reinit_on_any_change_witness:
  "subdiv_mesh_ensure_vertex_interpolation example_constants example_tri_context
      example_tls_corner0 0 0 = example_tls_corner0
   \<and> vertex_cd_calls (vertex_interpolation
        (subdiv_mesh_ensure_vertex_interpolation example_constants example_tri_context
           example_tls_corner0 0 1))
       = [CD_copy 4, CD_interp 2, CD_copy_data 0, CD_interp 1, CD_interp 3,
          CD_free 4, CD_copy 4, CD_interp 2, CD_copy_data 0, CD_interp 1, CD_interp 3]
   \<and> loop_cd_calls (loop_interpolation
        (subdiv_mesh_ensure_loop_interpolation example_constants example_tri_context
           example_tls_corner0 0 1))
       = [CD_copy 4, CD_interp 2, CD_free_elem 0, CD_copy_data 0, CD_interp 1, CD_interp 3,
          CD_free 4, CD_copy 4, CD_interp 2, CD_free_elem 0, CD_copy_data 0, CD_interp 1,
          CD_interp 3]"
proof -
  note same = ensure_interpolation_reinit_on_any_change
          [of example_tls_corner0 0 0 example_tri_context example_constants]
  note changed = ensure_interpolation_reinit_on_any_change
          [of example_tls_corner0 0 1 example_tri_context example_constants]
  have sv: "vertex_interpolation_initialized example_tls_corner0
            \<and> vertex_interpolation_coarse_poly example_tls_corner0 = Some 0
            \<and> vertex_interpolation_coarse_corner example_tls_corner0 = 0"
    by (simp add: example_tls_corner0_vertex)
  have nv: "\<not> (vertex_interpolation_initialized example_tls_corner0
            \<and> vertex_interpolation_coarse_poly example_tls_corner0 = Some 0
            \<and> vertex_interpolation_coarse_corner example_tls_corner0 = 1)"
    by (simp add: example_tls_corner0_vertex)
  have nl: "\<not> (loop_interpolation_initialized example_tls_corner0
            \<and> loop_interpolation_coarse_poly example_tls_corner0 = Some 0
            \<and> loop_interpolation_coarse_corner example_tls_corner0 = 1)"
    by (simp add: example_tls_corner0_loop)
  have a: "subdiv_mesh_ensure_vertex_interpolation example_constants example_tri_context
      example_tls_corner0 0 0 = example_tls_corner0"
    using same [unfolded Let_def] sv by blast
  have b0: "vertex_cd_calls (vertex_interpolation
        (subdiv_mesh_ensure_vertex_interpolation example_constants example_tri_context
           example_tls_corner0 0 1))
       = vertex_cd_calls (vertex_interpolation example_tls_corner0)
           @ reinit_calls (vertex_interpolation_initialized example_tls_corner0
                \<and> vertex_data_storage_allocated (vertex_interpolation example_tls_corner0))
               (totloop (coarse_polys example_tri_context ! 0) = 4)
               [CD_copy_data 0, CD_interp 1, CD_interp 3]"
    using changed [unfolded Let_def] nv by blast
  have c0: "loop_cd_calls (loop_interpolation
        (subdiv_mesh_ensure_loop_interpolation example_constants example_tri_context
           example_tls_corner0 0 1))
       = loop_cd_calls (loop_interpolation example_tls_corner0)
           @ reinit_calls (loop_interpolation_initialized example_tls_corner0
                \<and> loop_data_storage_allocated (loop_interpolation example_tls_corner0))
               (totloop (coarse_polys example_tri_context ! 0) = 4)
               [CD_free_elem 0, CD_copy_data 0, CD_interp 1, CD_interp 3]"
    using changed [unfolded Let_def] nl by blast
  show ?thesis
    by (intro conjI, rule a, subst b0, simp add: example_tls_corner0_vertex reinit_calls_def,
        subst c0, simp add: example_tls_corner0_loop reinit_calls_def)
qed

text \<open>
  The claim of C3 that another corner of the same polygon triggers the per-corner update
  only is false: on a triangle, with the caches built for corner 0, the call for corner 1
  releases the storage and allocates it again, and its result is not that of the
  per-corner update alone.
\<close>

theorem corner_change_is_not_partial_update_counterexample:
  "vertex_interpolation_initialized example_tls_corner0
   \<and> vertex_interpolation_coarse_poly example_tls_corner0 = Some 0
   \<and> vertex_interpolation_coarse_corner example_tls_corner0 \<noteq> 1
   \<and> vertex_cd_calls (vertex_interpolation
        (subdiv_mesh_ensure_vertex_interpolation example_constants example_tri_context
           example_tls_corner0 0 1))
       = vertex_cd_calls (vertex_interpolation example_tls_corner0)
           @ [CD_free 4, CD_copy 4, CD_interp 2, CD_copy_data 0, CD_interp 1, CD_interp 3]
   \<and> vertex_interpolation
        (subdiv_mesh_ensure_vertex_interpolation example_constants example_tri_context
           example_tls_corner0 0 1)
       \<noteq> vertex_interpolation_from_corner example_tri_context
            (vertex_interpolation example_tls_corner0) (coarse_polys example_tri_context ! 0) 1
   \<and> loop_interpolation
        (subdiv_mesh_ensure_loop_interpolation example_constants example_tri_context
           example_tls_corner0 0 1)
       \<noteq> loop_interpolation_from_corner example_tri_context
            (loop_interpolation example_tls_corner0) (coarse_polys example_tri_context ! 0) 1"
proof -
  let ?T = example_tls_corner0
  let ?V = "vertex_interpolation
        (subdiv_mesh_ensure_vertex_interpolation example_constants example_tri_context ?T 0 1)"
  let ?L = "loop_interpolation
        (subdiv_mesh_ensure_loop_interpolation example_constants example_tri_context ?T 0 1)"
  have v: "vertex_cd_calls ?V = vertex_cd_calls (vertex_interpolation ?T)
           @ [CD_free 4, CD_copy 4, CD_interp 2, CD_copy_data 0, CD_interp 1, CD_interp 3]"
    by (simp add: ensure_vertex_interpolation_cases example_tls_corner0_vertex
          vertex_cd_calls_from_corner vertex_cd_calls_init vertex_cd_calls_end)
  have l: "loop_cd_calls ?L = loop_cd_calls (loop_interpolation ?T)
           @ [CD_free 4, CD_copy 4, CD_interp 2, CD_free_elem 0, CD_copy_data 0, CD_interp 1,
              CD_interp 3]"
    by (simp add: ensure_loop_interpolation_cases example_tls_corner0_loop
          loop_cd_calls_from_corner loop_cd_calls_init loop_cd_calls_end)
  have v': "vertex_cd_calls ?V \<noteq> vertex_cd_calls (vertex_interpolation_from_corner
              example_tri_context (vertex_interpolation ?T)
              (coarse_polys example_tri_context ! 0) 1)"
    by (subst v) (simp add: vertex_cd_calls_from_corner)
  have l': "loop_cd_calls ?L \<noteq> loop_cd_calls (loop_interpolation_from_corner
              example_tri_context (loop_interpolation ?T)
              (coarse_polys example_tri_context ! 0) 1)"
    by (subst l) (simp add: loop_cd_calls_from_corner)
  from v' have v'': "?V \<noteq> vertex_interpolation_from_corner
              example_tri_context (vertex_interpolation ?T)
              (coarse_polys example_tri_context ! 0) 1" by metis
  from l' have l'': "?L \<noteq> loop_interpolation_from_corner
              example_tri_context (loop_interpolation ?T)
              (coarse_polys example_tri_context ! 0) 1" by metis
  show ?thesis
    using v v'' l'' by (simp add: example_tls_corner0_vertex)
qed

subsection \<open>The topology callback\<close>

text \<open>
  C7. The topology callback returns success. It allocates the output mesh from the coarse
  mesh as template with the four counts given and with the mask ``everything'' without the
  multires-grid bits on the loop domain and without the crease bits on the vertex and edge
  domains, and gives it a face-dot bitmap of \<open>num_vertices\<close> cleared bits. The counter
  array is \<open>num_vertices\<close> zeros if the context has a displacement function and is left as
  it was otherwise: starting from no array, as the entry point does, there is one exactly
  if there is a displacement function.
\<close>

theorem topology_info_allocates:
  "(let r = subdiv_mesh_topology_info K ctx nv ne nl np;
        ctx' = snd r;
        everything = CD_MASK_EVERYTHING K;
        cd_mask = \<lparr>vmask = vmask everything AND NOT (CD_MASK_CREASE K),
                   emask = emask everything AND NOT (CD_MASK_CREASE K),
                   fmask = fmask everything,
                   pmask = pmask everything,
                   lmask = lmask everything AND NOT (CD_MASK_MULTIRES_GRIDS K)\<rparr>;
        m = BKE_mesh_new_nomain_from_template_ex (coarse_mesh ctx) nv ne 0 nl np cd_mask
    in fst r = True
     \<and> subdiv_mesh ctx' = Some (m\<lparr>subsurf_face_dot_tags := Some (replicate nv False)\<rparr>)
     \<and> totvert m = nv \<and> totedge m = ne \<and> mesh_totloop m = nl \<and> totpoly m = np
     \<and> length (cd_mvert (vdata m)) = nv \<and> length (cd_medge (edata m)) = ne
     \<and> length (cd_mloop (ldata m)) = nl \<and> length (cd_mpoly (pdata m)) = np
     \<and> accumulated_counters ctx'
         = (if have_displacement ctx then Some (replicate nv 0) else accumulated_counters ctx)
     \<and> (accumulated_counters ctx = None \<longrightarrow>
           (accumulated_counters ctx' \<noteq> None) = have_displacement ctx))"
  by (simp add: Let_def subdiv_mesh_topology_info_def subdiv_mesh_topology_mask_def
        subdiv_mesh_prepare_accumulator_def BKE_mesh_new_nomain_from_template_ex_def
        CustomData_copy_vert_def CustomData_copy_edge_def CustomData_copy_loop_def
        CustomData_copy_poly_def map_subdiv_mesh_def)

theorem topology_info_allocates_witness:
  "accumulated_counters example_context = None
   \<and> fst (subdiv_mesh_topology_info example_constants example_context 9 12 16 4) = True
   \<and> accumulated_counters
        (snd (subdiv_mesh_topology_info example_constants example_context 9 12 16 4))
       = Some (replicate 9 0)
   \<and> accumulated_counters
        (snd (subdiv_mesh_topology_info example_constants
                (example_context\<lparr>have_displacement := False\<rparr>) 9 12 16 4))
       = None"
proof -
  note t = topology_info_allocates [of example_constants example_context 9 12 16 4,
             unfolded Let_def]
  note f = topology_info_allocates [of example_constants
             "example_context\<lparr>have_displacement := False\<rparr>" 9 12 16 4, unfolded Let_def]
  have h: "accumulated_counters example_context = None" by (simp add: example_context_def)
  have hd: "have_displacement example_context" by (simp add: example_context_def)
  have a: "fst (subdiv_mesh_topology_info example_constants example_context 9 12 16 4) = True"
    using t by blast
  have b: "accumulated_counters
        (snd (subdiv_mesh_topology_info example_constants example_context 9 12 16 4))
       = (if have_displacement example_context then Some (replicate 9 0)
          else accumulated_counters example_context)"
    using t by blast
  have c: "accumulated_counters
        (snd (subdiv_mesh_topology_info example_constants
                (example_context\<lparr>have_displacement := False\<rparr>) 9 12 16 4))
       = (if have_displacement (example_context\<lparr>have_displacement := False\<rparr>)
          then Some (replicate 9 0)
          else accumulated_counters (example_context\<lparr>have_displacement := False\<rparr>))"
    using f by blast
  show ?thesis using h a b c hd by simp
qed

subsection \<open>Edges\<close>

lemma subdiv_edges_map_edata:
  "subdiv_edges (map_subdiv_mesh (map_edata f) ctx)
     = (case subdiv_mesh ctx of None \<Rightarrow> [] | Some m \<Rightarrow> cd_medge (f (edata m)))"
  by (simp add: subdiv_edges_def map_edata_def split: option.splits)

lemma ctx_edge_origindex_map_edata:
  "ctx_edge_origindex (map_subdiv_mesh (map_edata f) ctx)
     = (case subdiv_mesh ctx of None \<Rightarrow> None | Some m \<Rightarrow> cd_edge_origindex (f (edata m)))"
  by (simp add: ctx_edge_origindex_def map_edata_def split: option.splits)

lemma set_edge_flag_simps [simp]:
  "subdiv_edges (set_edge_flag i f ctx) = (subdiv_edges ctx)[i := (subdiv_edges ctx ! i)\<lparr>edge_flag := f\<rparr>]"
  "ctx_edge_origindex (set_edge_flag i f ctx) = ctx_edge_origindex ctx"
  "settings (set_edge_flag i f ctx) = settings ctx"
  by (simp_all add: set_edge_flag_def subdiv_edges_map_edata ctx_edge_origindex_map_edata)
     (simp_all add: subdiv_edges_def ctx_edge_origindex_def split: option.splits)

lemma set_edge_verts_simps [simp]:
  "subdiv_edges (set_edge_verts i a b ctx)
     = (subdiv_edges ctx)[i := (subdiv_edges ctx ! i)\<lparr>edge_v1 := a, edge_v2 := b\<rparr>]"
  "ctx_edge_origindex (set_edge_verts i a b ctx) = ctx_edge_origindex ctx"
  by (simp_all add: set_edge_verts_def subdiv_edges_map_edata ctx_edge_origindex_map_edata)
     (simp_all add: subdiv_edges_def ctx_edge_origindex_def split: option.splits)

lemma set_edge_origindex_simps [simp]:
  "subdiv_edges (set_edge_origindex i x ctx) = subdiv_edges ctx"
  "ctx_edge_origindex (set_edge_origindex i x ctx)
     = map_option (\<lambda>xs. xs[i := x]) (ctx_edge_origindex ctx)"
  by (simp_all add: set_edge_origindex_def subdiv_edges_map_edata ctx_edge_origindex_map_edata)
     (simp_all add: subdiv_edges_def ctx_edge_origindex_def split: option.splits)

lemma copy_edge_data_simps:
  "subdiv_edges (map_subdiv_mesh (map_edata (\<lambda>ed. CustomData_copy_data_edge src ed si di)) ctx)
     = (subdiv_edges ctx)[di := cd_medge src ! si]"
  "ctx_edge_origindex
     (map_subdiv_mesh (map_edata (\<lambda>ed. CustomData_copy_data_edge src ed si di)) ctx)
     = copy_layer (cd_edge_origindex src) (ctx_edge_origindex ctx) si di"
  by (simp_all add: subdiv_edges_map_edata ctx_edge_origindex_map_edata
        CustomData_copy_data_edge_def)
     (simp_all add: subdiv_edges_def ctx_edge_origindex_def copy_layer_def split: option.splits)

lemma word_or_and_self: "(a OR b) AND b = (b :: 'a::len word)"
  by (simp add: bit_eq_iff bit_and_iff bit_or_iff)

text \<open>
  C8. The edge callback, for an output edge inside the edge array. With a coarse source
  edge, the element of every edge layer is copied from that edge, and the renderable flag
  is set on top of the copied flags whatever the optimal-display setting is. Without one
  (the index is the none sentinel), the flags are zero with the renderable flag set exactly
  when optimal display is off, and the origin index, where the layer exists, is the none
  sentinel. In both cases the two vertex indices are those given by the driver.
\<close>

theorem edge_callback_sets_edge:
  assumes "subdiv_edge_index < length (subdiv_edges (fst st))"
  shows "let ctx = fst st;
             ctx' = fst (subdiv_mesh_edge K st coarse_edge_index subdiv_edge_index is_loose
                           subdiv_v1 subdiv_v2);
             e = subdiv_edges ctx' ! subdiv_edge_index
         in edge_v1 e = subdiv_v1 \<and> edge_v2 e = subdiv_v2
          \<and> (coarse_edge_index \<noteq> ORIGINDEX_NONE \<longrightarrow>
                edge_flag e
                  = edge_flag (coarse_edges ctx ! nat coarse_edge_index) OR ME_EDGERENDER K
              \<and> edge_flag e AND ME_EDGERENDER K = ME_EDGERENDER K
              \<and> ctx_edge_origindex ctx'
                  = copy_layer (cd_edge_origindex (edata (coarse_mesh ctx)))
                      (ctx_edge_origindex ctx) (nat coarse_edge_index) subdiv_edge_index)
          \<and> (coarse_edge_index = ORIGINDEX_NONE \<longrightarrow>
                edge_flag e
                  = (if use_optimal_display (settings ctx) then 0 else ME_EDGERENDER K)
              \<and> ctx_edge_origindex ctx'
                  = map_option (\<lambda>xs. xs[subdiv_edge_index := ORIGINDEX_NONE])
                      (ctx_edge_origindex ctx))"
  using assms
  by (auto simp: Let_def subdiv_mesh_edge_def subdiv_copy_edge_data_def copy_edge_data_simps
        coarse_edges_def word_or_and_self split: option.splits)

lemma topology_info_edges:
  "subdiv_edges (snd (subdiv_mesh_topology_info K ctx nv ne nl np))
     = replicate ne \<lparr>edge_v1 = 0, edge_v2 = 0, edge_flag = 0\<rparr>"
  by (simp add: subdiv_mesh_topology_info_def Let_def subdiv_mesh_prepare_accumulator_def
        subdiv_edges_def BKE_mesh_new_nomain_from_template_ex_def CustomData_copy_edge_def)

theorem edge_callback_sets_edge_witness:
  "5 < length (subdiv_edges (fst example_state))
   \<and> subdiv_edges (fst (subdiv_mesh_edge example_constants example_state 2 5 False 7 8)) ! 5
       = \<lparr>edge_v1 = 7, edge_v2 = 8, edge_flag = 32\<rparr>
   \<and> subdiv_edges (fst (subdiv_mesh_edge example_constants example_state (- 1) 5 False 7 8)) ! 5
       = \<lparr>edge_v1 = 7, edge_v2 = 8, edge_flag = 32\<rparr>"
proof -
  have h: "5 < length (subdiv_edges (fst example_state))"
    by (simp add: example_state_def topology_info_edges)
  note a = edge_callback_sets_edge [OF h, of example_constants 2 False 7 8, unfolded Let_def]
  note b = edge_callback_sets_edge [OF h, of example_constants "- 1" False 7 8, unfolded Let_def]
  have c: "(2::int) \<noteq> ORIGINDEX_NONE" "(- 1::int) = ORIGINDEX_NONE"
    by (simp_all add: ORIGINDEX_NONE_def)
  have a1: "edge_v1 (subdiv_edges (fst (subdiv_mesh_edge example_constants example_state 2 5 False 7 8)) ! 5) = 7"
    and a2: "edge_v2 (subdiv_edges (fst (subdiv_mesh_edge example_constants example_state 2 5 False 7 8)) ! 5) = 8"
    and a3: "edge_flag (subdiv_edges (fst (subdiv_mesh_edge example_constants example_state 2 5 False 7 8)) ! 5)
            = edge_flag (coarse_edges (fst example_state) ! nat 2) OR ME_EDGERENDER example_constants"
    using a c by blast+
  have b1: "edge_v1 (subdiv_edges (fst (subdiv_mesh_edge example_constants example_state (- 1) 5 False 7 8)) ! 5) = 7"
    and b2: "edge_v2 (subdiv_edges (fst (subdiv_mesh_edge example_constants example_state (- 1) 5 False 7 8)) ! 5) = 8"
    and b3: "edge_flag (subdiv_edges (fst (subdiv_mesh_edge example_constants example_state (- 1) 5 False 7 8)) ! 5)
            = (if use_optimal_display (settings (fst example_state)) then 0
               else ME_EDGERENDER example_constants)"
    using b c by blast+
  have v: "edge_flag (coarse_edges (fst example_state) ! nat 2) OR ME_EDGERENDER example_constants = 32"
    "(if use_optimal_display (settings (fst example_state)) then 0
               else ME_EDGERENDER example_constants) = 32"
    by (simp_all add: example_state_def coarse_edges_def example_context_def example_mesh_def
          example_constants_def)
  have A: "subdiv_edges (fst (subdiv_mesh_edge example_constants example_state 2 5 False 7 8)) ! 5
       = \<lparr>edge_v1 = 7, edge_v2 = 8, edge_flag = 32\<rparr>"
    by (rule MEdge.equality) (use a1 a2 a3 v in simp_all)
  have B: "subdiv_edges (fst (subdiv_mesh_edge example_constants example_state (- 1) 5 False 7 8)) ! 5
       = \<lparr>edge_v1 = 7, edge_v2 = 8, edge_flag = 32\<rparr>"
    by (rule MEdge.equality) (use b1 b2 b3 v in simp_all)
  show ?thesis
    using h A B by (intro conjI)
qed

subsection \<open>Orco evaluation\<close>

lemma ctx_orco_set_orco_layer [simp]:
  "ctx_orco (set_orco_layer l ctx) = (if subdiv_mesh ctx = None then None else l)"
  "ctx_cloth_orco (set_orco_layer l ctx) = ctx_cloth_orco ctx"
  "faults (set_orco_layer l ctx) = faults ctx"
  by (simp_all add: set_orco_layer_def ctx_orco_def ctx_cloth_orco_def map_vdata_def
        split: option.splits)

lemma ctx_orco_Some_mesh: "ctx_orco ctx = Some orco \<Longrightarrow> subdiv_mesh ctx \<noteq> None"
  by (cases "subdiv_mesh ctx") (simp_all add: ctx_orco_def)

lemma write_orco_Some:
  assumes "ctx_orco ctx = Some orco"
  shows "ctx_orco (write_orco i p ctx) = Some (orco[i := p])"
    and "ctx_cloth_orco (write_orco i p ctx) = ctx_cloth_orco ctx"
    and "faults (write_orco i p ctx) = faults ctx"
  using assms ctx_orco_Some_mesh [OF assms] by (simp_all add: write_orco_def)

lemma write_orco_None:
  "ctx_orco ctx = None \<Longrightarrow>
   write_orco i p ctx = ctx\<lparr>faults := faults ctx @ [Null_orco_write i]\<rparr>"
  by (simp add: write_orco_def)

text \<open>
  C10. The orco helper never writes the cloth-orco layer. With an orco and a cloth-orco
  layer it writes the first packed vector of the evaluator and then, over it, the second
  into the orco entry of the vertex, which ends as the second (the cloth-orco sample);
  with an orco layer only, the entry ends as the first. With a cloth-orco layer only, its
  one write is again a write through the orco pointer at the vertex: the pointer is null,
  so the write is a fault and no layer changes. With neither layer it does nothing.
\<close>

theorem orco_evaluate_writes_orco_only:
  "(let ctx' = subdiv_vertex_orco_evaluate ctx ptex_face_index u v subdiv_vertex_index;
        vd = eval_vertex_data (subdiv ctx) ptex_face_index u v
    in ctx_cloth_orco ctx' = ctx_cloth_orco ctx
     \<and> (\<forall>orco. ctx_orco ctx = Some orco \<and> ctx_cloth_orco ctx \<noteq> None \<longrightarrow>
           ctx_orco ctx' = Some (orco[subdiv_vertex_index := snd vd])
         \<and> ctx' = write_orco subdiv_vertex_index (snd vd)
                    (write_orco subdiv_vertex_index (fst vd) ctx)
         \<and> faults ctx' = faults ctx)
     \<and> (\<forall>orco. ctx_orco ctx = Some orco \<and> ctx_cloth_orco ctx = None \<longrightarrow>
           ctx_orco ctx' = Some (orco[subdiv_vertex_index := fst vd])
         \<and> faults ctx' = faults ctx)
     \<and> (ctx_orco ctx = None \<and> ctx_cloth_orco ctx \<noteq> None \<longrightarrow>
           ctx' = ctx\<lparr>faults := faults ctx @ [Null_orco_write subdiv_vertex_index]\<rparr>
         \<and> ctx' \<noteq> ctx)
     \<and> (ctx_orco ctx = None \<and> ctx_cloth_orco ctx = None \<longrightarrow> ctx' = ctx))"
proof -
  obtain vd0 vd1 where vd: "eval_vertex_data (subdiv ctx) ptex_face_index u v = (vd0, vd1)"
    by (cases "eval_vertex_data (subdiv ctx) ptex_face_index u v") blast
  let ?r = "subdiv_vertex_orco_evaluate ctx ptex_face_index u v subdiv_vertex_index"
  have both: "ctx_orco ?r = Some (orco[subdiv_vertex_index := vd1])
         \<and> ?r = write_orco subdiv_vertex_index vd1 (write_orco subdiv_vertex_index vd0 ctx)
         \<and> faults ?r = faults ctx \<and> ctx_cloth_orco ?r = ctx_cloth_orco ctx"
    if "ctx_orco ctx = Some orco" "ctx_cloth_orco ctx \<noteq> None" for orco
  proof -
    have r: "?r = write_orco subdiv_vertex_index vd1 (write_orco subdiv_vertex_index vd0 ctx)"
      using that by (simp add: subdiv_vertex_orco_evaluate_def vd Let_def)
    have o1: "ctx_orco (write_orco subdiv_vertex_index vd0 ctx)
                = Some (orco[subdiv_vertex_index := vd0])"
      by (rule write_orco_Some(1) [OF that(1)])
    show ?thesis
      unfolding r
      using write_orco_Some [OF o1, of subdiv_vertex_index vd1]
            write_orco_Some [OF that(1), of subdiv_vertex_index vd0]
      by simp
  qed
  have only_orco: "ctx_orco ?r = Some (orco[subdiv_vertex_index := vd0])
         \<and> faults ?r = faults ctx \<and> ctx_cloth_orco ?r = ctx_cloth_orco ctx"
    if "ctx_orco ctx = Some orco" "ctx_cloth_orco ctx = None" for orco
  proof -
    have r: "?r = write_orco subdiv_vertex_index vd0 ctx"
      using that by (simp add: subdiv_vertex_orco_evaluate_def vd Let_def)
    show ?thesis
      unfolding r using write_orco_Some [OF that(1), of subdiv_vertex_index vd0] by simp
  qed
  have only_cloth: "?r = ctx\<lparr>faults := faults ctx @ [Null_orco_write subdiv_vertex_index]\<rparr>"
    if "ctx_orco ctx = None" "ctx_cloth_orco ctx \<noteq> None"
    using that by (simp add: subdiv_vertex_orco_evaluate_def vd Let_def write_orco_None)
  have neither: "?r = ctx" if "ctx_orco ctx = None" "ctx_cloth_orco ctx = None"
    using that by (simp add: subdiv_vertex_orco_evaluate_def)
  have differs: "ctx\<lparr>faults := faults ctx @ [Null_orco_write subdiv_vertex_index]\<rparr> \<noteq> ctx"
  proof
    assume "ctx\<lparr>faults := faults ctx @ [Null_orco_write subdiv_vertex_index]\<rparr> = ctx"
    then have "faults (ctx\<lparr>faults := faults ctx @ [Null_orco_write subdiv_vertex_index]\<rparr>)
                 = faults ctx"
      by simp
    then show False by simp
  qed
  have cloth: "ctx_cloth_orco ?r = ctx_cloth_orco ctx"
  proof (cases "ctx_orco ctx")
    case None
    then show ?thesis
      using only_cloth neither by (cases "ctx_cloth_orco ctx = None") simp_all
  next
    case (Some orco)
    then show ?thesis
      using both [OF Some] only_orco [OF Some] by (cases "ctx_cloth_orco ctx = None") blast+
  qed
  show ?thesis
    unfolding Let_def vd fst_conv snd_conv
    using cloth both only_orco only_cloth neither differs by metis
qed

lemma example_orco_context_layers:
  "ctx_orco example_orco_context = Some (replicate 9 zero_v3)"
  "ctx_cloth_orco example_orco_context = Some (replicate 9 zero_v3)"
  by (simp_all add: example_orco_context_def subdiv_mesh_topology_info_def Let_def
        subdiv_mesh_prepare_accumulator_def ctx_orco_def ctx_cloth_orco_def
        BKE_mesh_new_nomain_from_template_ex_def CustomData_copy_vert_def
        example_context_def example_mesh_def example_vdata_def)

lemma example_cloth_context_layers:
  "ctx_orco example_cloth_context = None"
  "ctx_cloth_orco example_cloth_context = Some (replicate 9 zero_v3)"
  "faults example_cloth_context = []"
  by (simp_all add: example_cloth_context_def subdiv_mesh_topology_info_def Let_def
        subdiv_mesh_prepare_accumulator_def ctx_orco_def ctx_cloth_orco_def
        BKE_mesh_new_nomain_from_template_ex_def CustomData_copy_vert_def
        example_context_def example_mesh_def example_vdata_def map_subdiv_mesh_def)

theorem orco_evaluate_writes_orco_only_witness:
  "ctx_orco example_orco_context = Some (replicate 9 zero_v3)
   \<and> ctx_cloth_orco example_orco_context \<noteq> None
   \<and> ctx_orco (subdiv_vertex_orco_evaluate example_orco_context 0 (1 / 2) 1 3)
       = Some ((replicate 9 zero_v3)[3 := (1 / 2, 1, 1)])
   \<and> ctx_cloth_orco (subdiv_vertex_orco_evaluate example_orco_context 0 (1 / 2) 1 3)
       = Some (replicate 9 zero_v3)
   \<and> ctx_orco example_cloth_context = None \<and> ctx_cloth_orco example_cloth_context \<noteq> None
   \<and> faults (subdiv_vertex_orco_evaluate example_cloth_context 0 (1 / 2) 1 3)
       = [Null_orco_write 3]
   \<and> ctx_cloth_orco (subdiv_vertex_orco_evaluate example_cloth_context 0 (1 / 2) 1 3)
       = Some (replicate 9 zero_v3)"
proof -
  note t = orco_evaluate_writes_orco_only [of example_orco_context 0 "1 / 2" 1 3,
             unfolded Let_def]
  note c = orco_evaluate_writes_orco_only [of example_cloth_context 0 "1 / 2" 1 3,
             unfolded Let_def]
  have h: "ctx_orco example_orco_context = Some (replicate 9 zero_v3)
           \<and> ctx_cloth_orco example_orco_context \<noteq> None"
    by (simp add: example_orco_context_layers)
  have hc: "ctx_orco example_cloth_context = None \<and> ctx_cloth_orco example_cloth_context \<noteq> None"
    by (simp add: example_cloth_context_layers)
  have a: "ctx_cloth_orco (subdiv_vertex_orco_evaluate example_orco_context 0 (1 / 2) 1 3)
             = ctx_cloth_orco example_orco_context"
    using t by blast
  have b: "ctx_orco (subdiv_vertex_orco_evaluate example_orco_context 0 (1 / 2) 1 3)
             = Some ((replicate 9 zero_v3)
                  [3 := snd (eval_vertex_data (subdiv example_orco_context) 0 (1 / 2) 1)])"
    using t h by blast
  have sd: "subdiv example_orco_context = example_subdiv"
    by (simp add: example_orco_context_def subdiv_mesh_topology_info_def Let_def
          subdiv_mesh_prepare_accumulator_def map_subdiv_mesh_def example_context_def)
  have ac: "ctx_cloth_orco (subdiv_vertex_orco_evaluate example_cloth_context 0 (1 / 2) 1 3)
             = ctx_cloth_orco example_cloth_context"
    using c by blast
  have bc: "subdiv_vertex_orco_evaluate example_cloth_context 0 (1 / 2) 1 3
             = example_cloth_context
                 \<lparr>faults := faults example_cloth_context @ [Null_orco_write 3]\<rparr>"
    using c hc by blast
  have fc: "faults (subdiv_vertex_orco_evaluate example_cloth_context 0 (1 / 2) 1 3)
             = [Null_orco_write 3]"
    unfolding bc by (simp add: example_cloth_context_layers)
  show ?thesis
    using h hc fc
    by (simp add: a b ac sd example_orco_context_layers example_cloth_context_layers
          example_subdiv_def)
qed

subsection \<open>Loose edges\<close>

lemma find_edge_neighbors_fold:
  "fold (find_edge_neighbors_step coarse_es edge_index vert) xs acc
     = (let f = filter (\<lambda>i. i \<noteq> edge_index
                   \<and> (vert = edge_v1 (coarse_es ! i) \<or> vert = edge_v2 (coarse_es ! i))) xs
        in (if f = [] then fst acc else Some (last f), snd acc + length f))"
proof (induction xs arbitrary: acc)
  case Nil
  show ?case by simp
next
  case (Cons x xs)
  have "fold (find_edge_neighbors_step coarse_es edge_index vert) (x # xs) acc
          = fold (find_edge_neighbors_step coarse_es edge_index vert) xs
              (find_edge_neighbors_step coarse_es edge_index vert x acc)"
    by simp
  also have "\<dots> = (let f = filter (\<lambda>i. i \<noteq> edge_index
                   \<and> (vert = edge_v1 (coarse_es ! i) \<or> vert = edge_v2 (coarse_es ! i))) xs
        in (if f = [] then fst (find_edge_neighbors_step coarse_es edge_index vert x acc)
            else Some (last f),
            snd (find_edge_neighbors_step coarse_es edge_index vert x acc) + length f))"
    by (rule Cons.IH)
  also have "\<dots> = (let f = filter (\<lambda>i. i \<noteq> edge_index
                   \<and> (vert = edge_v1 (coarse_es ! i) \<or> vert = edge_v2 (coarse_es ! i))) (x # xs)
        in (if f = [] then fst acc else Some (last f), snd acc + length f))"
    by (cases acc) (simp add: find_edge_neighbors_step_def Let_def)
  finally show ?case .
qed

lemma neighbor_of_others:
  "(let r = fold (find_edge_neighbors_step coarse_es edge_index vert) (vert_to_edge ! vert) (None, 0)
    in if snd r > 1 then None else fst r)
     = (case other_edges_at coarse_es vert_to_edge edge_index vert of [n] \<Rightarrow> Some n | _ \<Rightarrow> None)"
proof -
  let ?f = "other_edges_at coarse_es vert_to_edge edge_index vert"
  show ?thesis
  proof (cases ?f)
    case Nil
    then show ?thesis
      by (simp add: find_edge_neighbors_fold Let_def other_edges_at_def)
  next
    case (Cons n ns)
    then show ?thesis
      by (cases ns) (simp_all add: find_edge_neighbors_fold Let_def other_edges_at_def)
  qed
qed

lemma find_edge_neighbors_others:
  "find_edge_neighbors coarse_es vert_to_edge edge_index
     = (case other_edges_at coarse_es vert_to_edge edge_index (edge_v1 (coarse_es ! edge_index)) of
          [n] \<Rightarrow> Some n | _ \<Rightarrow> None,
        case other_edges_at coarse_es vert_to_edge edge_index (edge_v2 (coarse_es ! edge_index)) of
          [n] \<Rightarrow> Some n | _ \<Rightarrow> None)"
  using neighbor_of_others [of coarse_es edge_index "edge_v1 (coarse_es ! edge_index)" vert_to_edge]
        neighbor_of_others [of coarse_es edge_index "edge_v2 (coarse_es ! edge_index)" vert_to_edge]
  by (simp add: find_edge_neighbors_def Let_def)

lemma points_of_others:
  "points_for_loose_edges_interpolation_get coarse_vs coarse_es (coarse_es ! edge_index)
     (find_edge_neighbors coarse_es vert_to_edge edge_index)
   = (let e = coarse_es ! edge_index;
          p1 = co (coarse_vs ! edge_v1 e);
          p2 = co (coarse_vs ! edge_v2 e)
      in (outer_control_point coarse_vs coarse_es
            (other_edges_at coarse_es vert_to_edge edge_index (edge_v1 e)) (edge_v1 e) p1 p2,
          p1, p2,
          outer_control_point coarse_vs coarse_es
            (other_edges_at coarse_es vert_to_edge edge_index (edge_v2 e)) (edge_v2 e) p2 p1))"
  by (simp add: find_edge_neighbors_others points_for_loose_edges_interpolation_get_def Let_def
        outer_control_point_def split: list.splits)

lemma position_on_edge_bspline:
  "BKE_subdiv_mesh_interpolate_position_on_edge coarse_vs coarse_es vert_to_edge
         coarse_edge_index False u
     = (let e = coarse_es ! coarse_edge_index;
            p1 = co (coarse_vs ! edge_v1 e);
            p2 = co (coarse_vs ! edge_v2 e)
        in interp_v3_v3v3v3v3
             (outer_control_point coarse_vs coarse_es
                (other_edges_at coarse_es vert_to_edge coarse_edge_index (edge_v1 e))
                (edge_v1 e) p1 p2)
             p1 p2
             (outer_control_point coarse_vs coarse_es
                (other_edges_at coarse_es vert_to_edge coarse_edge_index (edge_v2 e))
                (edge_v2 e) p2 p1)
             (key_curve_position_weights_bspline u))"
  by (simp add: BKE_subdiv_mesh_interpolate_position_on_edge_def points_of_others Let_def)

lemma position_on_edge_simple:
  "BKE_subdiv_mesh_interpolate_position_on_edge coarse_vs coarse_es vert_to_edge
         coarse_edge_index True u
     = interp_v3_v3v3 (co (coarse_vs ! edge_v1 (coarse_es ! coarse_edge_index)))
         (co (coarse_vs ! edge_v2 (coarse_es ! coarse_edge_index))) u"
  by (simp add: BKE_subdiv_mesh_interpolate_position_on_edge_def Let_def)

text \<open>
  C4. The position on a loose edge. With the simple scheme it is the linear interpolation
  of the two endpoint positions by \<open>u\<close>. Otherwise it is the blend, by the B-spline weights
  at \<open>u\<close>, of four control points: the middle two are the endpoints; the outer one at an
  endpoint is the far vertex of the other edge that touches the endpoint in the
  vertex-to-edge map if there is exactly one such edge, and the extrapolation
  \<open>p_near + (p_near - p_far)\<close> if there is none or more than one.
\<close>

theorem loose_edge_position_control_points:
  "(let e = coarse_es ! coarse_edge_index;
        p1 = co (coarse_vs ! edge_v1 e);
        p2 = co (coarse_vs ! edge_v2 e);
        others1 = other_edges_at coarse_es vert_to_edge coarse_edge_index (edge_v1 e);
        others2 = other_edges_at coarse_es vert_to_edge coarse_edge_index (edge_v2 e)
    in BKE_subdiv_mesh_interpolate_position_on_edge coarse_vs coarse_es vert_to_edge
         coarse_edge_index True u
         = interp_v3_v3v3 p1 p2 u
     \<and> BKE_subdiv_mesh_interpolate_position_on_edge coarse_vs coarse_es vert_to_edge
         coarse_edge_index False u
         = interp_v3_v3v3v3v3
             (outer_control_point coarse_vs coarse_es others1 (edge_v1 e) p1 p2)
             p1 p2
             (outer_control_point coarse_vs coarse_es others2 (edge_v2 e) p2 p1)
             (key_curve_position_weights_bspline u))"
  by (simp add: position_on_edge_bspline position_on_edge_simple Let_def)

lemma chain_map:
  "BKE_mesh_vert_edge_map_create chain_edges 3 2 = [[0], [0, 1], [1]]"
  by code_simp

theorem loose_edge_position_control_points_witness:
  "BKE_subdiv_mesh_interpolate_position_on_edge chain_verts chain_edges
     (BKE_mesh_vert_edge_map_create chain_edges 3 2) 0 True (1 / 2) = (3, 0, 0)
   \<and> BKE_subdiv_mesh_interpolate_position_on_edge chain_verts chain_edges
     (BKE_mesh_vert_edge_map_create chain_edges 3 2) 0 False 0
       = interp_v3_v3v3v3v3 (- 6, 0, 0) (0, 0, 0) (6, 0, 0) (12, 6, 0) (1 / 6, 2 / 3, 1 / 6, 0)"
proof -
  note t = loose_edge_position_control_points [of chain_edges 0 chain_verts
             "BKE_mesh_vert_edge_map_create chain_edges 3 2", unfolded Let_def chain_map]
  show ?thesis
    unfolding chain_map
    by (intro conjI; subst t [THEN conjunct1] t [THEN conjunct2])
       (simp_all add: other_edges_at_def outer_control_point_def chain_verts_def
          chain_edges_def interp_v3_v3v3_def key_curve_position_weights_bspline_def)
qed

lemma interp_v3_v3v3_ends [simp]:
  "interp_v3_v3v3 a b 0 = a" "interp_v3_v3v3 a b 1 = b"
  by (cases a; cases b; simp add: interp_v3_v3v3_def)+

lemma bspline_weights_ends:
  "key_curve_position_weights_bspline 0 = (1 / 6, 2 / 3, 1 / 6, 0)"
  "key_curve_position_weights_bspline 1 = (0, 1 / 6, 2 / 3, 1 / 6)"
  by (simp_all add: key_curve_position_weights_bspline_def Let_def)

text \<open>
  C5, as the code has it. With the simple scheme the position at \<open>u = 0\<close> is the position
  of the first endpoint and at \<open>u = 1\<close> that of the second. With the B-spline the position
  at \<open>u = 0\<close> and at \<open>u = 1\<close> is, as at every other \<open>u\<close>, the blend of the four control
  points by the B-spline weights at that parameter; nothing makes it the position of the
  endpoint.
\<close>

theorem loose_edge_position_at_ends:
  "(let e = coarse_es ! coarse_edge_index;
        p1 = co (coarse_vs ! edge_v1 e);
        p2 = co (coarse_vs ! edge_v2 e);
        others1 = other_edges_at coarse_es vert_to_edge coarse_edge_index (edge_v1 e);
        others2 = other_edges_at coarse_es vert_to_edge coarse_edge_index (edge_v2 e);
        p0 = outer_control_point coarse_vs coarse_es others1 (edge_v1 e) p1 p2;
        p3 = outer_control_point coarse_vs coarse_es others2 (edge_v2 e) p2 p1;
        simple_at = BKE_subdiv_mesh_interpolate_position_on_edge coarse_vs coarse_es vert_to_edge
                      coarse_edge_index True;
        bspline_at = BKE_subdiv_mesh_interpolate_position_on_edge coarse_vs coarse_es
                       vert_to_edge coarse_edge_index False
    in simple_at 0 = p1 \<and> simple_at 1 = p2
     \<and> bspline_at 0
         = interp_v3_v3v3v3v3 p0 p1 p2 p3 (key_curve_position_weights_bspline 0)
     \<and> bspline_at 1
         = interp_v3_v3v3v3v3 p0 p1 p2 p3 (key_curve_position_weights_bspline 1))"
  by (simp add: Let_def position_on_edge_simple position_on_edge_bspline)

lemma chain_others:
  "other_edges_at chain_edges [[0], [0, 1], [1]] 0 (edge_v1 (chain_edges ! 0)) = []"
  "other_edges_at chain_edges [[0], [0, 1], [1]] 0 (edge_v2 (chain_edges ! 0)) = [1]"
  "other_edges_at chain_edges [[0], [0, 1], [1]] 1 (edge_v1 (chain_edges ! 1)) = [0]"
  "other_edges_at chain_edges [[0], [0, 1], [1]] 1 (edge_v2 (chain_edges ! 1)) = []"
  by (simp_all add: other_edges_at_def chain_edges_def)

theorem loose_edge_position_at_ends_witness:
  "BKE_subdiv_mesh_interpolate_position_on_edge chain_verts chain_edges
       (BKE_mesh_vert_edge_map_create chain_edges 3 2) 0 True 1 = (6, 0, 0)
   \<and> BKE_subdiv_mesh_interpolate_position_on_edge chain_verts chain_edges
       (BKE_mesh_vert_edge_map_create chain_edges 3 2) 1 True 0 = (6, 0, 0)
   \<and> BKE_subdiv_mesh_interpolate_position_on_edge chain_verts chain_edges
       (BKE_mesh_vert_edge_map_create chain_edges 3 2) 1 True 1 = (12, 6, 0)"
proof -
  note t0 = loose_edge_position_at_ends [of chain_edges 0 chain_verts
              "BKE_mesh_vert_edge_map_create chain_edges 3 2", unfolded Let_def]
  note t1 = loose_edge_position_at_ends [of chain_edges 1 chain_verts
              "BKE_mesh_vert_edge_map_create chain_edges 3 2", unfolded Let_def]
  have a: "BKE_subdiv_mesh_interpolate_position_on_edge chain_verts chain_edges
       (BKE_mesh_vert_edge_map_create chain_edges 3 2) 0 True 1
       = co (chain_verts ! edge_v2 (chain_edges ! 0))"
    using t0 by blast
  have b: "BKE_subdiv_mesh_interpolate_position_on_edge chain_verts chain_edges
       (BKE_mesh_vert_edge_map_create chain_edges 3 2) 1 True 0
       = co (chain_verts ! edge_v1 (chain_edges ! 1))"
    using t1 by blast
  have c: "BKE_subdiv_mesh_interpolate_position_on_edge chain_verts chain_edges
       (BKE_mesh_vert_edge_map_create chain_edges 3 2) 1 True 1
       = co (chain_verts ! edge_v2 (chain_edges ! 1))"
    using t1 by blast
  show ?thesis
    unfolding a b c by (simp add: chain_verts_def chain_edges_def)
qed

text \<open>
  The claim of C5 fails for the B-spline: on the chain 0 -- 1 -- 2, where vertex 1 has
  one other edge on either side, the position of edge 0 at \<open>u = 1\<close> and that of edge 1
  at \<open>u = 0\<close> are both \<open>(6, 1, 0)\<close> in exact arithmetic, a whole unit away from the
  position \<open>(6, 0, 0)\<close> of vertex 1.
\<close>

theorem bspline_end_is_not_endpoint_counterexample:
  "BKE_subdiv_mesh_interpolate_position_on_edge chain_verts chain_edges
     (BKE_mesh_vert_edge_map_create chain_edges 3 2) 0 False 1 = (6, 1, 0)
   \<and> co (chain_verts ! edge_v2 (chain_edges ! 0)) = (6, 0, 0)
   \<and> BKE_subdiv_mesh_interpolate_position_on_edge chain_verts chain_edges
     (BKE_mesh_vert_edge_map_create chain_edges 3 2) 0 False 1
       \<noteq> co (chain_verts ! edge_v2 (chain_edges ! 0))
   \<and> BKE_subdiv_mesh_interpolate_position_on_edge chain_verts chain_edges
     (BKE_mesh_vert_edge_map_create chain_edges 3 2) 1 False 0 = (6, 1, 0)
   \<and> co (chain_verts ! edge_v1 (chain_edges ! 1)) = (6, 0, 0)
   \<and> BKE_subdiv_mesh_interpolate_position_on_edge chain_verts chain_edges
     (BKE_mesh_vert_edge_map_create chain_edges 3 2) 1 False 0
       \<noteq> co (chain_verts ! edge_v1 (chain_edges ! 1))"
proof -
  have a: "BKE_subdiv_mesh_interpolate_position_on_edge chain_verts chain_edges
     (BKE_mesh_vert_edge_map_create chain_edges 3 2) 0 False 1 = (6, 1, 0)"
    unfolding chain_map position_on_edge_bspline Let_def chain_others bspline_weights_ends
    by (simp add: outer_control_point_def chain_verts_def chain_edges_def
          interp_v3_v3v3v3v3_def)
  have b: "BKE_subdiv_mesh_interpolate_position_on_edge chain_verts chain_edges
     (BKE_mesh_vert_edge_map_create chain_edges 3 2) 1 False 0 = (6, 1, 0)"
    unfolding chain_map position_on_edge_bspline Let_def chain_others bspline_weights_ends
    by (simp add: outer_control_point_def chain_verts_def chain_edges_def
          interp_v3_v3v3v3v3_def)
  have c: "co (chain_verts ! edge_v2 (chain_edges ! 0)) = (6, 0, 0)"
    "co (chain_verts ! edge_v1 (chain_edges ! 1)) = (6, 0, 0)"
    by (simp_all add: chain_verts_def chain_edges_def)
  show ?thesis
    unfolding a b c by simp
qed

subsection \<open>Tangents of a single layer\<close>

lemma tangent_single_ex_ngon:
  "i < numPolys \<Longrightarrow> 4 < totloop (mps ! i) \<Longrightarrow>
   BKE_mesh_calc_loop_tangent_single_ex genTangSpace mvs numVerts mls r_looptangent loopnors
     loopuvs numLoops mps numPolys reports
   = (r_looptangent,
      reports @ [(RPT_ERROR,
                  ''Tangent space can only be computed for tris/quads, aborting'', [])])"
  by (auto simp: BKE_mesh_calc_loop_tangent_single_ex_def Let_def list_ex_iff)

text \<open>
  C9. If one of the \<open>numPolys\<close> polygons has more than four corners, the single-layer
  computation returns the tangent array it was given and adds one error report, whatever
  the tangent solver is: the solver is not run. The same holds for the entry point by mesh
  when the mesh has such a polygon; and when the UV map is not found (by name, or any UV
  map if no name is given) or the mesh has no loop normals, it adds the error report of
  that condition and returns the tangent array as it was.
\<close>

theorem tangent_single_rejects:
  "((\<exists>i<numPolys. 4 < totloop (mps ! i)) \<longrightarrow>
      BKE_mesh_calc_loop_tangent_single_ex genTangSpace mvs numVerts mls r_looptangent loopnors
        loopuvs numLoops mps numPolys reports
      = (r_looptangent,
         reports @ [(RPT_ERROR,
                     ''Tangent space can only be computed for tris/quads, aborting'', [])]))
   \<and> (let loopuvs' = (case uvmap of
                        Some name \<Rightarrow> CustomData_get_layer_named_uv (ldata mesh) name
                      | None \<Rightarrow> CustomData_get_layer_uv (ldata mesh));
            r = BKE_mesh_calc_loop_tangent_single genTangSpace mesh uvmap r_looptangent reports
        in (loopuvs' = None \<longrightarrow>
              r = (r_looptangent,
                   reports @ [(RPT_ERROR,
                     ''Tangent space computation needs a UV Map, \"%s\" not found, aborting'',
                     [uvmap])]))
         \<and> (loopuvs' \<noteq> None \<and> cd_normal (ldata mesh) = None \<longrightarrow>
              r = (r_looptangent,
                   reports @ [(RPT_ERROR,
                     ''Tangent space computation needs loop normals, none found, aborting'',
                     [])]))
         \<and> (loopuvs' \<noteq> None \<and> cd_normal (ldata mesh) \<noteq> None
              \<and> (\<exists>i<totpoly mesh. 4 < totloop (cd_mpoly (pdata mesh) ! i)) \<longrightarrow>
              r = (r_looptangent,
                   reports @ [(RPT_ERROR,
                     ''Tangent space can only be computed for tris/quads, aborting'', [])])))"
proof -
  have a: "(\<exists>i<numPolys. 4 < totloop (mps ! i)) \<longrightarrow>
      BKE_mesh_calc_loop_tangent_single_ex genTangSpace mvs numVerts mls r_looptangent loopnors
        loopuvs numLoops mps numPolys reports
      = (r_looptangent,
         reports @ [(RPT_ERROR,
                     ''Tangent space can only be computed for tris/quads, aborting'', [])])"
    using tangent_single_ex_ngon by blast
  have b: "\<And>uvs nors. (\<exists>i<totpoly mesh. 4 < totloop (cd_mpoly (pdata mesh) ! i)) \<Longrightarrow>
      BKE_mesh_calc_loop_tangent_single_ex genTangSpace (cd_mvert (vdata mesh)) (totvert mesh)
        (cd_mloop (ldata mesh)) r_looptangent nors uvs (mesh_totloop mesh)
        (cd_mpoly (pdata mesh)) (totpoly mesh) reports
      = (r_looptangent,
         reports @ [(RPT_ERROR,
                     ''Tangent space can only be computed for tris/quads, aborting'', [])])"
    using tangent_single_ex_ngon by blast
  show ?thesis
    using a b
    by (auto simp: Let_def BKE_mesh_calc_loop_tangent_single_def split: option.splits)
qed

theorem tangent_single_rejects_witness:
  "(\<exists>i<totpoly example_ngon_mesh. 4 < totloop (cd_mpoly (pdata example_ngon_mesh) ! i))
   \<and> CustomData_get_layer_named_uv (ldata example_ngon_mesh) ''UVMap'' \<noteq> None
   \<and> cd_normal (ldata example_ngon_mesh) \<noteq> None
   \<and> BKE_mesh_calc_loop_tangent_single (\<lambda>m. replicate 5 (1, 0, 0, 1)) example_ngon_mesh
        (Some ''UVMap'') [(0, 0, 0, 0)] []
       = ([(0, 0, 0, 0)],
          [(RPT_ERROR, ''Tangent space can only be computed for tris/quads, aborting'', [])])
   \<and> CustomData_get_layer_named_uv (ldata example_ngon_mesh) ''Missing'' = None
   \<and> BKE_mesh_calc_loop_tangent_single (\<lambda>m. replicate 5 (1, 0, 0, 1)) example_ngon_mesh
        (Some ''Missing'') [(0, 0, 0, 0)] []
       = ([(0, 0, 0, 0)],
          [(RPT_ERROR,
            ''Tangent space computation needs a UV Map, \"%s\" not found, aborting'',
            [Some ''Missing''])])"
proof -
  have h1: "\<exists>i<totpoly example_ngon_mesh. 4 < totloop (cd_mpoly (pdata example_ngon_mesh) ! i)"
    by (rule exI [of _ 0]) (simp add: example_ngon_mesh_def)
  have h2: "CustomData_get_layer_named_uv (ldata example_ngon_mesh) ''UVMap'' \<noteq> None"
    by (simp add: example_ngon_mesh_def CustomData_get_layer_named_uv_def)
  have h3: "cd_normal (ldata example_ngon_mesh) \<noteq> None"
    by (simp add: example_ngon_mesh_def)
  have h4: "CustomData_get_layer_named_uv (ldata example_ngon_mesh) ''Missing'' = None"
    by (simp add: example_ngon_mesh_def CustomData_get_layer_named_uv_def)
  note t1 = tangent_single_rejects [where uvmap = "Some ''UVMap''" and mesh = example_ngon_mesh
              and genTangSpace = "\<lambda>m. replicate 5 (1, 0, 0, 1)" and reports = "[]"
              and r_looptangent = "[(0, 0, 0, 0)]", unfolded Let_def, THEN conjunct2]
  note t2 = tangent_single_rejects [where uvmap = "Some ''Missing''" and mesh = example_ngon_mesh
              and genTangSpace = "\<lambda>m. replicate 5 (1, 0, 0, 1)" and reports = "[]"
              and r_looptangent = "[(0, 0, 0, 0)]", unfolded Let_def, THEN conjunct2]
  have a: "BKE_mesh_calc_loop_tangent_single (\<lambda>m. replicate 5 (1, 0, 0, 1)) example_ngon_mesh
        (Some ''UVMap'') [(0, 0, 0, 0)] []
       = ([(0, 0, 0, 0)],
          [] @ [(RPT_ERROR, ''Tangent space can only be computed for tris/quads, aborting'', [])])"
    using t1 h1 h2 h3 by simp
  have b: "BKE_mesh_calc_loop_tangent_single (\<lambda>m. replicate 5 (1, 0, 0, 1)) example_ngon_mesh
        (Some ''Missing'') [(0, 0, 0, 0)] []
       = ([(0, 0, 0, 0)],
          [] @ [(RPT_ERROR,
            ''Tangent space computation needs a UV Map, \"%s\" not found, aborting'',
            [Some ''Missing''])])"
    using t2 h4 by simp
  show ?thesis using h1 h2 h3 h4 a b by simp
qed

subsection \<open>The entry point\<close>

lemma counts_map_subdiv_mesh:
  "(\<And>m. mesh_counts (f m) = mesh_counts m) \<Longrightarrow>
   output_counts (map_subdiv_mesh f ctx) = output_counts ctx"
  by (cases "subdiv_mesh ctx") (simp_all add: output_counts_def)

lemma mesh_counts_maps [simp]:
  "mesh_counts (map_vdata fv m) = mesh_counts m"
  "mesh_counts (map_edata fe m) = mesh_counts m"
  "mesh_counts (map_ldata fl m) = mesh_counts m"
  "mesh_counts (map_pdata fp m) = mesh_counts m"
  "mesh_counts (m\<lparr>subsurf_face_dot_tags := t\<rparr>) = mesh_counts m"
  by (simp_all add: mesh_counts_def map_vdata_def map_edata_def map_ldata_def map_pdata_def)

lemma output_counts_update [simp]:
  "output_counts (ctx\<lparr>accumulated_counters := cs\<rparr>) = output_counts ctx"
  "output_counts (ctx\<lparr>vert_to_edge_map := em\<rparr>) = output_counts ctx"
  "output_counts (ctx\<lparr>faults := fs\<rparr>) = output_counts ctx"
  by (simp_all add: output_counts_def)

lemma counts_setters [simp]:
  "output_counts (set_vert_co i p ctx) = output_counts ctx"
  "output_counts (set_orco_layer l ctx) = output_counts ctx"
  "output_counts (set_vert_origindex i x ctx) = output_counts ctx"
  "output_counts (set_face_dot_tag i b ctx) = output_counts ctx"
  "output_counts (set_edge_flag i f ctx) = output_counts ctx"
  "output_counts (set_edge_verts i a c ctx) = output_counts ctx"
  "output_counts (set_edge_origindex i x ctx) = output_counts ctx"
  "output_counts (set_loop_indices i a c ctx) = output_counts ctx"
  by (simp_all add: set_vert_co_def set_orco_layer_def set_vert_origindex_def
        set_face_dot_tag_def set_edge_flag_def set_edge_verts_def set_edge_origindex_def
        set_loop_indices_def counts_map_subdiv_mesh)

lemma counts_write_orco [simp]:
  "output_counts (write_orco i p ctx) = output_counts ctx"
  by (simp add: write_orco_def split: option.splits)

lemma counts_orco_evaluate [simp]:
  "output_counts (subdiv_vertex_orco_evaluate ctx p u v i) = output_counts ctx"
  by (simp add: subdiv_vertex_orco_evaluate_def Let_def split: prod.splits)

lemma counts_accumulate [simp]:
  "output_counts (subdiv_accumulate_vertex_displacement ctx p u v i) = output_counts ctx"
  by (simp add: subdiv_accumulate_vertex_displacement_def Let_def
        split: prod.splits option.splits)

lemma counts_vertex_data [simp]:
  "output_counts (subdiv_vertex_data_copy ctx ci si) = output_counts ctx"
  "output_counts (subdiv_vertex_data_interpolate ctx si vi u v) = output_counts ctx"
  "output_counts (subdiv_mesh_vertex_of_loose_edge_interpolate ctx e u si) = output_counts ctx"
  by (simp_all add: subdiv_vertex_data_copy_def subdiv_vertex_data_interpolate_def
        subdiv_mesh_vertex_of_loose_edge_interpolate_def Let_def counts_map_subdiv_mesh)

lemma counts_evaluate [simp]:
  "output_counts (evaluate_vertex_and_apply_displacement_copy ctx p u v ci si) = output_counts ctx"
  "output_counts (evaluate_vertex_and_apply_displacement_interpolate ctx p u v vi si)
     = output_counts ctx"
  by (simp_all add: evaluate_vertex_and_apply_displacement_copy_def
        evaluate_vertex_and_apply_displacement_interpolate_def Let_def)

lemma counts_tag_center [simp]:
  "output_counts (subdiv_mesh_tag_center_vertex cp i u v ctx) = output_counts ctx"
  by (simp add: subdiv_mesh_tag_center_vertex_def)

lemma counts_copy_edge_data [simp]:
  "output_counts (subdiv_copy_edge_data K ctx i ce) = output_counts ctx"
  by (simp add: subdiv_copy_edge_data_def Let_def counts_map_subdiv_mesh split: option.splits)

lemma counts_loop_data [simp]:
  "output_counts (subdiv_interpolate_loop_data ctx i li u v) = output_counts ctx"
  "output_counts (subdiv_eval_uv_layer ctx i p u v) = output_counts ctx"
  "output_counts (subdiv_copy_poly_data ctx i cp) = output_counts ctx"
  by (simp_all add: subdiv_interpolate_loop_data_def subdiv_eval_uv_layer_def
        subdiv_copy_poly_data_def Let_def counts_map_subdiv_mesh)

lemma counts_callbacks [simp]:
  "output_counts (fst (subdiv_mesh_vertex_displacement_every_corner st p u v a b c d))
     = output_counts (fst st)"
  "output_counts (fst (subdiv_mesh_vertex_displacement_every_edge st p u v a b c d))
     = output_counts (fst st)"
  "output_counts (fst (subdiv_mesh_vertex_corner st p u v a b c d)) = output_counts (fst st)"
  "output_counts (fst (subdiv_mesh_vertex_edge K st p u v a b c d)) = output_counts (fst st)"
  "output_counts (fst (subdiv_mesh_vertex_inner K st p u v a b c)) = output_counts (fst st)"
  "output_counts (fst (subdiv_mesh_edge K st ce se l a b)) = output_counts (fst st)"
  "output_counts (fst (subdiv_mesh_loop K st p u v a b c d e g)) = output_counts (fst st)"
  "output_counts (fst (subdiv_mesh_poly st a b c d)) = output_counts (fst st)"
  "output_counts (fst (subdiv_mesh_vertex_loose st a b)) = output_counts (fst st)"
  "output_counts (fst (subdiv_mesh_vertex_of_loose_edge st a u b)) = output_counts (fst st)"
  by (simp_all add: subdiv_mesh_vertex_displacement_every_corner_def
        subdiv_mesh_vertex_displacement_every_edge_def
        subdiv_mesh_vertex_displacement_every_corner_or_edge_def
        subdiv_mesh_vertex_corner_def subdiv_mesh_vertex_edge_def subdiv_mesh_vertex_inner_def
        subdiv_mesh_edge_def subdiv_mesh_loop_def subdiv_mesh_poly_def
        subdiv_mesh_vertex_loose_def subdiv_mesh_vertex_of_loose_edge_def Let_def
        counts_map_subdiv_mesh)

lemma counts_dispatch:
  "output_counts (fst (foreach_dispatch (setup_foreach_callbacks K c0) ev st))
     = output_counts (fst st)"
  by (cases ev) (simp_all add: setup_foreach_callbacks_def)

lemma counts_fold_dispatch:
  "output_counts (fst (fold (foreach_dispatch (setup_foreach_callbacks K c0)) evs st))
     = output_counts (fst st)"
  by (induction evs arbitrary: st) (simp_all add: counts_dispatch)

lemma counts_topology_info:
  "output_counts (snd (subdiv_mesh_topology_info K ctx nv ne nl np)) = Some (nv, ne, nl, np)"
  by (simp add: subdiv_mesh_topology_info_def Let_def subdiv_mesh_prepare_accumulator_def
        output_counts_def mesh_counts_def BKE_mesh_new_nomain_from_template_ex_def)

lemma counts_foreach:
  "output_counts (fst (snd (BKE_subdiv_foreach_subdiv_geometry (setup_foreach_callbacks K c0)
      trav (ctx, tls))))
     = Some (num_vertices trav, num_edges trav, num_loops trav, num_polygons trav)"
proof -
  have ti: "topology_info (setup_foreach_callbacks K c0) = Some (subdiv_mesh_topology_info K)"
    by (simp add: setup_foreach_callbacks_def)
  obtain ok ctx1 where r: "subdiv_mesh_topology_info K ctx (num_vertices trav) (num_edges trav)
        (num_loops trav) (num_polygons trav) = (ok, ctx1)"
    by (cases "subdiv_mesh_topology_info K ctx (num_vertices trav) (num_edges trav)
        (num_loops trav) (num_polygons trav)") blast
  have c1: "output_counts ctx1
      = Some (num_vertices trav, num_edges trav, num_loops trav, num_polygons trav)"
    using counts_topology_info [of K ctx "num_vertices trav" "num_edges trav" "num_loops trav"
            "num_polygons trav"] r by simp
  show ?thesis
    by (simp add: BKE_subdiv_foreach_subdiv_geometry_def ti r foreach_elements_def Let_def
          counts_fold_dispatch c1)
qed

text \<open>
  C2. If the evaluator setup failed and the coarse mesh has a polygon, the entry point
  returns the null pointer: no mesh. If the setup failed and the coarse mesh has no
  polygon, the call goes on as after a successful setup: the traversal runs, and the mesh
  the topology callback allocated, with the four counts of the traversal, is returned.
\<close>

theorem to_mesh_setup_failure:
  "(totpoly coarse \<noteq> 0 \<longrightarrow> BKE_subdiv_to_mesh K False trav sd stg coarse = None)
   \<and> (totpoly coarse = 0 \<longrightarrow>
        BKE_subdiv_to_mesh K False trav sd stg coarse
          = BKE_subdiv_to_mesh K True trav sd stg coarse
      \<and> (\<exists>m. BKE_subdiv_to_mesh K False trav sd stg coarse = Some m
             \<and> totvert m = num_vertices trav \<and> totedge m = num_edges trav
             \<and> mesh_totloop m = num_loops trav \<and> totpoly m = num_polygons trav))"
proof -
  let ?c0 = "\<lparr>settings = stg, coarse_mesh = coarse, subdiv = sd, subdiv_mesh = None,
              accumulated_counters = None,
              have_displacement = (displacement_evaluator sd \<noteq> None),
              vert_to_edge_map = None, faults = []\<rparr>"
  have run: "BKE_subdiv_to_mesh K True trav sd stg coarse
        = subdiv_mesh (fst (snd (BKE_subdiv_foreach_subdiv_geometry
            (setup_foreach_callbacks K ?c0) trav (?c0, tls_zero))))"
    "totpoly coarse = 0 \<Longrightarrow>
      BKE_subdiv_to_mesh K False trav sd stg coarse
        = subdiv_mesh (fst (snd (BKE_subdiv_foreach_subdiv_geometry
            (setup_foreach_callbacks K ?c0) trav (?c0, tls_zero))))"
    by (simp_all add: BKE_subdiv_to_mesh_def Let_def)
  have cnt: "map_option mesh_counts (subdiv_mesh (fst (snd (BKE_subdiv_foreach_subdiv_geometry
            (setup_foreach_callbacks K ?c0) trav (?c0, tls_zero)))))
       = Some (num_vertices trav, num_edges trav, num_loops trav, num_polygons trav)"
    using counts_foreach [of K ?c0 trav ?c0 tls_zero] by (simp add: output_counts_def)
  have a: "totpoly coarse \<noteq> 0 \<Longrightarrow> BKE_subdiv_to_mesh K False trav sd stg coarse = None"
    by (simp add: BKE_subdiv_to_mesh_def)
  have b: "totpoly coarse = 0 \<Longrightarrow>
      BKE_subdiv_to_mesh K False trav sd stg coarse = BKE_subdiv_to_mesh K True trav sd stg coarse"
    by (simp add: run)
  have c: "totpoly coarse = 0 \<Longrightarrow>
      \<exists>m. BKE_subdiv_to_mesh K False trav sd stg coarse = Some m
             \<and> totvert m = num_vertices trav \<and> totedge m = num_edges trav
             \<and> mesh_totloop m = num_loops trav \<and> totpoly m = num_polygons trav"
    using cnt by (auto simp: run mesh_counts_def)
  show ?thesis using a b c by blast
qed

theorem to_mesh_setup_failure_witness:
  "totpoly example_mesh \<noteq> 0
   \<and> BKE_subdiv_to_mesh example_constants False example_traversal example_subdiv
        \<lparr>resolution = 3, use_optimal_display = False\<rparr> example_mesh = None
   \<and> totpoly example_wire_mesh = 0
   \<and> (\<exists>m. BKE_subdiv_to_mesh example_constants False example_wire_traversal example_subdiv
              \<lparr>resolution = 3, use_optimal_display = False\<rparr> example_wire_mesh = Some m
          \<and> totvert m = 3 \<and> totedge m = 2 \<and> mesh_totloop m = 0 \<and> totpoly m = 0)"
proof -
  have h1: "totpoly example_mesh \<noteq> 0" by (simp add: example_mesh_def)
  have h2: "totpoly example_wire_mesh = 0" by (simp add: example_wire_mesh_def)
  note t1 = to_mesh_setup_failure [of example_mesh example_constants example_traversal
              example_subdiv "\<lparr>resolution = 3, use_optimal_display = False\<rparr>"]
  note t2 = to_mesh_setup_failure [of example_wire_mesh example_constants
              example_wire_traversal example_subdiv
              "\<lparr>resolution = 3, use_optimal_display = False\<rparr>"]
  have a: "BKE_subdiv_to_mesh example_constants False example_traversal example_subdiv
        \<lparr>resolution = 3, use_optimal_display = False\<rparr> example_mesh = None"
    using t1 h1 by blast
  have b: "\<exists>m. BKE_subdiv_to_mesh example_constants False example_wire_traversal example_subdiv
              \<lparr>resolution = 3, use_optimal_display = False\<rparr> example_wire_mesh = Some m
          \<and> totvert m = num_vertices example_wire_traversal
          \<and> totedge m = num_edges example_wire_traversal
          \<and> mesh_totloop m = num_loops example_wire_traversal
          \<and> totpoly m = num_polygons example_wire_traversal"
    using t2 h2 by blast
  show ?thesis
    using h1 h2 a b by (simp add: example_wire_traversal_def)
qed

end
